theory Spec2Isabelle
  imports Complex_Main
begin

section \<open>Data model\<close>

text \<open>
  The solvers of \<^verbatim>\<open>ZOF_CLI.py\<close> and \<^verbatim>\<open>app.py\<close> compute on Python floats. The six
  methods and the two front ends are read first with a float as an exact real number,
  which is what their control flow needs (returns, failures, exceptions, the length of a
  trace): rounding, overflow to infinity and NaN are not part of that reading. They are
  part of the second one, further down, where bisection and regula falsi run on binary64
  numbers, for the properties that depend on the arithmetic. What the code does beyond
  arithmetic is explicit: an exception raised while evaluating the user's function (or by
  the solver itself) is a value, the loop \<^verbatim>\<open>for i in range(1, max_iter + 1)\<close> runs a
  body over the list \<open>[1..max_iter]\<close>, and an iteration record, a Python dict, is an
  association list in insertion order.
\<close>

datatype exn =
  ZeroDivisionError | ValueError | OverflowError | TypeError
  | UnboundLocalError | IndexError | KeyError

datatype pyval = PInt int | PFloat real | PStr string

type_synonym row = "(string \<times> pyval) list"

text \<open>A compiled function: a float in, a float out, or an exception.\<close>

type_synonym pyfun = "real \<Rightarrow> exn + real"

text \<open>
  What a solver of \<^verbatim>\<open>ZOF_CLI.py\<close> returns: the pair \<^verbatim>\<open>(root, iterations)\<close>, or
  the pair \<^verbatim>\<open>(None, message)\<close>.
\<close>

datatype ret = Root real "row list" | Fail string

text \<open>
  One pass through a loop body ends in one of three ways: it falls through to the next
  iteration with the updated local variables, it executes a \<^verbatim>\<open>return\<close>, or an
  exception leaves it.
\<close>

datatype ('s, 'r) ctl = Continue 's | Return 'r | Raise exn

fun for_loop :: "(int \<Rightarrow> 's \<Rightarrow> ('s, 'r) ctl) \<Rightarrow> int list \<Rightarrow> 's \<Rightarrow> ('s, 'r) ctl" where
  "for_loop body [] s = Continue s"
| "for_loop body (i # is) s =
    (case body i s of
       Continue s' \<Rightarrow> for_loop body is s'
     | Return r \<Rightarrow> Return r
     | Raise e \<Rightarrow> Raise e)"

section \<open>The six methods of ZOF\_CLI.py\<close>

fun bisection_body ::
  "pyfun \<Rightarrow> real \<Rightarrow> int \<Rightarrow> real \<times> real \<times> row list \<Rightarrow> (real \<times> real \<times> row list, ret) ctl" where
  "bisection_body f tol i (a, b, iterations) =
    (let c = (a + b) / 2 in
     case f c of Inl e \<Rightarrow> Raise e | Inr fc \<Rightarrow>
      (let error = \<bar>b - a\<bar>;
           iterations' = iterations @
             [[(''iter'', PInt i), (''a'', PFloat a), (''b'', PFloat b), (''mid'', PFloat c),
               (''f_mid'', PFloat fc), (''error'', PFloat error)]]
       in
       if \<bar>fc\<bar> < tol \<or> error < tol then Return (Root c iterations')
       else (case f a of Inl e \<Rightarrow> Raise e | Inr fa \<Rightarrow>
         if fa * fc < 0 then Continue (a, c, iterations')
         else Continue (c, b, iterations'))))"

definition bisection :: "pyfun \<Rightarrow> real \<Rightarrow> real \<Rightarrow> real \<Rightarrow> int \<Rightarrow> exn + ret" where
  "bisection f a b tol max_iter =
    (case f a of Inl e \<Rightarrow> Inl e | Inr fa \<Rightarrow>
      (case f b of Inl e \<Rightarrow> Inl e | Inr fb \<Rightarrow>
        if fa * fb \<ge> 0
        then Inr (Fail ''Bisection fails: f(a) and f(b) must have opposite signs.'')
        else
          (case for_loop (bisection_body f tol) [1..max_iter] (a, b, []) of
             Continue (a', b', iterations) \<Rightarrow> Inr (Root ((a' + b') / 2) iterations)
           | Return r \<Rightarrow> Inr r
           | Raise e \<Rightarrow> Inl e)))"

text \<open>
  In \<^verbatim>\<open>regula_falsi\<close> the variable \<^verbatim>\<open>c\<close> is bound only inside the loop body; the
  final \<^verbatim>\<open>return c, iterations\<close> reads it, so the loop state carries \<open>c\<close> as an
  option and reading it unbound raises.
\<close>

fun regula_falsi_body ::
  "pyfun \<Rightarrow> real \<Rightarrow> int \<Rightarrow> real \<times> real \<times> real option \<times> row list
    \<Rightarrow> (real \<times> real \<times> real option \<times> row list, ret) ctl" where
  "regula_falsi_body f tol i (a, b, c0, iterations) =
    (case f a of Inl e \<Rightarrow> Raise e | Inr fa \<Rightarrow>
      (case f b of Inl e \<Rightarrow> Raise e | Inr fb \<Rightarrow>
        if fb - fa = 0 then Return (Fail ''Division by zero encountered.'')
        else
          (let c = (a * fb - b * fa) / (fb - fa) in
           case f c of Inl e \<Rightarrow> Raise e | Inr fc \<Rightarrow>
            (let error = \<bar>fc\<bar>;
                 iterations' = iterations @
                   [[(''iter'', PInt i), (''a'', PFloat a), (''b'', PFloat b), (''c'', PFloat c),
                     (''f_c'', PFloat fc), (''error'', PFloat error)]]
             in
             if \<bar>fc\<bar> < tol then Return (Root c iterations')
             else (case f a of Inl e \<Rightarrow> Raise e | Inr fa' \<Rightarrow>
               if fa' * fc < 0 then Continue (a, c, Some c, iterations')
               else Continue (c, b, Some c, iterations'))))))"

definition regula_falsi :: "pyfun \<Rightarrow> real \<Rightarrow> real \<Rightarrow> real \<Rightarrow> int \<Rightarrow> exn + ret" where
  "regula_falsi f a b tol max_iter =
    (case f a of Inl e \<Rightarrow> Inl e | Inr fa \<Rightarrow>
      (case f b of Inl e \<Rightarrow> Inl e | Inr fb \<Rightarrow>
        if fa * fb \<ge> 0
        then Inr (Fail ''Regula Falsi fails: f(a) and f(b) must have opposite signs.'')
        else
          (case for_loop (regula_falsi_body f tol) [1..max_iter] (a, b, None, []) of
             Continue (a', b', c, iterations) \<Rightarrow>
               (case c of None \<Rightarrow> Inl UnboundLocalError | Some c' \<Rightarrow> Inr (Root c' iterations))
           | Return r \<Rightarrow> Inr r
           | Raise e \<Rightarrow> Inl e)))"

fun secant_body ::
  "pyfun \<Rightarrow> real \<Rightarrow> int \<Rightarrow> real \<times> real \<times> row list \<Rightarrow> (real \<times> real \<times> row list, ret) ctl" where
  "secant_body f tol i (x0, x1, iterations) =
    (case f x0 of Inl e \<Rightarrow> Raise e | Inr fx0 \<Rightarrow>
      (case f x1 of Inl e \<Rightarrow> Raise e | Inr fx1 \<Rightarrow>
        if fx1 - fx0 = 0 then Return (Fail ''Division by zero: f(x1) - f(x0) is zero.'')
        else
          (let x2 = x1 - (fx1 * (x1 - x0)) / (fx1 - fx0);
               error = \<bar>x2 - x1\<bar>;
               iterations' = iterations @
                 [[(''iter'', PInt i), (''x_prev'', PFloat x0), (''x_curr'', PFloat x1),
                   (''x_new'', PFloat x2), (''error'', PFloat error)]]
           in
           if error < tol then Return (Root x2 iterations')
           else Continue (x1, x2, iterations'))))"

definition secant :: "pyfun \<Rightarrow> real \<Rightarrow> real \<Rightarrow> real \<Rightarrow> int \<Rightarrow> exn + ret" where
  "secant f x0 x1 tol max_iter =
    (case for_loop (secant_body f tol) [1..max_iter] (x0, x1, []) of
       Continue (x0', x1', iterations) \<Rightarrow> Inr (Root x1' iterations)
     | Return r \<Rightarrow> Inr r
     | Raise e \<Rightarrow> Inl e)"

fun newton_raphson_body ::
  "pyfun \<Rightarrow> pyfun \<Rightarrow> real \<Rightarrow> int \<Rightarrow> real \<times> row list \<Rightarrow> (real \<times> row list, ret) ctl" where
  "newton_raphson_body f df tol i (x_curr, iterations) =
    (case f x_curr of Inl e \<Rightarrow> Raise e | Inr fx \<Rightarrow>
      (case df x_curr of Inl e \<Rightarrow> Raise e | Inr dfx \<Rightarrow>
        if dfx = 0 then Return (Fail ''Derivative is zero. Method fails.'')
        else
          (let x_next = x_curr - (fx / dfx);
               error = \<bar>x_next - x_curr\<bar>;
               iterations' = iterations @
                 [[(''iter'', PInt i), (''x_curr'', PFloat x_curr), (''f_x'', PFloat fx),
                   (''df_x'', PFloat dfx), (''x_next'', PFloat x_next),
                   (''error'', PFloat error)]]
           in
           if error < tol then Return (Root x_next iterations')
           else Continue (x_next, iterations'))))"

definition newton_raphson :: "pyfun \<Rightarrow> pyfun \<Rightarrow> real \<Rightarrow> real \<Rightarrow> int \<Rightarrow> exn + ret" where
  "newton_raphson f df x0 tol max_iter =
    (case for_loop (newton_raphson_body f df tol) [1..max_iter] (x0, []) of
       Continue (x_curr, iterations) \<Rightarrow> Inr (Root x_curr iterations)
     | Return r \<Rightarrow> Inr r
     | Raise e \<Rightarrow> Inl e)"

text \<open>
  In \<^verbatim>\<open>fixed_point\<close> the divergence break comes last in the body, after the record is
  appended, the tolerance is tested and \<^verbatim>\<open>x_curr\<close> is updated.
\<close>

fun fixed_point_body ::
  "pyfun \<Rightarrow> real \<Rightarrow> int \<Rightarrow> real \<times> row list \<Rightarrow> (real \<times> row list, ret) ctl" where
  "fixed_point_body g tol i (x_curr, iterations) =
    (case g x_curr of Inl e \<Rightarrow> Raise e | Inr x_next \<Rightarrow>
      (let error = \<bar>x_next - x_curr\<bar>;
           iterations' = iterations @
             [[(''iter'', PInt i), (''x_curr'', PFloat x_curr), (''g_x'', PFloat x_next),
               (''error'', PFloat error)]]
       in
       if error < tol then Return (Root x_next iterations')
       else if error > 10000000000 then Return (Fail ''Method diverged.'')
       else Continue (x_next, iterations')))"

definition fixed_point :: "pyfun \<Rightarrow> real \<Rightarrow> real \<Rightarrow> int \<Rightarrow> exn + ret" where
  "fixed_point g x0 tol max_iter =
    (case for_loop (fixed_point_body g tol) [1..max_iter] (x0, []) of
       Continue (x_curr, iterations) \<Rightarrow> Inr (Root x_curr iterations)
     | Return r \<Rightarrow> Inr r
     | Raise e \<Rightarrow> Inl e)"

text \<open>
  \<^verbatim>\<open>modified_secant\<close> perturbs by \<^verbatim>\<open>delta\<close> itself, \<^verbatim>\<open>f(x_curr + delta)\<close>, as its
  second comment says; the first comment of the source gives the other variant, with
  \<^verbatim>\<open>delta * x\<close>, which the code does not compute.
\<close>

fun modified_secant_body ::
  "pyfun \<Rightarrow> real \<Rightarrow> real \<Rightarrow> int \<Rightarrow> real \<times> row list \<Rightarrow> (real \<times> row list, ret) ctl" where
  "modified_secant_body f delta tol i (x_curr, iterations) =
    (case f x_curr of Inl e \<Rightarrow> Raise e | Inr fx \<Rightarrow>
      (case f (x_curr + delta) of Inl e \<Rightarrow> Raise e | Inr fx_delta \<Rightarrow>
        if fx_delta - fx = 0 then Return (Fail ''Division by zero in Modified Secant.'')
        else
          (let x_next = x_curr - (delta * fx) / (fx_delta - fx);
               error = \<bar>x_next - x_curr\<bar>;
               iterations' = iterations @
                 [[(''iter'', PInt i), (''x_curr'', PFloat x_curr), (''x_next'', PFloat x_next),
                   (''error'', PFloat error)]]
           in
           if error < tol then Return (Root x_next iterations')
           else Continue (x_next, iterations'))))"

definition modified_secant :: "pyfun \<Rightarrow> real \<Rightarrow> real \<Rightarrow> real \<Rightarrow> int \<Rightarrow> exn + ret" where
  "modified_secant f x0 delta tol max_iter =
    (case for_loop (modified_secant_body f delta tol) [1..max_iter] (x0, []) of
       Continue (x_curr, iterations) \<Rightarrow> Inr (Root x_curr iterations)
     | Return r \<Rightarrow> Inr r
     | Raise e \<Rightarrow> Inl e)"

section \<open>The command-line front end: one pass of the loop of main\<close>

text \<open>
  Python's own formatting is not part of the repository and is a parameter: \<open>py_format\<close>
  is \<^verbatim>\<open>format(value, spec)\<close> (what an f-string field \<^verbatim>\<open>{value:spec}\<close> does),
  \<open>py_str\<close> is \<^verbatim>\<open>str\<close> on a number and \<open>py_str_exn\<close> is \<^verbatim>\<open>str\<close> on an exception.
\<close>

record pylib =
  py_format :: "string \<Rightarrow> pyval \<Rightarrow> string"
  py_str :: "pyval \<Rightarrow> string"
  py_str_exn :: "exn \<Rightarrow> string"

definition ljust :: "nat \<Rightarrow> string \<Rightarrow> string" where
  "ljust n s = s @ replicate (n - length s) CHR '' ''"

fun join :: "string \<Rightarrow> string list \<Rightarrow> string" where
  "join sep [] = []"
| "join sep [x] = x"
| "join sep (x # y # ys) = x @ sep @ join sep (y # ys)"

text \<open>
  The output block of \<^verbatim>\<open>main\<close> (the lines under \<^verbatim>\<open># Output\<close>), on the variables
  \<^verbatim>\<open>result\<close>, \<^verbatim>\<open>history\<close> and \<^verbatim>\<open>error_msg\<close>. It returns the lines printed and the
  exception that ended it, if any: \<^verbatim>\<open>history[-1]\<close> raises IndexError on an empty list,
  and formatting \<^verbatim>\<open>None\<close> with \<^verbatim>\<open>.6f\<close> raises TypeError.
\<close>

definition report ::
  "pylib \<Rightarrow> real option \<Rightarrow> row list \<Rightarrow> string option \<Rightarrow> string list \<times> exn option" where
  "report py result history error_msg =
    (if (case error_msg of None \<Rightarrow> False | Some m \<Rightarrow> m \<noteq> [])
     then ([CHR 0x0A # ''Error: '' @ the error_msg], None)
     else
       (case result of
          None \<Rightarrow> ([], Some TypeError)
        | Some r \<Rightarrow>
           (let out1 = [CHR 0x0A # ''Root found: '' @ py_format py ''.6f'' (PFloat r),
                        ''Iterations: '' @ py_str py (PInt (int (length history)))]
            in
            case history of
              [] \<Rightarrow> (out1, Some IndexError)
            | first # _ \<Rightarrow>
               (case map_of (last history) ''error'' of
                  None \<Rightarrow> (out1, Some KeyError)
                | Some err \<Rightarrow>
                   (let out2 = out1 @ [''Final Error: '' @ py_format py ''.6e'' err,
                                       CHR 0x0A # ''Iteration Table:''];
                        headers = map fst first;
                        header_row = join '' | '' (map (ljust 10) headers);
                        rule = replicate (length header_row) CHR ''-''
                    in
                    (out2 @ [rule, header_row, rule] @
                       map (\<lambda>row. join '' | ''
                              (map (\<lambda>(k, val). ljust 10 (take 9 (py_str py val))) row)) history,
                     None))))))"

text \<open>
  What \<^verbatim>\<open>result, history = method(...)\<close> followed by
  \<^verbatim>\<open>if result is None: error_msg = history\<close> leaves in the three variables.
\<close>

definition unpack :: "ret \<Rightarrow> real option \<times> row list \<times> string option" where
  "unpack r = (case r of Root c iterations \<Rightarrow> (Some c, iterations, None)
                       | Fail msg \<Rightarrow> (None, [], Some msg))"

text \<open>
  The dispatch on \<^verbatim>\<open>choice\<close>, with the inputs already read and converted: \<open>p\<close> and
  \<open>q\<close> are the two method-specific numbers (\<open>a\<close> and \<open>b\<close>, \<open>x0\<close> and \<open>x1\<close>, or
  \<open>x0\<close> and \<open>delta\<close>; \<open>q\<close> is unused where only \<open>x0\<close> is read), \<open>df\<close> is what
  \<^verbatim>\<open>get_derivative(expr)\<close> gives and \<open>dstr\<close> the derivative as printed. The first
  component is what the branch prints.
\<close>

definition run_choice ::
  "string \<Rightarrow> pyfun \<Rightarrow> exn + pyfun \<Rightarrow> string \<Rightarrow> real \<Rightarrow> int \<Rightarrow> real \<Rightarrow> real
    \<Rightarrow> string list \<times> (exn + real option \<times> row list \<times> string option)" where
  "run_choice choice f df dstr tol max_iter p q =
    (if choice = ''1'' then ([], map_sum id unpack (bisection f p q tol max_iter))
     else if choice = ''2'' then ([], map_sum id unpack (regula_falsi f p q tol max_iter))
     else if choice = ''3'' then ([], map_sum id unpack (secant f p q tol max_iter))
     else if choice = ''4'' then
       (case df of
          Inl e \<Rightarrow> ([], Inl e)
        | Inr df' \<Rightarrow> ([''Calculated Derivative: '' @ dstr],
                      map_sum id unpack (newton_raphson f df' p tol max_iter)))
     else if choice = ''5'' then ([], map_sum id unpack (fixed_point f p tol max_iter))
     else if choice = ''6'' then ([], map_sum id unpack (modified_secant f p q tol max_iter))
     else ([], Inr (None, [], None)))"

text \<open>
  The \<^verbatim>\<open>try\<close> block of \<^verbatim>\<open>main\<close> from \<^verbatim>\<open>result = None\<close> on, with its handler
  \<^verbatim>\<open>except Exception as e: print(f"An error occurred: {e}")\<close>: the lines one pass prints.
\<close>

definition main_pass ::
  "pylib \<Rightarrow> string \<Rightarrow> pyfun \<Rightarrow> exn + pyfun \<Rightarrow> string \<Rightarrow> real \<Rightarrow> int \<Rightarrow> real \<Rightarrow> real
    \<Rightarrow> string list" where
  "main_pass py choice f df dstr tol max_iter p q =
    (case run_choice choice f df dstr tol max_iter p q of
       (out, Inl e) \<Rightarrow> out @ [''An error occurred: '' @ py_str_exn py e]
     | (out, Inr (result, history, error_msg)) \<Rightarrow>
        (case report py result history error_msg of
           (out', None) \<Rightarrow> out @ out'
         | (out', Some e) \<Rightarrow> out @ out' @ [''An error occurred: '' @ py_str_exn py e]))"

section \<open>The web front end: run\_method of app.py\<close>

text \<open>
  \<^verbatim>\<open>run_method\<close> returns a dict: \<^verbatim>\<open>{"error": message}\<close>, where the message is a
  literal or \<^verbatim>\<open>str(e)\<close> of a caught exception, or
  \<^verbatim>\<open>{"root": r, "history": rows, "iters": n}\<close>.
\<close>

datatype resp = Error string | Error_str exn | Result real "row list" int

text \<open>
  The form fields after conversion, in the order the code converts them: a field
  converted with \<^verbatim>\<open>float\<close> or \<^verbatim>\<open>int\<close> is the number or the exception the
  conversion raises; \<open>p_function\<close> is the first component of
  \<^verbatim>\<open>parse_function(func_str)\<close> (\<open>None\<close> when parsing fails) and \<open>p_derivative\<close> is
  \<^verbatim>\<open>get_derivative(expr)\<close>.
\<close>

record params =
  p_function :: "pyfun option"
  p_tolerance :: "exn + real"
  p_max_iter :: "exn + int"
  param_a :: "exn + real"
  param_b :: "exn + real"
  param_x0 :: "exn + real"
  param_x1 :: "exn + real"
  param_delta :: "exn + real"
  p_derivative :: "exn + pyfun"

definition fmt :: "pylib \<Rightarrow> string \<Rightarrow> real \<Rightarrow> pyval" where
  "fmt py spec x = PStr (py_format py spec (PFloat x))"

fun run_bisection_body ::
  "pylib \<Rightarrow> pyfun \<Rightarrow> real \<Rightarrow> int \<Rightarrow> real \<times> real \<times> row list
    \<Rightarrow> (real \<times> real \<times> row list, resp) ctl" where
  "run_bisection_body py f tol i (a, b, history) =
    (let c = (a + b) / 2 in
     case f c of Inl e \<Rightarrow> Raise e | Inr fc \<Rightarrow>
      (let error = \<bar>b - a\<bar>;
           history' = history @
             [[(''iter'', PInt i), (''a'', fmt py ''.4f'' a), (''b'', fmt py ''.4f'' b),
               (''root'', fmt py ''.6f'' c), (''f_root'', fmt py ''.6f'' fc),
               (''error'', fmt py ''.6e'' error)]]
       in
       if \<bar>fc\<bar> < tol \<or> error < tol then Return (Result c history' i)
       else (case f a of Inl e \<Rightarrow> Raise e | Inr fa \<Rightarrow>
         if fa * fc < 0 then Continue (a, c, history')
         else Continue (c, b, history'))))"

definition run_bisection ::
  "pylib \<Rightarrow> pyfun \<Rightarrow> real \<Rightarrow> real \<Rightarrow> real \<Rightarrow> int \<Rightarrow> exn + resp" where
  "run_bisection py f a b tol max_iter =
    (case f a of Inl e \<Rightarrow> Inl e | Inr fa \<Rightarrow>
      (case f b of Inl e \<Rightarrow> Inl e | Inr fb \<Rightarrow>
        if fa * fb \<ge> 0 then Inr (Error ''f(a) and f(b) must have opposite signs'')
        else
          (case for_loop (run_bisection_body py f tol) [1..max_iter] (a, b, []) of
             Continue (a', b', history) \<Rightarrow> Inr (Result ((a' + b') / 2) history max_iter)
           | Return r \<Rightarrow> Inr r
           | Raise e \<Rightarrow> Inl e)))"

fun run_regula_falsi_body ::
  "pylib \<Rightarrow> pyfun \<Rightarrow> real \<Rightarrow> int \<Rightarrow> real \<times> real \<times> real option \<times> row list
    \<Rightarrow> (real \<times> real \<times> real option \<times> row list, resp) ctl" where
  "run_regula_falsi_body py f tol i (a, b, c0, history) =
    (case f a of Inl e \<Rightarrow> Raise e | Inr fa \<Rightarrow>
      (case f b of Inl e \<Rightarrow> Raise e | Inr fb \<Rightarrow>
        if fb - fa = 0 then Return (Error ''Division by zero'')
        else
          (let c = (a * fb - b * fa) / (fb - fa) in
           case f c of Inl e \<Rightarrow> Raise e | Inr fc \<Rightarrow>
            (let error = \<bar>fc\<bar>;
                 history' = history @
                   [[(''iter'', PInt i), (''a'', fmt py ''.4f'' a), (''b'', fmt py ''.4f'' b),
                     (''root'', fmt py ''.6f'' c), (''f_root'', fmt py ''.6f'' fc),
                     (''error'', fmt py ''.6e'' error)]]
             in
             if \<bar>fc\<bar> < tol then Return (Result c history' i)
             else (case f a of Inl e \<Rightarrow> Raise e | Inr fa' \<Rightarrow>
               if fa' * fc < 0 then Continue (a, c, Some c, history')
               else Continue (c, b, Some c, history'))))))"

definition run_regula_falsi ::
  "pylib \<Rightarrow> pyfun \<Rightarrow> real \<Rightarrow> real \<Rightarrow> real \<Rightarrow> int \<Rightarrow> exn + resp" where
  "run_regula_falsi py f a b tol max_iter =
    (case f a of Inl e \<Rightarrow> Inl e | Inr fa \<Rightarrow>
      (case f b of Inl e \<Rightarrow> Inl e | Inr fb \<Rightarrow>
        if fa * fb \<ge> 0 then Inr (Error ''f(a) and f(b) must have opposite signs'')
        else
          (case for_loop (run_regula_falsi_body py f tol) [1..max_iter] (a, b, None, []) of
             Continue (a', b', c, history) \<Rightarrow>
               (case c of None \<Rightarrow> Inl UnboundLocalError
                        | Some c' \<Rightarrow> Inr (Result c' history max_iter))
           | Return r \<Rightarrow> Inr r
           | Raise e \<Rightarrow> Inl e)))"

fun run_secant_body ::
  "pylib \<Rightarrow> pyfun \<Rightarrow> real \<Rightarrow> int \<Rightarrow> real \<times> real \<times> row list
    \<Rightarrow> (real \<times> real \<times> row list, resp) ctl" where
  "run_secant_body py f tol i (x0, x1, history) =
    (case f x0 of Inl e \<Rightarrow> Raise e | Inr fx0 \<Rightarrow>
      (case f x1 of Inl e \<Rightarrow> Raise e | Inr fx1 \<Rightarrow>
        if fx1 - fx0 = 0 then Return (Error ''Division by zero'')
        else
          (let x2 = x1 - (fx1 * (x1 - x0)) / (fx1 - fx0);
               error = \<bar>x2 - x1\<bar>;
               history' = history @
                 [[(''iter'', PInt i), (''x_prev'', fmt py ''.4f'' x0),
                   (''x_curr'', fmt py ''.4f'' x1), (''root'', fmt py ''.6f'' x2),
                   (''error'', fmt py ''.6e'' error)]]
           in
           if error < tol then Return (Result x2 history' i)
           else Continue (x1, x2, history'))))"

definition run_secant ::
  "pylib \<Rightarrow> pyfun \<Rightarrow> real \<Rightarrow> real \<Rightarrow> real \<Rightarrow> int \<Rightarrow> exn + resp" where
  "run_secant py f x0 x1 tol max_iter =
    (case for_loop (run_secant_body py f tol) [1..max_iter] (x0, x1, []) of
       Continue (x0', x1', history) \<Rightarrow> Inr (Result x1' history max_iter)
     | Return r \<Rightarrow> Inr r
     | Raise e \<Rightarrow> Inl e)"

fun run_newton_body ::
  "pylib \<Rightarrow> pyfun \<Rightarrow> pyfun \<Rightarrow> real \<Rightarrow> int \<Rightarrow> real \<times> row list
    \<Rightarrow> (real \<times> row list, resp) ctl" where
  "run_newton_body py f df tol i (x_curr, history) =
    (case f x_curr of Inl e \<Rightarrow> Raise e | Inr fx \<Rightarrow>
      (case df x_curr of Inl e \<Rightarrow> Raise e | Inr dfx \<Rightarrow>
        if dfx = 0 then Return (Error ''Derivative is zero'')
        else
          (let x_next = x_curr - (fx / dfx);
               error = \<bar>x_next - x_curr\<bar>;
               history' = history @
                 [[(''iter'', PInt i), (''x_curr'', fmt py ''.4f'' x_curr),
                   (''f_x'', fmt py ''.4f'' fx), (''df_x'', fmt py ''.4f'' dfx),
                   (''root'', fmt py ''.6f'' x_next), (''error'', fmt py ''.6e'' error)]]
           in
           if error < tol then Return (Result x_next history' i)
           else Continue (x_next, history'))))"

definition run_newton ::
  "pylib \<Rightarrow> pyfun \<Rightarrow> pyfun \<Rightarrow> real \<Rightarrow> real \<Rightarrow> int \<Rightarrow> exn + resp" where
  "run_newton py f df x0 tol max_iter =
    (case for_loop (run_newton_body py f df tol) [1..max_iter] (x0, []) of
       Continue (x_curr, history) \<Rightarrow> Inr (Result x_curr history max_iter)
     | Return r \<Rightarrow> Inr r
     | Raise e \<Rightarrow> Inl e)"

fun run_fixed_point_body ::
  "pylib \<Rightarrow> pyfun \<Rightarrow> real \<Rightarrow> int \<Rightarrow> real \<times> row list \<Rightarrow> (real \<times> row list, resp) ctl" where
  "run_fixed_point_body py f tol i (x_curr, history) =
    (case f x_curr of Inl e \<Rightarrow> Raise e | Inr x_next \<Rightarrow>
      (let error = \<bar>x_next - x_curr\<bar>;
           history' = history @
             [[(''iter'', PInt i), (''x_curr'', fmt py ''.4f'' x_curr),
               (''g_x'', fmt py ''.6f'' x_next), (''error'', fmt py ''.6e'' error)]]
       in
       if error < tol then Return (Result x_next history' i)
       else if error > 10000000000 then Return (Error ''Diverged'')
       else Continue (x_next, history')))"

definition run_fixed_point ::
  "pylib \<Rightarrow> pyfun \<Rightarrow> real \<Rightarrow> real \<Rightarrow> int \<Rightarrow> exn + resp" where
  "run_fixed_point py f x0 tol max_iter =
    (case for_loop (run_fixed_point_body py f tol) [1..max_iter] (x0, []) of
       Continue (x_curr, history) \<Rightarrow> Inr (Result x_curr history max_iter)
     | Return r \<Rightarrow> Inr r
     | Raise e \<Rightarrow> Inl e)"

fun run_modified_secant_body ::
  "pylib \<Rightarrow> pyfun \<Rightarrow> real \<Rightarrow> real \<Rightarrow> int \<Rightarrow> real \<times> row list
    \<Rightarrow> (real \<times> row list, resp) ctl" where
  "run_modified_secant_body py f delta tol i (x_curr, history) =
    (case f x_curr of Inl e \<Rightarrow> Raise e | Inr fx \<Rightarrow>
      (case f (x_curr + delta) of Inl e \<Rightarrow> Raise e | Inr fx_delta \<Rightarrow>
        if fx_delta - fx = 0 then Return (Error ''Division by zero'')
        else
          (let x_next = x_curr - (delta * fx) / (fx_delta - fx);
               error = \<bar>x_next - x_curr\<bar>;
               history' = history @
                 [[(''iter'', PInt i), (''x_curr'', fmt py ''.4f'' x_curr),
                   (''root'', fmt py ''.6f'' x_next), (''error'', fmt py ''.6e'' error)]]
           in
           if error < tol then Return (Result x_next history' i)
           else Continue (x_next, history'))))"

definition run_modified_secant ::
  "pylib \<Rightarrow> pyfun \<Rightarrow> real \<Rightarrow> real \<Rightarrow> real \<Rightarrow> int \<Rightarrow> exn + resp" where
  "run_modified_secant py f x0 delta tol max_iter =
    (case for_loop (run_modified_secant_body py f delta tol) [1..max_iter] (x0, []) of
       Continue (x_curr, history) \<Rightarrow> Inr (Result x_curr history max_iter)
     | Return r \<Rightarrow> Inr r
     | Raise e \<Rightarrow> Inl e)"

text \<open>
  The body of the \<^verbatim>\<open>try\<close> block of \<^verbatim>\<open>run_method\<close>, followed by the final
  \<^verbatim>\<open>return {"error": "Method not implemented"}\<close> that is reached when no branch
  matches \<^verbatim>\<open>method_id\<close>. The six branches above are inline in the source.
\<close>

definition run_method_try :: "pylib \<Rightarrow> string \<Rightarrow> params \<Rightarrow> exn + resp" where
  "run_method_try py method_id ps =
    (case p_tolerance ps of Inl e \<Rightarrow> Inl e | Inr tol \<Rightarrow>
    (case p_max_iter ps of Inl e \<Rightarrow> Inl e | Inr max_iter \<Rightarrow>
    (case p_function ps of None \<Rightarrow> Inr (Error ''Invalid Function String'') | Some f \<Rightarrow>
      if method_id = ''1'' then
        (case param_a ps of Inl e \<Rightarrow> Inl e | Inr a \<Rightarrow>
        (case param_b ps of Inl e \<Rightarrow> Inl e | Inr b \<Rightarrow>
           run_bisection py f a b tol max_iter))
      else if method_id = ''2'' then
        (case param_a ps of Inl e \<Rightarrow> Inl e | Inr a \<Rightarrow>
        (case param_b ps of Inl e \<Rightarrow> Inl e | Inr b \<Rightarrow>
           run_regula_falsi py f a b tol max_iter))
      else if method_id = ''3'' then
        (case param_x0 ps of Inl e \<Rightarrow> Inl e | Inr x0 \<Rightarrow>
        (case param_x1 ps of Inl e \<Rightarrow> Inl e | Inr x1 \<Rightarrow>
           run_secant py f x0 x1 tol max_iter))
      else if method_id = ''4'' then
        (case param_x0 ps of Inl e \<Rightarrow> Inl e | Inr x0 \<Rightarrow>
        (case p_derivative ps of Inl e \<Rightarrow> Inl e | Inr df \<Rightarrow>
           run_newton py f df x0 tol max_iter))
      else if method_id = ''5'' then
        (case param_x0 ps of Inl e \<Rightarrow> Inl e | Inr x0 \<Rightarrow>
           run_fixed_point py f x0 tol max_iter)
      else if method_id = ''6'' then
        (case param_x0 ps of Inl e \<Rightarrow> Inl e | Inr x0 \<Rightarrow>
        (case param_delta ps of Inl e \<Rightarrow> Inl e | Inr delta \<Rightarrow>
           run_modified_secant py f x0 delta tol max_iter))
      else Inr (Error ''Method not implemented''))))"

text \<open>The handler \<^verbatim>\<open>except Exception as e: return {"error": str(e)}\<close> around it.\<close>

definition run_method :: "pylib \<Rightarrow> string \<Rightarrow> params \<Rightarrow> resp" where
  "run_method py method_id ps =
    (case run_method_try py method_id ps of Inl e \<Rightarrow> Error_str e | Inr r \<Rightarrow> r)"

section \<open>Binary64 arithmetic\<close>

text \<open>
  A Python float is an IEEE 754 binary64 number, and every \<^verbatim>\<open>+\<close>, \<^verbatim>\<open>-\<close>, \<^verbatim>\<open>*\<close> and
  \<^verbatim>\<open>/\<close> of the solvers returns the exact result rounded to the nearest binary64 number,
  a tie going to the even mantissa. Where the exact-real reading above would hide what
  the code computes (a rounded midpoint, an overflowing sum, a function value that is
  \<^verbatim>\<open>inf\<close> or \<^verbatim>\<open>nan\<close>), bisection and regula falsi are stated again on this
  arithmetic.

  A finite number is \<open>Finite x\<close> with \<open>x\<close> its value (\<open>Finite 0\<close> is \<^verbatim>\<open>+0.0\<close>);
  \<open>NegZero\<close> is \<^verbatim>\<open>-0.0\<close>.
\<close>

datatype double = Finite real | NegZero | PosInf | NegInf | NaN

text \<open>Rounding a real to the nearest integer, a tie to the even one.\<close>

definition round_half_even :: "real \<Rightarrow> int" where
  "round_half_even y =
    (let n = \<lfloor>y\<rfloor>; d = y - of_int n in
     if d < 1 / 2 then n else if 1 / 2 < d then n + 1 else if even n then n else n + 1)"

text \<open>
  The exponent of the last mantissa bit: \<open>norm_up\<close> and \<open>norm_down\<close> scale a positive
  \<open>m\<close> by powers of two into \<open>[2\<^sup>5\<^sup>2, 2\<^sup>5\<^sup>3)\<close>, counting in \<open>e\<close>, as far as the exponent
  range allows: \<open>e\<close> stops at \<open>-1074\<close> (subnormal numbers) and at \<open>971\<close> (the largest
  binade).
\<close>

function norm_up :: "real \<Rightarrow> int \<Rightarrow> real \<times> int" where
  "norm_up m e = (if 2 ^ 53 \<le> m \<and> e < 971 then norm_up (m / 2) (e + 1) else (m, e))"
  by pat_completeness auto
termination
  by (relation "measure (\<lambda>(m, e). nat (971 - e))") auto

function norm_down :: "real \<Rightarrow> int \<Rightarrow> real \<times> int" where
  "norm_down m e = (if m < 2 ^ 52 \<and> - 1074 < e then norm_down (2 * m) (e - 1) else (m, e))"
  by pat_completeness auto
termination
  by (relation "measure (\<lambda>(m, e). nat (e + 1074))") auto

declare norm_up.simps [simp del] norm_down.simps [simp del]

definition pow2 :: "int \<Rightarrow> real" where
  "pow2 e = (if 0 \<le> e then 2 ^ nat e else 1 / 2 ^ nat (- e))"

text \<open>
  \<open>nform m e\<close>: the mantissa \<open>m\<close> and the exponent \<open>e\<close> are scaled as far as the
  exponent range allows, which is how \<open>normalise\<close> below leaves them.
\<close>

definition nform :: "real \<Rightarrow> int \<Rightarrow> bool" where
  "nform m e \<longleftrightarrow>
    - 1074 \<le> e \<and> e \<le> 971 \<and> (2 ^ 52 \<le> m \<or> e = - 1074) \<and> (m < 2 ^ 53 \<or> e = 971)"

text \<open>
  \<open>nearest x\<close>, for a positive \<open>x\<close>, is \<open>x\<close> with its mantissa rounded to 53 bits
  (fewer for a subnormal number), the exponent unbounded above.
\<close>

definition normalise :: "real \<Rightarrow> real \<times> int" where
  "normalise x = (case norm_up x 0 of (m, e) \<Rightarrow> norm_down m e)"

definition nearest :: "real \<Rightarrow> real" where
  "nearest x = (case normalise x of (m, e) \<Rightarrow> of_int (round_half_even m) * pow2 e)"

text \<open>
  \<open>rnd x\<close> is the binary64 number a result of exact value \<open>x\<close> is stored as: the
  nearest number, \<^verbatim>\<open>inf\<close> when that reaches \<open>2\<^sup>1\<^sup>0\<^sup>2\<^sup>4\<close>; a non-zero \<open>x\<close> that rounds to
  zero keeps its sign.
\<close>

definition rnd :: "real \<Rightarrow> double" where
  "rnd x =
    (if x = 0 then Finite 0
     else
       (let y = nearest \<bar>x\<bar> in
        if 2 ^ 1024 \<le> y then (if 0 < x then PosInf else NegInf)
        else if y = 0 then (if 0 < x then Finite 0 else NegZero)
        else Finite (if 0 < x then y else - y)))"

fun rv :: "double \<Rightarrow> real" where
  "rv (Finite x) = x"
| "rv d = 0"

fun is_inf :: "double \<Rightarrow> bool" where
  "is_inf PosInf = True"
| "is_inf NegInf = True"
| "is_inf d = False"

fun is_zero :: "double \<Rightarrow> bool" where
  "is_zero (Finite x) = (x = 0)"
| "is_zero NegZero = True"
| "is_zero d = False"

fun is_finite :: "double \<Rightarrow> bool" where
  "is_finite (Finite x) = True"
| "is_finite NegZero = True"
| "is_finite d = False"

fun sign_bit :: "double \<Rightarrow> bool" where
  "sign_bit (Finite x) = (x < 0)"
| "sign_bit NegZero = True"
| "sign_bit NegInf = True"
| "sign_bit d = False"

fun dneg :: "double \<Rightarrow> double" where
  "dneg (Finite x) = (if x = 0 then NegZero else Finite (- x))"
| "dneg NegZero = Finite 0"
| "dneg PosInf = NegInf"
| "dneg NegInf = PosInf"
| "dneg NaN = NaN"

fun dabs :: "double \<Rightarrow> double" where
  "dabs (Finite x) = Finite \<bar>x\<bar>"
| "dabs NegZero = Finite 0"
| "dabs PosInf = PosInf"
| "dabs NegInf = PosInf"
| "dabs NaN = NaN"

fun dadd :: "double \<Rightarrow> double \<Rightarrow> double" where
  "dadd NaN y = NaN"
| "dadd x NaN = NaN"
| "dadd PosInf NegInf = NaN"
| "dadd NegInf PosInf = NaN"
| "dadd PosInf y = PosInf"
| "dadd x PosInf = PosInf"
| "dadd NegInf y = NegInf"
| "dadd x NegInf = NegInf"
| "dadd NegZero y = y"
| "dadd x NegZero = x"
| "dadd (Finite x) (Finite y) = rnd (x + y)"

definition dsub :: "double \<Rightarrow> double \<Rightarrow> double" where
  "dsub x y = dadd x (dneg y)"

definition dmul :: "double \<Rightarrow> double \<Rightarrow> double" where
  "dmul x y =
    (if x = NaN \<or> y = NaN then NaN
     else if is_inf x \<and> is_zero y \<or> is_zero x \<and> is_inf y then NaN
     else if is_inf x \<or> is_inf y then (if sign_bit x = sign_bit y then PosInf else NegInf)
     else if is_zero x \<or> is_zero y then (if sign_bit x = sign_bit y then Finite 0 else NegZero)
     else rnd (rv x * rv y))"

text \<open>
  Division by zero is the IEEE result here; Python raises ZeroDivisionError instead. No
  division of the two solvers below has a zero divisor: the divisor is the constant
  \<open>2\<close>, or \<^verbatim>\<open>fb - fa\<close> right after the test \<^verbatim>\<open>(fb - fa) == 0\<close>.
\<close>

definition ddiv :: "double \<Rightarrow> double \<Rightarrow> double" where
  "ddiv x y =
    (if x = NaN \<or> y = NaN then NaN
     else if is_inf x \<and> is_inf y \<or> is_zero x \<and> is_zero y then NaN
     else if is_inf x \<or> is_zero y then (if sign_bit x = sign_bit y then PosInf else NegInf)
     else if is_zero x \<or> is_inf y then (if sign_bit x = sign_bit y then Finite 0 else NegZero)
     else rnd (rv x / rv y))"

text \<open>The comparisons \<^verbatim>\<open><\<close> and \<^verbatim>\<open>==\<close>: false as soon as one side is \<^verbatim>\<open>nan\<close>.\<close>

fun dlt :: "double \<Rightarrow> double \<Rightarrow> bool" where
  "dlt NaN y = False"
| "dlt x NaN = False"
| "dlt x NegInf = False"
| "dlt NegInf y = True"
| "dlt PosInf y = False"
| "dlt x PosInf = True"
| "dlt x y = (rv x < rv y)"

fun deq :: "double \<Rightarrow> double \<Rightarrow> bool" where
  "deq NaN y = False"
| "deq x NaN = False"
| "deq PosInf y = (y = PosInf)"
| "deq x PosInf = False"
| "deq NegInf y = (y = NegInf)"
| "deq x NegInf = False"
| "deq x y = (rv x = rv y)"

definition dge :: "double \<Rightarrow> double \<Rightarrow> bool" where
  "dge x y = (dlt y x \<or> deq x y)"

section \<open>Bisection and regula falsi on binary64 numbers\<close>

datatype dval = DInt int | DFloat double

type_synonym drow = "(string \<times> dval) list"

type_synonym dfun = "double \<Rightarrow> exn + double"

datatype dret = DRoot double "drow list" | DFail string

fun bisection_body64 ::
  "dfun \<Rightarrow> double \<Rightarrow> int \<Rightarrow> double \<times> double \<times> drow list
    \<Rightarrow> (double \<times> double \<times> drow list, dret) ctl" where
  "bisection_body64 f tol i (a, b, iterations) =
    (let c = ddiv (dadd a b) (Finite 2) in
     case f c of Inl e \<Rightarrow> Raise e | Inr fc \<Rightarrow>
      (let error = dabs (dsub b a);
           iterations' = iterations @
             [[(''iter'', DInt i), (''a'', DFloat a), (''b'', DFloat b), (''mid'', DFloat c),
               (''f_mid'', DFloat fc), (''error'', DFloat error)]]
       in
       if dlt (dabs fc) tol \<or> dlt error tol then Return (DRoot c iterations')
       else (case f a of Inl e \<Rightarrow> Raise e | Inr fa \<Rightarrow>
         if dlt (dmul fa fc) (Finite 0) then Continue (a, c, iterations')
         else Continue (c, b, iterations'))))"

definition bisection64 :: "dfun \<Rightarrow> double \<Rightarrow> double \<Rightarrow> double \<Rightarrow> int \<Rightarrow> exn + dret" where
  "bisection64 f a b tol max_iter =
    (case f a of Inl e \<Rightarrow> Inl e | Inr fa \<Rightarrow>
      (case f b of Inl e \<Rightarrow> Inl e | Inr fb \<Rightarrow>
        if dge (dmul fa fb) (Finite 0)
        then Inr (DFail ''Bisection fails: f(a) and f(b) must have opposite signs.'')
        else
          (case for_loop (bisection_body64 f tol) [1..max_iter] (a, b, []) of
             Continue (a', b', iterations) \<Rightarrow>
               Inr (DRoot (ddiv (dadd a' b') (Finite 2)) iterations)
           | Return r \<Rightarrow> Inr r
           | Raise e \<Rightarrow> Inl e)))"

fun regula_falsi_body64 ::
  "dfun \<Rightarrow> double \<Rightarrow> int \<Rightarrow> double \<times> double \<times> double option \<times> drow list
    \<Rightarrow> (double \<times> double \<times> double option \<times> drow list, dret) ctl" where
  "regula_falsi_body64 f tol i (a, b, c0, iterations) =
    (case f a of Inl e \<Rightarrow> Raise e | Inr fa \<Rightarrow>
      (case f b of Inl e \<Rightarrow> Raise e | Inr fb \<Rightarrow>
        if deq (dsub fb fa) (Finite 0) then Return (DFail ''Division by zero encountered.'')
        else
          (let c = ddiv (dsub (dmul a fb) (dmul b fa)) (dsub fb fa) in
           case f c of Inl e \<Rightarrow> Raise e | Inr fc \<Rightarrow>
            (let error = dabs fc;
                 iterations' = iterations @
                   [[(''iter'', DInt i), (''a'', DFloat a), (''b'', DFloat b), (''c'', DFloat c),
                     (''f_c'', DFloat fc), (''error'', DFloat error)]]
             in
             if dlt (dabs fc) tol then Return (DRoot c iterations')
             else (case f a of Inl e \<Rightarrow> Raise e | Inr fa' \<Rightarrow>
               if dlt (dmul fa' fc) (Finite 0) then Continue (a, c, Some c, iterations')
               else Continue (c, b, Some c, iterations'))))))"

definition regula_falsi64 :: "dfun \<Rightarrow> double \<Rightarrow> double \<Rightarrow> double \<Rightarrow> int \<Rightarrow> exn + dret" where
  "regula_falsi64 f a b tol max_iter =
    (case f a of Inl e \<Rightarrow> Inl e | Inr fa \<Rightarrow>
      (case f b of Inl e \<Rightarrow> Inl e | Inr fb \<Rightarrow>
        if dge (dmul fa fb) (Finite 0)
        then Inr (DFail ''Regula Falsi fails: f(a) and f(b) must have opposite signs.'')
        else
          (case for_loop (regula_falsi_body64 f tol) [1..max_iter] (a, b, None, []) of
             Continue (a', b', c, iterations) \<Rightarrow>
               (case c of None \<Rightarrow> Inl UnboundLocalError | Some c' \<Rightarrow> Inr (DRoot c' iterations))
           | Return r \<Rightarrow> Inr r
           | Raise e \<Rightarrow> Inl e)))"

text \<open>
  \<open>dfld k r\<close> is the float stored under key \<open>k\<close> of a record, \<open>dreal k r\<close> its value
  when it is finite.
\<close>

definition dfld :: "string \<Rightarrow> drow \<Rightarrow> double option" where
  "dfld k r = (case map_of r k of Some (DFloat x) \<Rightarrow> Some x | _ \<Rightarrow> None)"

abbreviation bisection_row64 ::
  "int \<Rightarrow> double \<Rightarrow> double \<Rightarrow> double \<Rightarrow> double \<Rightarrow> double \<Rightarrow> drow" where
  "bisection_row64 i a b c fc error \<equiv>
     [(''iter'', DInt i), (''a'', DFloat a), (''b'', DFloat b), (''mid'', DFloat c),
      (''f_mid'', DFloat fc), (''error'', DFloat error)]"

abbreviation regula_falsi_row64 ::
  "int \<Rightarrow> double \<Rightarrow> double \<Rightarrow> double \<Rightarrow> double \<Rightarrow> double \<Rightarrow> drow" where
  "regula_falsi_row64 i a b c fc error \<equiv>
     [(''iter'', DInt i), (''a'', DFloat a), (''b'', DFloat b), (''c'', DFloat c),
      (''f_c'', DFloat fc), (''error'', DFloat error)]"

text \<open>
  A \<open>double\<close> is a binary64 number when rounding leaves it as it is. The inputs of a
  solver, read with \<^verbatim>\<open>float(input(...))\<close>, are such numbers.
\<close>

definition is_binary64 :: "double \<Rightarrow> bool" where
  "is_binary64 d = (case d of Finite x \<Rightarrow> rnd x = Finite x | _ \<Rightarrow> True)"

text \<open>
  The width \<open>|b - a|\<close>, as a real number, of the bracket a record stores, and whether
  the point a record stores under the key \<open>k\<close> (\<^verbatim>\<open>mid\<close> or \<^verbatim>\<open>c\<close>) lies in that
  bracket.
\<close>

definition bracket_width64 :: "drow \<Rightarrow> real option" where
  "bracket_width64 r =
    (case (dfld ''a'' r, dfld ''b'' r) of
       (Some a, Some b) \<Rightarrow> if is_finite a \<and> is_finite b then Some \<bar>rv b - rv a\<bar> else None
     | _ \<Rightarrow> None)"

definition inside :: "string \<Rightarrow> drow \<Rightarrow> bool" where
  "inside k r =
    (case (dfld ''a'' r, dfld ''b'' r, dfld k r) of
       (Some a, Some b, Some c) \<Rightarrow>
         is_finite a \<and> is_finite b \<and> is_finite c \<and>
         min (rv a) (rv b) \<le> rv c \<and> rv c \<le> max (rv a) (rv b)
     | _ \<Rightarrow> False)"

text \<open>
  A record of bisection is exact when its midpoint and its error are the exact
  \<open>(a + b) / 2\<close> and \<open>|b - a|\<close>: no rounding took place in computing them.
\<close>

definition exact_row :: "drow \<Rightarrow> bool" where
  "exact_row r =
    (case (dfld ''a'' r, dfld ''b'' r, dfld ''mid'' r, dfld ''error'' r) of
       (Some (Finite a), Some (Finite b), Some (Finite c), Some (Finite w)) \<Rightarrow>
         c = (a + b) / 2 \<and> w = \<bar>b - a\<bar>
     | _ \<Rightarrow> False)"

text \<open>
  \<open>chain k (a, b) rows (a', b')\<close>: the records \<open>rows\<close> start from the bracket
  \<open>(a, b)\<close>, each next bracket is the one before with \<open>a\<close> or \<open>b\<close> replaced by the point
  recorded under \<open>k\<close>, and \<open>(a', b')\<close> is the bracket after the last record.
\<close>

fun chain :: "string \<Rightarrow> double \<times> double \<Rightarrow> drow list \<Rightarrow> double \<times> double \<Rightarrow> bool" where
  "chain k ab [] ab' = (ab' = ab)"
| "chain k (a, b) (r # rs) ab' =
    (dfld ''a'' r = Some a \<and> dfld ''b'' r = Some b \<and>
     (case dfld k r of
        None \<Rightarrow> False
      | Some c \<Rightarrow> chain k (a, c) rs ab' \<or> chain k (c, b) rs ab'))"

section \<open>Reading the iteration records\<close>

text \<open>
  \<open>fld k r\<close> is the float stored under key \<open>k\<close> of the record \<open>r\<close>, as
  \<^verbatim>\<open>r[k]\<close> reads it.
\<close>

definition fld :: "string \<Rightarrow> row \<Rightarrow> real option" where
  "fld k r = (case map_of r k of Some (PFloat x) \<Rightarrow> Some x | _ \<Rightarrow> None)"

abbreviation bisection_row :: "int \<Rightarrow> real \<Rightarrow> real \<Rightarrow> real \<Rightarrow> real \<Rightarrow> real \<Rightarrow> row" where
  "bisection_row i a b c fc error \<equiv>
     [(''iter'', PInt i), (''a'', PFloat a), (''b'', PFloat b), (''mid'', PFloat c),
      (''f_mid'', PFloat fc), (''error'', PFloat error)]"

abbreviation regula_falsi_row :: "int \<Rightarrow> real \<Rightarrow> real \<Rightarrow> real \<Rightarrow> real \<Rightarrow> real \<Rightarrow> row" where
  "regula_falsi_row i a b c fc error \<equiv>
     [(''iter'', PInt i), (''a'', PFloat a), (''b'', PFloat b), (''c'', PFloat c),
      (''f_c'', PFloat fc), (''error'', PFloat error)]"

section \<open>Loops: what falls through, what returns\<close>


lemma for_loop_append:
  "for_loop body (xs @ ys) s =
    (case for_loop body xs s of
       Continue s' \<Rightarrow> for_loop body ys s'
     | Return r \<Rightarrow> Return r
     | Raise e \<Rightarrow> Raise e)"
  by (induction xs arbitrary: s) (auto split: ctl.splits)

lemma for_loop_Continue_inv:
  assumes "for_loop body is s = Continue s'"
    and "I s"
    and "\<And>i t t'. I t \<Longrightarrow> body i t = Continue t' \<Longrightarrow> I t'"
  shows "I s'"
  using assms(1,2)
proof (induction "is" arbitrary: s)
  case Nil
  then show ?case by simp
next
  case (Cons i "is")
  then show ?case
    by (auto split: ctl.splits intro: assms(3))
qed

lemma for_loop_Return_inv:
  assumes "for_loop body is s = Return r"
    and "I s"
    and "\<And>i t t'. I t \<Longrightarrow> body i t = Continue t' \<Longrightarrow> I t'"
    and "\<And>i t. I t \<Longrightarrow> body i t = Return r \<Longrightarrow> Q"
  shows "Q"
  using assms(1,2)
proof (induction "is" arbitrary: s)
  case Nil
  then show ?case by simp
next
  case (Cons i "is")
  show ?case
  proof (cases "body i s")
    case (Continue t)
    with Cons.prems have "for_loop body is t = Return r" "I t"
      by (auto intro: assms(3))
    then show ?thesis by (rule Cons.IH)
  next
    case (Return r')
    with Cons.prems show ?thesis by (auto intro: assms(4))
  next
    case (Raise e)
    with Cons.prems show ?thesis by simp
  qed
qed

lemma bisection_body_Continue:
  assumes "bisection_body f tol i (a, b, its) = Continue s'"
  shows "\<exists>fc fa. f ((a + b) / 2) = Inr fc \<and> f a = Inr fa \<and> \<not> \<bar>fc\<bar> < tol \<and> \<not> \<bar>b - a\<bar> < tol \<and>
     s' = (if fa * fc < 0 then a else (a + b) / 2, if fa * fc < 0 then (a + b) / 2 else b,
           its @ [bisection_row i a b ((a + b) / 2) fc \<bar>b - a\<bar>])"
  using assms by (auto simp: Let_def split: sum.splits if_splits)

lemma bisection_body_Return:
  assumes "bisection_body f tol i (a, b, its) = Return r"
  shows "\<exists>fc. f ((a + b) / 2) = Inr fc \<and> (\<bar>fc\<bar> < tol \<or> \<bar>b - a\<bar> < tol) \<and>
     r = Root ((a + b) / 2) (its @ [bisection_row i a b ((a + b) / 2) fc \<bar>b - a\<bar>])"
  using assms by (auto simp: Let_def split: sum.splits if_splits)

lemma regula_falsi_body_Continue:
  assumes "regula_falsi_body f tol i (a, b, c0, its) = Continue s'"
  shows "\<exists>fa fb fc. f a = Inr fa \<and> f b = Inr fb \<and> fb - fa \<noteq> 0 \<and>
     f ((a * fb - b * fa) / (fb - fa)) = Inr fc \<and> \<not> \<bar>fc\<bar> < tol \<and>
     s' = (if fa * fc < 0 then a else (a * fb - b * fa) / (fb - fa),
           if fa * fc < 0 then (a * fb - b * fa) / (fb - fa) else b,
           Some ((a * fb - b * fa) / (fb - fa)),
           its @ [regula_falsi_row i a b ((a * fb - b * fa) / (fb - fa)) fc \<bar>fc\<bar>])"
  using assms by (auto simp: Let_def split: sum.splits if_splits)

lemma regula_falsi_body_Return:
  assumes "regula_falsi_body f tol i (a, b, c0, its) = Return r"
  shows "r = Fail ''Division by zero encountered.'' \<and> (\<exists>fa. f a = Inr fa \<and> f b = Inr fa) \<or>
    (\<exists>fa fb fc. f a = Inr fa \<and> f b = Inr fb \<and> fb - fa \<noteq> 0 \<and>
     f ((a * fb - b * fa) / (fb - fa)) = Inr fc \<and> \<bar>fc\<bar> < tol \<and>
     r = Root ((a * fb - b * fa) / (fb - fa))
           (its @ [regula_falsi_row i a b ((a * fb - b * fa) / (fb - fa)) fc \<bar>fc\<bar>]))"
  using assms by (auto simp: Let_def split: sum.splits if_splits)

lemma secant_body_Continue:
  assumes "secant_body f tol i (x0, x1, its) = Continue s'"
  shows "\<exists>x2 r. s' = (x1, x2, its @ [r]) \<and> fld ''x_new'' r = Some x2 \<and>
           fld ''error'' r = Some \<bar>x2 - x1\<bar> \<and> \<not> \<bar>x2 - x1\<bar> < tol"
  using assms by (auto simp: Let_def fld_def split: sum.splits if_splits)

lemma secant_body_Return:
  assumes "secant_body f tol i (x0, x1, its) = Return (Root x2 its')"
  shows "\<exists>r. its' = its @ [r] \<and> fld ''x_new'' r = Some x2 \<and>
           fld ''error'' r = Some \<bar>x2 - x1\<bar> \<and> \<bar>x2 - x1\<bar> < tol"
  using assms by (auto simp: Let_def fld_def split: sum.splits if_splits)

lemma newton_raphson_body_Continue:
  assumes "newton_raphson_body f df tol i (x, its) = Continue s'"
  shows "\<exists>x' r. s' = (x', its @ [r]) \<and> fld ''x_next'' r = Some x' \<and>
           fld ''error'' r = Some \<bar>x' - x\<bar> \<and> \<not> \<bar>x' - x\<bar> < tol"
  using assms by (auto simp: Let_def fld_def split: sum.splits if_splits)

lemma newton_raphson_body_Return:
  assumes "newton_raphson_body f df tol i (x, its) = Return (Root x' its')"
  shows "\<exists>r. its' = its @ [r] \<and> fld ''x_next'' r = Some x' \<and>
           fld ''error'' r = Some \<bar>x' - x\<bar> \<and> \<bar>x' - x\<bar> < tol"
  using assms by (auto simp: Let_def fld_def split: sum.splits if_splits)

lemma fixed_point_body_Continue:
  assumes "fixed_point_body g tol i (x, its) = Continue s'"
  shows "\<exists>x' r. s' = (x', its @ [r]) \<and> fld ''g_x'' r = Some x' \<and>
           fld ''error'' r = Some \<bar>x' - x\<bar> \<and> \<not> \<bar>x' - x\<bar> < tol \<and>
           \<not> \<bar>x' - x\<bar> > 10000000000"
  using assms by (auto simp: Let_def fld_def split: sum.splits if_splits)

lemma fixed_point_body_Return:
  assumes "fixed_point_body g tol i (x, its) = Return (Root x' its')"
  shows "\<exists>r. its' = its @ [r] \<and> fld ''g_x'' r = Some x' \<and>
           fld ''error'' r = Some \<bar>x' - x\<bar> \<and> \<bar>x' - x\<bar> < tol"
  using assms by (auto simp: Let_def fld_def split: sum.splits if_splits)

lemma modified_secant_body_Continue:
  assumes "modified_secant_body f delta tol i (x, its) = Continue s'"
  shows "\<exists>x' r. s' = (x', its @ [r]) \<and> fld ''x_next'' r = Some x' \<and>
           fld ''error'' r = Some \<bar>x' - x\<bar> \<and> \<not> \<bar>x' - x\<bar> < tol"
  using assms by (auto simp: Let_def fld_def split: sum.splits if_splits)

lemma modified_secant_body_Return:
  assumes "modified_secant_body f delta tol i (x, its) = Return (Root x' its')"
  shows "\<exists>r. its' = its @ [r] \<and> fld ''x_next'' r = Some x' \<and>
           fld ''error'' r = Some \<bar>x' - x\<bar> \<and> \<bar>x' - x\<bar> < tol"
  using assms by (auto simp: Let_def fld_def split: sum.splits if_splits)

lemma bisection_row_fields:
  "fld ''a'' (bisection_row i a b c fc e) = Some a"
  "fld ''b'' (bisection_row i a b c fc e) = Some b"
  "fld ''mid'' (bisection_row i a b c fc e) = Some c"
  "fld ''f_mid'' (bisection_row i a b c fc e) = Some fc"
  "fld ''error'' (bisection_row i a b c fc e) = Some e"
  "map_of (bisection_row i a b c fc e) ''iter'' = Some (PInt i)"
  by (simp_all add: fld_def)

lemma regula_falsi_row_fields:
  "fld ''a'' (regula_falsi_row i a b c fc e) = Some a"
  "fld ''b'' (regula_falsi_row i a b c fc e) = Some b"
  "fld ''c'' (regula_falsi_row i a b c fc e) = Some c"
  "fld ''f_c'' (regula_falsi_row i a b c fc e) = Some fc"
  "fld ''error'' (regula_falsi_row i a b c fc e) = Some e"
  "map_of (regula_falsi_row i a b c fc e) ''iter'' = Some (PInt i)"
  by (simp_all add: fld_def)

section \<open>Traces: one record per pass\<close>

lemma loop_Continue_trace:
  fixes tr :: "'s \<Rightarrow> row list"
  assumes step: "\<And>i t t'. body i t = Continue t' \<Longrightarrow> \<exists>r. tr t' = tr t @ [r] \<and> P t' r"
    and run: "for_loop body is s = Continue s'"
  shows "length (tr s') = length (tr s) + length is \<and>
         (is \<noteq> [] \<longrightarrow> tr s' \<noteq> [] \<and> P s' (last (tr s')))"
  using run
proof (induction "is" arbitrary: s)
  case Nil
  then show ?case by simp
next
  case (Cons i "is")
  from Cons.prems obtain t where t: "body i s = Continue t" and rest: "for_loop body is t = Continue s'"
    by (auto split: ctl.splits)
  from step [OF t] obtain r where r: "tr t = tr s @ [r]" "P t r" by blast
  from Cons.IH [OF rest] have ih: "length (tr s') = length (tr t) + length is"
    "is \<noteq> [] \<longrightarrow> tr s' \<noteq> [] \<and> P s' (last (tr s'))" by auto
  show ?case
  proof (cases "is")
    case Nil
    with rest have "s' = t" by simp
    with r ih Nil show ?thesis by simp
  next
    case (Cons j js)
    with ih r show ?thesis by simp
  qed
qed

lemma loop_Return_trace:
  fixes tr :: "'s \<Rightarrow> row list"
  assumes ret: "\<And>i t. body i t = Return (Root x its) \<Longrightarrow> \<exists>r. its = tr t @ [r] \<and> Q r"
    and run: "for_loop body is s = Return (Root x its)"
  shows "its \<noteq> [] \<and> Q (last its)"
proof (rule for_loop_Return_inv [OF run, where I = "\<lambda>_. True"])
  show True ..
next
  fix i t
  assume "body i t = Return (Root x its)"
  from ret [OF this] show "its \<noteq> [] \<and> Q (last its)" by auto
qed simp

lemma loop_never_Root:
  assumes "\<And>i t. body i t \<noteq> Return (Root x its)"
  shows "for_loop body is s \<noteq> Return (Root x its)"
proof
  assume "for_loop body is s = Return (Root x its)"
  then show False
    by (rule for_loop_Return_inv [where I = "\<lambda>_. True"]) (simp_all add: assms)
qed

section \<open>Each method: exhausted or converged\<close>

lemma secant_exhaust:
  assumes run: "for_loop (secant_body f tol) [1..m] (x0, x1, []) = Continue (x0', x1', its)"
  shows "secant f x0 x1 tol m = Inr (Root x1' its) \<and> length its = nat m \<and>
         (1 \<le> m \<longrightarrow> its \<noteq> [] \<and> fld ''x_new'' (last its) = Some x1' \<and>
            (\<exists>e. fld ''error'' (last its) = Some e \<and> \<not> e < tol))"
proof -
  have step: "\<exists>r. (\<lambda>(x0, x1, its). its) t' = (\<lambda>(x0, x1, its). its) t @ [r] \<and>
      (\<lambda>(x0, x1, its) r. fld ''x_new'' r = Some x1 \<and>
          (\<exists>e. fld ''error'' r = Some e \<and> \<not> e < tol)) t' r"
    if "secant_body f tol i t = Continue t'" for i t t'
    using that by (cases t) (auto dest!: secant_body_Continue simp del: secant_body.simps)
  from loop_Continue_trace [of "secant_body f tol" "\<lambda>(x0, x1, its). its"
      "\<lambda>(x0, x1, its) r. fld ''x_new'' r = Some x1 \<and>
          (\<exists>e. fld ''error'' r = Some e \<and> \<not> e < tol)", OF step run]
  have "length its = nat m \<and> ([1..m] \<noteq> [] \<longrightarrow> its \<noteq> [] \<and> fld ''x_new'' (last its) = Some x1' \<and>
            (\<exists>e. fld ''error'' (last its) = Some e \<and> \<not> e < tol))"
    by simp
  moreover have "secant f x0 x1 tol m = Inr (Root x1' its)"
    using run by (simp add: secant_def)
  ultimately show ?thesis by simp
qed

lemma secant_success:
  assumes "secant f x0 x1 tol m = Inr (Root r its)"
  shows "(its \<noteq> [] \<and> fld ''x_new'' (last its) = Some r \<and>
           (\<exists>e. fld ''error'' (last its) = Some e \<and> e < tol)) \<or>
         (\<exists>x0'. for_loop (secant_body f tol) [1..m] (x0, x1, []) = Continue (x0', r, its))"
proof -
  from assms consider
    (exhausted) x0' where "for_loop (secant_body f tol) [1..m] (x0, x1, []) = Continue (x0', r, its)"
    | (returned) "for_loop (secant_body f tol) [1..m] (x0, x1, []) = Return (Root r its)"
    by (auto simp: secant_def split: ctl.splits)
  then show ?thesis
  proof cases
    case exhausted
    then show ?thesis by blast
  next
    case returned
    have ret: "\<exists>row. its = (\<lambda>(x0, x1, its). its) t @ [row] \<and>
        (fld ''x_new'' row = Some r \<and> (\<exists>e. fld ''error'' row = Some e \<and> e < tol))"
      if "secant_body f tol i t = Return (Root r its)" for i t
      using that by (cases t) (auto dest!: secant_body_Return simp del: secant_body.simps)
    from loop_Return_trace [of "secant_body f tol" r its "\<lambda>(x0, x1, its). its"
        "\<lambda>row. fld ''x_new'' row = Some r \<and> (\<exists>e. fld ''error'' row = Some e \<and> e < tol)",
        OF ret returned]
    show ?thesis by simp
  qed
qed

lemma newton_raphson_exhaust:
  assumes run: "for_loop (newton_raphson_body f df tol) [1..m] (x0, []) = Continue (x', its)"
  shows "newton_raphson f df x0 tol m = Inr (Root x' its) \<and> length its = nat m \<and>
         (1 \<le> m \<longrightarrow> its \<noteq> [] \<and> fld ''x_next'' (last its) = Some x' \<and>
            (\<exists>e. fld ''error'' (last its) = Some e \<and> \<not> e < tol))"
proof -
  have step: "\<exists>r. (\<lambda>(x, its). its) t' = (\<lambda>(x, its). its) t @ [r] \<and>
      (\<lambda>(x, its) r. fld ''x_next'' r = Some x \<and>
          (\<exists>e. fld ''error'' r = Some e \<and> \<not> e < tol)) t' r"
    if "newton_raphson_body f df tol i t = Continue t'" for i t t'
    using that by (cases t) (auto dest!: newton_raphson_body_Continue simp del: newton_raphson_body.simps)
  from loop_Continue_trace [of "newton_raphson_body f df tol" "\<lambda>(x, its). its"
      "\<lambda>(x, its) r. fld ''x_next'' r = Some x \<and>
          (\<exists>e. fld ''error'' r = Some e \<and> \<not> e < tol)", OF step run]
  have "length its = nat m \<and> ([1..m] \<noteq> [] \<longrightarrow> its \<noteq> [] \<and>
          fld ''x_next'' (last its) = Some x' \<and>
          (\<exists>e. fld ''error'' (last its) = Some e \<and> \<not> e < tol))"
    by simp
  moreover have "newton_raphson f df x0 tol m = Inr (Root x' its)"
    using run by (simp add: newton_raphson_def)
  ultimately show ?thesis by simp
qed

lemma newton_raphson_success:
  assumes "newton_raphson f df x0 tol m = Inr (Root r its)"
  shows "(its \<noteq> [] \<and> fld ''x_next'' (last its) = Some r \<and>
           (\<exists>e. fld ''error'' (last its) = Some e \<and> e < tol)) \<or>
         for_loop (newton_raphson_body f df tol) [1..m] (x0, []) = Continue (r, its)"
proof -
  from assms consider
    (exhausted) "for_loop (newton_raphson_body f df tol) [1..m] (x0, []) = Continue (r, its)"
    | (returned) "for_loop (newton_raphson_body f df tol) [1..m] (x0, []) = Return (Root r its)"
    by (auto simp: newton_raphson_def split: ctl.splits)
  then show ?thesis
  proof cases
    case exhausted
    then show ?thesis by blast
  next
    case returned
    have ret: "\<exists>row. its = (\<lambda>(x, its). its) t @ [row] \<and>
        (fld ''x_next'' row = Some r \<and> (\<exists>e. fld ''error'' row = Some e \<and> e < tol))"
      if "newton_raphson_body f df tol i t = Return (Root r its)" for i t
      using that by (cases t) (auto dest!: newton_raphson_body_Return simp del: newton_raphson_body.simps)
    from loop_Return_trace [of "newton_raphson_body f df tol" r its "\<lambda>(x, its). its"
        "\<lambda>row. fld ''x_next'' row = Some r \<and> (\<exists>e. fld ''error'' row = Some e \<and> e < tol)",
        OF ret returned]
    show ?thesis by simp
  qed
qed

lemma fixed_point_exhaust:
  assumes run: "for_loop (fixed_point_body g tol) [1..m] (x0, []) = Continue (x', its)"
  shows "fixed_point g x0 tol m = Inr (Root x' its) \<and> length its = nat m \<and>
         (1 \<le> m \<longrightarrow> its \<noteq> [] \<and> fld ''g_x'' (last its) = Some x' \<and>
            (\<exists>e. fld ''error'' (last its) = Some e \<and> \<not> e < tol))"
proof -
  have step: "\<exists>r. (\<lambda>(x, its). its) t' = (\<lambda>(x, its). its) t @ [r] \<and>
      (\<lambda>(x, its) r. fld ''g_x'' r = Some x \<and>
          (\<exists>e. fld ''error'' r = Some e \<and> \<not> e < tol)) t' r"
    if "fixed_point_body g tol i t = Continue t'" for i t t'
    using that by (cases t) (auto dest!: fixed_point_body_Continue simp del: fixed_point_body.simps)
  from loop_Continue_trace [of "fixed_point_body g tol" "\<lambda>(x, its). its"
      "\<lambda>(x, its) r. fld ''g_x'' r = Some x \<and>
          (\<exists>e. fld ''error'' r = Some e \<and> \<not> e < tol)", OF step run]
  have "length its = nat m \<and> ([1..m] \<noteq> [] \<longrightarrow> its \<noteq> [] \<and>
          fld ''g_x'' (last its) = Some x' \<and>
          (\<exists>e. fld ''error'' (last its) = Some e \<and> \<not> e < tol))"
    by simp
  moreover have "fixed_point g x0 tol m = Inr (Root x' its)"
    using run by (simp add: fixed_point_def)
  ultimately show ?thesis by simp
qed

lemma fixed_point_success:
  assumes "fixed_point g x0 tol m = Inr (Root r its)"
  shows "(its \<noteq> [] \<and> fld ''g_x'' (last its) = Some r \<and>
           (\<exists>e. fld ''error'' (last its) = Some e \<and> e < tol)) \<or>
         for_loop (fixed_point_body g tol) [1..m] (x0, []) = Continue (r, its)"
proof -
  from assms consider
    (exhausted) "for_loop (fixed_point_body g tol) [1..m] (x0, []) = Continue (r, its)"
    | (returned) "for_loop (fixed_point_body g tol) [1..m] (x0, []) = Return (Root r its)"
    by (auto simp: fixed_point_def split: ctl.splits)
  then show ?thesis
  proof cases
    case exhausted
    then show ?thesis by blast
  next
    case returned
    have ret: "\<exists>row. its = (\<lambda>(x, its). its) t @ [row] \<and>
        (fld ''g_x'' row = Some r \<and> (\<exists>e. fld ''error'' row = Some e \<and> e < tol))"
      if "fixed_point_body g tol i t = Return (Root r its)" for i t
      using that by (cases t) (auto dest!: fixed_point_body_Return simp del: fixed_point_body.simps)
    from loop_Return_trace [of "fixed_point_body g tol" r its "\<lambda>(x, its). its"
        "\<lambda>row. fld ''g_x'' row = Some r \<and> (\<exists>e. fld ''error'' row = Some e \<and> e < tol)",
        OF ret returned]
    show ?thesis by simp
  qed
qed

lemma modified_secant_exhaust:
  assumes run: "for_loop (modified_secant_body f delta tol) [1..m] (x0, []) = Continue (x', its)"
  shows "modified_secant f x0 delta tol m = Inr (Root x' its) \<and> length its = nat m \<and>
         (1 \<le> m \<longrightarrow> its \<noteq> [] \<and> fld ''x_next'' (last its) = Some x' \<and>
            (\<exists>e. fld ''error'' (last its) = Some e \<and> \<not> e < tol))"
proof -
  have step: "\<exists>r. (\<lambda>(x, its). its) t' = (\<lambda>(x, its). its) t @ [r] \<and>
      (\<lambda>(x, its) r. fld ''x_next'' r = Some x \<and>
          (\<exists>e. fld ''error'' r = Some e \<and> \<not> e < tol)) t' r"
    if "modified_secant_body f delta tol i t = Continue t'" for i t t'
    using that by (cases t) (auto dest!: modified_secant_body_Continue simp del: modified_secant_body.simps)
  from loop_Continue_trace [of "modified_secant_body f delta tol" "\<lambda>(x, its). its"
      "\<lambda>(x, its) r. fld ''x_next'' r = Some x \<and>
          (\<exists>e. fld ''error'' r = Some e \<and> \<not> e < tol)", OF step run]
  have "length its = nat m \<and> ([1..m] \<noteq> [] \<longrightarrow> its \<noteq> [] \<and>
          fld ''x_next'' (last its) = Some x' \<and>
          (\<exists>e. fld ''error'' (last its) = Some e \<and> \<not> e < tol))"
    by simp
  moreover have "modified_secant f x0 delta tol m = Inr (Root x' its)"
    using run by (simp add: modified_secant_def)
  ultimately show ?thesis by simp
qed

lemma modified_secant_success:
  assumes "modified_secant f x0 delta tol m = Inr (Root r its)"
  shows "(its \<noteq> [] \<and> fld ''x_next'' (last its) = Some r \<and>
           (\<exists>e. fld ''error'' (last its) = Some e \<and> e < tol)) \<or>
         for_loop (modified_secant_body f delta tol) [1..m] (x0, []) = Continue (r, its)"
proof -
  from assms consider
    (exhausted) "for_loop (modified_secant_body f delta tol) [1..m] (x0, []) = Continue (r, its)"
    | (returned) "for_loop (modified_secant_body f delta tol) [1..m] (x0, []) = Return (Root r its)"
    by (auto simp: modified_secant_def split: ctl.splits)
  then show ?thesis
  proof cases
    case exhausted
    then show ?thesis by blast
  next
    case returned
    have ret: "\<exists>row. its = (\<lambda>(x, its). its) t @ [row] \<and>
        (fld ''x_next'' row = Some r \<and> (\<exists>e. fld ''error'' row = Some e \<and> e < tol))"
      if "modified_secant_body f delta tol i t = Return (Root r its)" for i t
      using that by (cases t) (auto dest!: modified_secant_body_Return simp del: modified_secant_body.simps)
    from loop_Return_trace [of "modified_secant_body f delta tol" r its "\<lambda>(x, its). its"
        "\<lambda>row. fld ''x_next'' row = Some r \<and> (\<exists>e. fld ''error'' row = Some e \<and> e < tol)",
        OF ret returned]
    show ?thesis by simp
  qed
qed

lemma regula_falsi_exhaust:
  assumes fa: "f a = Inr fa" and fb: "f b = Inr fb" and sign: "fa * fb < 0"
    and run: "for_loop (regula_falsi_body f tol) [1..m] (a, b, None, []) = Continue (a', b', c, its)"
  shows "length its = nat m \<and>
         (1 \<le> m \<longrightarrow> (\<exists>r. c = Some r \<and> regula_falsi f a b tol m = Inr (Root r its) \<and>
            its \<noteq> [] \<and> fld ''c'' (last its) = Some r \<and>
            (\<exists>e. fld ''error'' (last its) = Some e \<and> \<not> e < tol)))"
proof -
  have step: "\<exists>r. (\<lambda>(a, b, c, its). its) t' = (\<lambda>(a, b, c, its). its) t @ [r] \<and>
      (\<lambda>(a, b, c, its) r. (\<exists>x. c = Some x \<and> fld ''c'' r = Some x) \<and>
          (\<exists>e. fld ''error'' r = Some e \<and> \<not> e < tol)) t' r"
    if "regula_falsi_body f tol i t = Continue t'" for i t t'
    using that
    by (cases t) (auto dest!: regula_falsi_body_Continue simp: regula_falsi_row_fields
        simp del: regula_falsi_body.simps)
  from loop_Continue_trace [of "regula_falsi_body f tol" "\<lambda>(a, b, c, its). its"
      "\<lambda>(a, b, c, its) r. (\<exists>x. c = Some x \<and> fld ''c'' r = Some x) \<and>
          (\<exists>e. fld ''error'' r = Some e \<and> \<not> e < tol)", OF step run]
  have *: "length its = nat m \<and> ([1..m] \<noteq> [] \<longrightarrow> its \<noteq> [] \<and>
          (\<exists>x. c = Some x \<and> fld ''c'' (last its) = Some x) \<and>
          (\<exists>e. fld ''error'' (last its) = Some e \<and> \<not> e < tol))"
    by simp
  have "regula_falsi f a b tol m = Inr (Root r its)" if "c = Some r" for r
    using run fa fb sign that by (simp add: regula_falsi_def)
  with * show ?thesis by auto
qed

lemma regula_falsi_success:
  assumes "regula_falsi f a b tol m = Inr (Root r its)"
  shows "(its \<noteq> [] \<and> fld ''c'' (last its) = Some r \<and>
           (\<exists>e. fld ''error'' (last its) = Some e \<and> e < tol)) \<or>
         (\<exists>a' b'. for_loop (regula_falsi_body f tol) [1..m] (a, b, None, []) =
            Continue (a', b', Some r, its))"
proof -
  from assms consider
    (exhausted) a' b' where "for_loop (regula_falsi_body f tol) [1..m] (a, b, None, []) =
            Continue (a', b', Some r, its)"
    | (returned) "for_loop (regula_falsi_body f tol) [1..m] (a, b, None, []) = Return (Root r its)"
    by (auto simp: regula_falsi_def split: ctl.splits sum.splits if_splits option.splits)
  then show ?thesis
  proof cases
    case exhausted
    then show ?thesis by blast
  next
    case returned
    have ret: "\<exists>row. its = (\<lambda>(a, b, c, its). its) t @ [row] \<and>
        (fld ''c'' row = Some r \<and> (\<exists>e. fld ''error'' row = Some e \<and> e < tol))"
      if "regula_falsi_body f tol i t = Return (Root r its)" for i t
      using that
      by (cases t) (auto dest!: regula_falsi_body_Return simp: regula_falsi_row_fields
          simp del: regula_falsi_body.simps)
    from loop_Return_trace [of "regula_falsi_body f tol" r its "\<lambda>(a, b, c, its). its"
        "\<lambda>row. fld ''c'' row = Some r \<and> (\<exists>e. fld ''error'' row = Some e \<and> e < tol)",
        OF ret returned]
    show ?thesis by simp
  qed
qed

lemma bisection_exhaust:
  assumes fa: "f a = Inr fa" and fb: "f b = Inr fb" and sign: "fa * fb < 0"
    and run: "for_loop (bisection_body f tol) [1..m] (a, b, []) = Continue (a', b', its)"
  shows "bisection f a b tol m = Inr (Root ((a' + b') / 2) its) \<and> length its = nat m \<and>
         (1 \<le> m \<longrightarrow> its \<noteq> [] \<and> (fld ''mid'' (last its) = Some a' \<or> fld ''mid'' (last its) = Some b') \<and>
            (\<exists>e fm. fld ''error'' (last its) = Some e \<and> fld ''f_mid'' (last its) = Some fm \<and>
               \<not> e < tol \<and> \<not> \<bar>fm\<bar> < tol))"
proof -
  have step: "\<exists>r. (\<lambda>(a, b, its). its) t' = (\<lambda>(a, b, its). its) t @ [r] \<and>
      (\<lambda>(a', b', its) r. (fld ''mid'' r = Some a' \<or> fld ''mid'' r = Some b') \<and>
          (\<exists>e fm. fld ''error'' r = Some e \<and> fld ''f_mid'' r = Some fm \<and>
               \<not> e < tol \<and> \<not> \<bar>fm\<bar> < tol)) t' r"
    if "bisection_body f tol i t = Continue t'" for i t t'
  proof (cases t)
    case (fields a0 b0 its0)
    with that have "bisection_body f tol i (a0, b0, its0) = Continue t'" by simp
    from bisection_body_Continue [OF this] obtain fc fa where
      "\<not> \<bar>fc\<bar> < tol" "\<not> \<bar>b0 - a0\<bar> < tol"
      "t' = (if fa * fc < 0 then a0 else (a0 + b0) / 2, if fa * fc < 0 then (a0 + b0) / 2 else b0,
           its0 @ [bisection_row i a0 b0 ((a0 + b0) / 2) fc \<bar>b0 - a0\<bar>])"
      by blast
    then show ?thesis
      by (cases "fa * fc < 0") (simp_all add: fields bisection_row_fields)
  qed
  from loop_Continue_trace [of "bisection_body f tol" "\<lambda>(a, b, its). its"
      "\<lambda>(a', b', its) r. (fld ''mid'' r = Some a' \<or> fld ''mid'' r = Some b') \<and>
          (\<exists>e fm. fld ''error'' r = Some e \<and> fld ''f_mid'' r = Some fm \<and>
               \<not> e < tol \<and> \<not> \<bar>fm\<bar> < tol)", OF step run]
  have "length its = nat m \<and> ([1..m] \<noteq> [] \<longrightarrow> its \<noteq> [] \<and>
          (fld ''mid'' (last its) = Some a' \<or> fld ''mid'' (last its) = Some b') \<and>
          (\<exists>e fm. fld ''error'' (last its) = Some e \<and> fld ''f_mid'' (last its) = Some fm \<and>
               \<not> e < tol \<and> \<not> \<bar>fm\<bar> < tol))"
    by simp
  moreover have "bisection f a b tol m = Inr (Root ((a' + b') / 2) its)"
    using run fa fb sign by (simp add: bisection_def)
  ultimately show ?thesis by simp
qed

lemma bisection_success:
  assumes "bisection f a b tol m = Inr (Root r its)"
  shows "(its \<noteq> [] \<and> fld ''mid'' (last its) = Some r \<and>
           (\<exists>e fm. fld ''error'' (last its) = Some e \<and> fld ''f_mid'' (last its) = Some fm \<and>
              (\<bar>fm\<bar> < tol \<or> e < tol))) \<or>
         (\<exists>a' b'. r = (a' + b') / 2 \<and>
            for_loop (bisection_body f tol) [1..m] (a, b, []) = Continue (a', b', its))"
proof -
  from assms consider
    (exhausted) a' b' where "r = (a' + b') / 2"
      "for_loop (bisection_body f tol) [1..m] (a, b, []) = Continue (a', b', its)"
    | (returned) "for_loop (bisection_body f tol) [1..m] (a, b, []) = Return (Root r its)"
    by (auto simp: bisection_def split: ctl.splits sum.splits if_splits)
  then show ?thesis
  proof cases
    case exhausted
    then show ?thesis by blast
  next
    case returned
    have ret: "\<exists>row. its = (\<lambda>(a, b, its). its) t @ [row] \<and>
        (fld ''mid'' row = Some r \<and>
         (\<exists>e fm. fld ''error'' row = Some e \<and> fld ''f_mid'' row = Some fm \<and>
              (\<bar>fm\<bar> < tol \<or> e < tol)))"
      if "bisection_body f tol i t = Return (Root r its)" for i t
      using that
      by (cases t) (auto dest!: bisection_body_Return simp: bisection_row_fields
          simp del: bisection_body.simps)
    from loop_Return_trace [of "bisection_body f tol" r its "\<lambda>(a, b, its). its"
        "\<lambda>row. fld ''mid'' row = Some r \<and>
         (\<exists>e fm. fld ''error'' row = Some e \<and> fld ''f_mid'' row = Some fm \<and>
              (\<bar>fm\<bar> < tol \<or> e < tol))",
        OF ret returned]
    show ?thesis by simp
  qed
qed

lemma bisection_Root_bracket:
  assumes "bisection f a b tol m = Inr (Root r its)"
  shows "\<exists>fa fb. f a = Inr fa \<and> f b = Inr fb \<and> fa * fb < 0"
  using assms by (auto simp: bisection_def split: sum.splits if_splits)

lemma regula_falsi_Root_bracket:
  assumes "regula_falsi f a b tol m = Inr (Root r its)"
  shows "\<exists>fa fb. f a = Inr fa \<and> f b = Inr fb \<and> fa * fb < 0"
  using assms by (auto simp: regula_falsi_def split: sum.splits if_splits)

section \<open>Rounding to binary64\<close>

lemma pow2_powi: "pow2 e = 2 powi e"
  by (simp add: pow2_def power_int_def power_one_over inverse_eq_divide)

lemma pow2_pos [simp]: "0 < pow2 e"
  by (simp add: pow2_powi)

lemma pow2_nonzero [simp]: "pow2 e \<noteq> 0"
  by (simp add: pow2_powi)

lemma pow2_add: "pow2 (a + b) = pow2 a * pow2 b"
  by (simp add: pow2_powi power_int_add)

lemma pow2_0 [simp]: "pow2 0 = 1"
  by (simp add: pow2_def)

lemma pow2_1: "pow2 1 = 2"
  by (simp add: pow2_def)

lemma pow2_Suc: "pow2 (e + 1) = 2 * pow2 e"
  by (simp add: pow2_add pow2_1)

lemma pow2_pred: "pow2 (e - 1) = pow2 e / 2"
  using pow2_Suc [of "e - 1"] by simp

lemma pow2_mono: "a \<le> b \<Longrightarrow> pow2 a \<le> pow2 b"
  by (simp add: pow2_powi power_int_increasing)

lemma pow2_nat: "pow2 (int n) = 2 ^ n"
  by (simp add: pow2_def)

lemma norm_up_spec:
  assumes "norm_up m e = (m', e')" and "e \<le> 971"
  shows "m' * pow2 e' = m * pow2 e \<and> e \<le> e' \<and> e' \<le> 971 \<and> (m' < 2 ^ 53 \<or> e' = 971) \<and>
         (e < e' \<longrightarrow> 2 ^ 52 \<le> m') \<and> (e' = e \<longrightarrow> m' = m)"
  using assms
proof (induction m e rule: norm_up.induct)
  case (1 m e)
  show ?case
  proof (cases "2 ^ 53 \<le> m \<and> e < 971")
    case True
    with "1.prems" have run: "norm_up (m / 2) (e + 1) = (m', e')"
      by (simp add: norm_up.simps [of m e])
    from True have "e + 1 \<le> 971" by simp
    from "1.IH" [OF True run this] have ih:
      "m' * pow2 e' = m / 2 * pow2 (e + 1)" "e + 1 \<le> e'" "e' \<le> 971" "m' < 2 ^ 53 \<or> e' = 971"
      "e + 1 < e' \<longrightarrow> 2 ^ 52 \<le> m'" "e' = e + 1 \<longrightarrow> m' = m / 2"
      by simp_all
    from ih(5,6) True have "2 ^ 52 \<le> m'"
      by (cases "e' = e + 1") (use ih(2) in auto)
    with ih show ?thesis by (simp add: pow2_Suc)
  next
    case False
    with "1.prems" have "m' = m" "e' = e"
      by (auto simp: norm_up.simps [of m e] split: if_splits)
    with False "1.prems" show ?thesis by auto
  qed
qed

lemma norm_down_spec:
  assumes "norm_down m e = (m', e')" and "- 1074 \<le> e"
  shows "m' * pow2 e' = m * pow2 e \<and> e' \<le> e \<and> - 1074 \<le> e' \<and> (2 ^ 52 \<le> m' \<or> e' = - 1074) \<and>
         (e' < e \<longrightarrow> m' < 2 ^ 53) \<and> (e' = e \<longrightarrow> m' = m)"
  using assms
proof (induction m e rule: norm_down.induct)
  case (1 m e)
  show ?case
  proof (cases "m < 2 ^ 52 \<and> - 1074 < e")
    case True
    with "1.prems" have run: "norm_down (2 * m) (e - 1) = (m', e')"
      by (simp add: norm_down.simps [of m e])
    from True have "- 1074 \<le> e - 1" by simp
    from "1.IH" [OF True run this] have ih:
      "m' * pow2 e' = 2 * m * pow2 (e - 1)" "e' \<le> e - 1" "- 1074 \<le> e'"
      "2 ^ 52 \<le> m' \<or> e' = - 1074"
      "e' < e - 1 \<longrightarrow> m' < 2 ^ 53" "e' = e - 1 \<longrightarrow> m' = 2 * m"
      by simp_all
    from ih(5,6) True have "m' < 2 ^ 53"
      by (cases "e' = e - 1") (use ih(2) in auto)
    with ih show ?thesis by (simp add: pow2_pred)
  next
    case False
    with "1.prems" have "m' = m" "e' = e"
      by (auto simp: norm_down.simps [of m e] split: if_splits)
    with False "1.prems" show ?thesis by auto
  qed
qed

lemma normalise_spec:
  assumes "normalise x = (m, e)"
  shows "m * pow2 e = x \<and> nform m e"
proof -
  obtain m1 e1 where up: "norm_up x 0 = (m1, e1)" by (cases "norm_up x 0")
  with assms have down: "norm_down m1 e1 = (m, e)" by (simp add: normalise_def)
  from norm_up_spec [OF up] have u:
    "m1 * pow2 e1 = x" "0 \<le> e1" "e1 \<le> 971" "m1 < 2 ^ 53 \<or> e1 = 971"
    "0 < e1 \<longrightarrow> 2 ^ 52 \<le> m1" "e1 = 0 \<longrightarrow> m1 = x"
    by simp_all
  from u(2) have "- 1074 \<le> e1" by simp
  from norm_down_spec [OF down this] have d:
    "m * pow2 e = m1 * pow2 e1" "e \<le> e1" "- 1074 \<le> e" "2 ^ 52 \<le> m \<or> e = - 1074"
    "e < e1 \<longrightarrow> m < 2 ^ 53" "e = e1 \<longrightarrow> m = m1"
    by simp_all
  have "m < 2 ^ 53 \<or> e = 971"
  proof (cases "e = e1")
    case True
    with d(6) u(4) show ?thesis by auto
  next
    case False
    with d(2,5) show ?thesis by auto
  qed
  with u d show ?thesis by (auto simp: nform_def)
qed

lemma nform_unique:
  assumes "nform m e" and "nform m' e'" and "m * pow2 e = m' * pow2 e'" and "0 < m"
  shows "e = e' \<and> m = m'"
proof -
  have less: False if n: "nform p i" "nform q j" and eq: "p * pow2 i = q * pow2 j" and lt: "i < j"
    and pos: "0 < p" for p q i j
  proof -
    from n lt have p: "p < 2 ^ 53" and q: "2 ^ 52 \<le> q"
      by (auto simp: nform_def)
    have "p * pow2 i < 2 ^ 53 * pow2 i"
      using p by simp
    also have "\<dots> = 2 ^ 52 * pow2 (i + 1)"
      by (simp add: pow2_Suc)
    also have "\<dots> \<le> 2 ^ 52 * pow2 j"
      using lt by (simp add: pow2_mono)
    also have "\<dots> \<le> q * pow2 j"
      using q by simp
    finally show False using eq by simp
  qed
  have pos': "0 < m'"
  proof -
    from assms(3,4) have "0 < m' * pow2 e'"
      by (metis pow2_pos mult_pos_pos)
    then show ?thesis by (rule zero_less_mult_pos2) simp
  qed
  have "e = e'"
  proof (rule ccontr)
    assume "e \<noteq> e'"
    then consider "e < e'" | "e' < e" by linarith
    then show False
    proof cases
      case 1
      from less [OF assms(1,2,3) 1 assms(4)] show False .
    next
      case 2
      from less [OF assms(2,1) assms(3) [symmetric] 2 pos'] show False .
    qed
  qed
  with assms(3) show ?thesis by simp
qed

lemma normalise_unique:
  assumes "nform m e" and "0 < m"
  shows "normalise (m * pow2 e) = (m, e)"
proof -
  obtain m' e' where n: "normalise (m * pow2 e) = (m', e')" by (cases "normalise (m * pow2 e)")
  from normalise_spec [OF n] have "m' * pow2 e' = m * pow2 e" "nform m' e'" by simp_all
  from nform_unique [OF assms(1) this(2) this(1) [symmetric] assms(2)] n show ?thesis by simp
qed


lemma rhe_int [simp]: "round_half_even (of_int k) = k"
  by (simp add: round_half_even_def)

lemma rhe_floor_le: "\<lfloor>x\<rfloor> \<le> round_half_even x" and rhe_le_floor: "round_half_even x \<le> \<lfloor>x\<rfloor> + 1"
  by (simp_all add: round_half_even_def Let_def)

lemma rhe_mono:
  assumes "x \<le> y"
  shows "round_half_even x \<le> round_half_even y"
proof (cases "\<lfloor>x\<rfloor> = \<lfloor>y\<rfloor>")
  case True
  with assms have "x - of_int \<lfloor>x\<rfloor> \<le> y - of_int \<lfloor>y\<rfloor>" by simp
  with True show ?thesis
    by (auto simp: round_half_even_def Let_def)
next
  case False
  with assms have "\<lfloor>x\<rfloor> + 1 \<le> \<lfloor>y\<rfloor>"
    using floor_mono [OF assms] by linarith
  with rhe_le_floor [of x] rhe_floor_le [of y] show ?thesis by linarith
qed

lemma rhe_ge: "of_int k \<le> x \<Longrightarrow> k \<le> round_half_even x"
  using rhe_mono [of "of_int k" x] by simp

lemma rhe_le: "x \<le> of_int k \<Longrightarrow> round_half_even x \<le> k"
  using rhe_mono [of x "of_int k"] by simp

lemma nearest_eq:
  assumes "normalise x = (m, e)"
  shows "nearest x = of_int (round_half_even m) * pow2 e"
  using assms by (simp add: nearest_def)

lemma nearest_mono:
  assumes "0 < x" and "x \<le> y"
  shows "nearest x \<le> nearest y"
proof -
  obtain m e where nx: "normalise x = (m, e)" by (cases "normalise x")
  obtain m' e' where ny: "normalise y = (m', e')" by (cases "normalise y")
  from normalise_spec [OF nx] have x: "m * pow2 e = x" "nform m e" by simp_all
  from normalise_spec [OF ny] have y: "m' * pow2 e' = y" "nform m' e'" by simp_all
  from assms x(1) have mpos: "0 < m"
    by (metis pow2_pos zero_less_mult_pos2)
  from assms y(1) have mpos': "0 < m'"
    by (metis pow2_pos zero_less_mult_pos2 less_le_trans)
  have le: "e \<le> e'"
  proof (rule ccontr)
    assume "\<not> e \<le> e'"
    then have lt: "e' < e" by simp
    with x(2) y(2) have "m' < 2 ^ 53" "2 ^ 52 \<le> m" by (auto simp: nform_def)
    then have "m' * pow2 e' < 2 ^ 53 * pow2 e'" by simp
    also have "\<dots> = 2 ^ 52 * pow2 (e' + 1)" by (simp add: pow2_Suc)
    also have "\<dots> \<le> 2 ^ 52 * pow2 e" using lt by (simp add: pow2_mono)
    also have "\<dots> \<le> m * pow2 e" using \<open>2 ^ 52 \<le> m\<close> by simp
    finally show False using assms x(1) y(1) by simp
  qed
  show ?thesis
  proof (cases "e = e'")
    case True
    with assms x(1) y(1) have "m * pow2 e \<le> m' * pow2 e" by simp
    then have "m \<le> m'" by (simp add: mult_le_cancel_right)
    from rhe_mono [OF this] True show ?thesis
      by (simp add: nearest_eq [OF nx] nearest_eq [OF ny])
  next
    case False
    with le have lt: "e < e'" by simp
    with x(2) y(2) have "m < 2 ^ 53" "2 ^ 52 \<le> m'" by (auto simp: nform_def)
    then have "round_half_even m \<le> 2 ^ 53" "2 ^ 52 \<le> round_half_even m'"
      by (auto intro!: rhe_le rhe_ge)
    then have a: "real_of_int (round_half_even m) \<le> 2 ^ 53"
      and b: "2 ^ 52 \<le> real_of_int (round_half_even m')"
      by (metis of_int_le_iff of_int_numeral of_int_power)+
    have "nearest x \<le> 2 ^ 53 * pow2 e"
      using a by (simp add: nearest_eq [OF nx])
    also have "\<dots> = 2 ^ 52 * pow2 (e + 1)" by (simp add: pow2_Suc)
    also have "\<dots> \<le> 2 ^ 52 * pow2 e'" using lt by (simp add: pow2_mono)
    also have "\<dots> \<le> nearest y"
      using b by (simp add: nearest_eq [OF ny])
    finally show ?thesis .
  qed
qed

lemma nearest_nform:
  assumes "nform m e" and "0 < m"
  shows "nearest (m * pow2 e) = of_int (round_half_even m) * pow2 e"
  by (simp add: nearest_eq [OF normalise_unique [OF assms]])


lemma nearest_nonneg:
  assumes "0 < x"
  shows "0 \<le> nearest x"
proof -
  obtain m e where n: "normalise x = (m, e)" by (cases "normalise x")
  from normalise_spec [OF n] assms have "0 < m"
    by (metis pow2_pos zero_less_mult_pos2)
  then have "0 \<le> round_half_even m"
    by (intro rhe_ge) simp
  then have "0 \<le> real_of_int (round_half_even m)" by simp
  then show ?thesis
    by (simp add: nearest_eq [OF n] mult_nonneg_nonneg less_imp_le)
qed

lemma nearest_int:
  assumes "nform (of_int k) e" and "0 < k"
  shows "nearest (of_int k * pow2 e) = of_int k * pow2 e"
  using nearest_nform [OF assms(1)] assms(2) by simp

lemma nearest_idem:
  assumes "0 < x" and "0 < nearest x"
  shows "nearest (nearest x) = nearest x"
proof -
  obtain m e where n: "normalise x = (m, e)" by (cases "normalise x")
  from normalise_spec [OF n] have x: "m * pow2 e = x" "nform m e" by simp_all
  define k where "k = round_half_even m"
  have y: "nearest x = of_int k * pow2 e"
    by (simp add: nearest_eq [OF n] k_def)
  from assms(2) have "0 < real_of_int k * pow2 e"
    by (simp add: y)
  then have "0 < real_of_int k"
    by (rule zero_less_mult_pos2) simp
  then have kpos: "0 < k" by simp
  have low: "2 ^ 52 \<le> k \<or> e = - 1074"
    using x(2) by (auto simp: nform_def k_def intro!: rhe_ge)
  show ?thesis
  proof (cases "k < 2 ^ 53 \<or> e = 971")
    case True
    have "nform (of_int k) e"
      unfolding nform_def
    proof (intro conjI)
      show "- 1074 \<le> e" "e \<le> 971" using x(2) by (simp_all add: nform_def)
      from low show "2 ^ 52 \<le> real_of_int k \<or> e = - 1074"
        by (metis of_int_le_iff of_int_numeral of_int_power)
      from True show "real_of_int k < 2 ^ 53 \<or> e = 971"
        by (metis of_int_less_iff of_int_numeral of_int_power)
    qed
    from nearest_int [OF this kpos] y show ?thesis by simp
  next
    case False
    then have big: "2 ^ 53 \<le> k" and e: "e < 971" using x(2) by (auto simp: nform_def)
    with x(2) have "m < 2 ^ 53" by (auto simp: nform_def)
    then have "k \<le> 2 ^ 53" unfolding k_def by (intro rhe_le) simp
    with big have k: "k = 2 ^ 53" by simp
    have nf: "nform (of_int (2 ^ 52)) (e + 1)"
      using x(2) e by (simp add: nform_def)
    have "of_int k * pow2 e = of_int (2 ^ 52) * pow2 (e + 1)"
      by (simp add: k pow2_Suc)
    with nearest_int [OF nf] y show ?thesis by simp
  qed
qed

lemma nearest_double:
  assumes "0 < x" and "nearest x = x" and "x \<le> 2 ^ 1022"
  shows "nearest (2 * x) = 2 * x"
proof -
  obtain m e where n: "normalise x = (m, e)" by (cases "normalise x")
  from normalise_spec [OF n] have x: "m * pow2 e = x" "nform m e" by simp_all
  from assms(1) x(1) have mpos: "0 < m"
    by (metis pow2_pos zero_less_mult_pos2)
  define k where "k = round_half_even m"
  from assms(2) have "of_int k * pow2 e = m * pow2 e"
    by (simp add: nearest_eq [OF n] k_def x(1))
  then have m: "m = of_int k" by simp
  with mpos have kpos: "0 < k" by simp
  show ?thesis
  proof (cases "m < 2 ^ 52")
    case True
    with x(2) have e: "e = - 1074" by (auto simp: nform_def)
    have "nform (of_int (2 * k)) e"
      using True m e by (simp add: nform_def)
    from nearest_int [OF this] kpos have "nearest (of_int (2 * k) * pow2 e) = of_int (2 * k) * pow2 e"
      by simp
    moreover have "2 * x = of_int (2 * k) * pow2 e"
      using x(1) m by simp
    ultimately show ?thesis by (simp only:)
  next
    case False
    have "e < 971"
    proof (rule ccontr)
      assume "\<not> e < 971"
      with x(2) have "e = 971" by (simp add: nform_def)
      with False have "2 ^ 52 * pow2 971 \<le> m * pow2 e" by simp
      with x(1) assms(3) show False by (simp add: pow2_def)
    qed
    with x(2) False have "nform (of_int k) (e + 1)"
      by (auto simp: nform_def m)
    from nearest_int [OF this kpos] have "nearest (of_int k * pow2 (e + 1)) = of_int k * pow2 (e + 1)" .
    moreover have "2 * x = of_int k * pow2 (e + 1)"
      using x(1) m by (simp add: pow2_Suc)
    ultimately show ?thesis by simp
  qed
qed

lemma nearest_bound:
  assumes "0 < x" and "x \<le> 2 ^ 1023"
  shows "nearest x \<le> 2 ^ 1023"
proof -
  have nf: "nform (of_int (2 ^ 52)) 971" by (simp add: nform_def)
  have "nearest (of_int (2 ^ 52) * pow2 971) = of_int (2 ^ 52) * pow2 971"
    by (rule nearest_int [OF nf]) simp
  moreover have "of_int (2 ^ 52) * pow2 971 = (2 ^ 1023 :: real)"
    by (simp add: pow2_def)
  ultimately have "nearest (2 ^ 1023) = 2 ^ 1023" by simp
  with nearest_mono [OF assms] show ?thesis by simp
qed

lemma rnd_cases:
  assumes "x \<noteq> 0" and "nearest \<bar>x\<bar> < 2 ^ 1024"
  shows "is_finite (rnd x)" and "rv (rnd x) = (if 0 < x then nearest \<bar>x\<bar> else - nearest \<bar>x\<bar>)"
  using assms by (auto simp: rnd_def Let_def)

lemma rnd_small:
  assumes "\<bar>x\<bar> \<le> 2 ^ 1023"
  shows "is_finite (rnd x)" and "\<bar>rv (rnd x)\<bar> \<le> 2 ^ 1023"
proof -
  have "is_finite (rnd x) \<and> \<bar>rv (rnd x)\<bar> \<le> 2 ^ 1023"
  proof (cases "x = 0")
    case True
    then show ?thesis by (simp add: rnd_def)
  next
    case False
    then have pos: "0 < \<bar>x\<bar>" by simp
    from nearest_bound [OF pos assms] have b: "nearest \<bar>x\<bar> \<le> 2 ^ 1023" .
    then have "nearest \<bar>x\<bar> < 2 ^ 1024" by (rule le_less_trans) simp
    from rnd_cases [OF False this] b nearest_nonneg [OF pos] show ?thesis
      by (auto simp: abs_if)
  qed
  then show "is_finite (rnd x)" and "\<bar>rv (rnd x)\<bar> \<le> 2 ^ 1023" by simp_all
qed

lemma rnd_mono:
  assumes "\<bar>x\<bar> \<le> 2 ^ 1023" and "\<bar>y\<bar> \<le> 2 ^ 1023" and "x \<le> y"
  shows "rv (rnd x) \<le> rv (rnd y)"
proof -
  have val: "rv (rnd z) = (if 0 < z then nearest \<bar>z\<bar> else - nearest \<bar>z\<bar>)"
    if "\<bar>z\<bar> \<le> 2 ^ 1023" "z \<noteq> 0" for z
  proof -
    from that have pos: "0 < \<bar>z\<bar>" by simp
    from nearest_bound [OF pos that(1)] have "nearest \<bar>z\<bar> < 2 ^ 1024"
      by (rule le_less_trans) simp
    from rnd_cases(2) [OF that(2) this] show ?thesis .
  qed
  have z: "rv (rnd 0) = 0" by (simp add: rnd_def)
  consider "x = 0" | "y = 0" "x \<noteq> 0" | "x < 0" "0 < y" | "0 < x" "0 < y" | "x < 0" "y < 0"
    using assms(3) by linarith
  then show ?thesis
  proof cases
    case 1
    show ?thesis
    proof (cases "y = 0")
      case True
      with 1 show ?thesis by simp
    next
      case False
      with 1 assms(3) have "0 < y" by simp
      with val [OF assms(2) False] nearest_nonneg [of "\<bar>y\<bar>"] 1 z show ?thesis by simp
    qed
  next
    case 2
    with assms(3) have "x < 0" by simp
    with val [OF assms(1) 2(2)] nearest_nonneg [of "\<bar>x\<bar>"] 2 z show ?thesis by simp
  next
    case 3
    with val [OF assms(1)] val [OF assms(2)] nearest_nonneg [of "\<bar>x\<bar>"] nearest_nonneg [of "\<bar>y\<bar>"]
    show ?thesis by simp
  next
    case 4
    with assms(3) nearest_mono [of "\<bar>x\<bar>" "\<bar>y\<bar>"] val [OF assms(1)] val [OF assms(2)]
    show ?thesis by simp
  next
    case 5
    with assms(3) nearest_mono [of "\<bar>y\<bar>" "\<bar>x\<bar>"] val [OF assms(1)] val [OF assms(2)]
    show ?thesis by simp
  qed
qed

lemma rnd_idem: "is_binary64 (rnd x)"
proof (cases "x = 0")
  case True
  then show ?thesis by (simp add: rnd_def is_binary64_def)
next
  case False
  then have pos: "0 < \<bar>x\<bar>" by simp
  show ?thesis
  proof (cases "nearest \<bar>x\<bar> = 0 \<or> 2 ^ 1024 \<le> nearest \<bar>x\<bar>")
    case True
    with False have "rnd x = Finite 0 \<or> rnd x = NegZero \<or> rnd x = PosInf \<or> rnd x = NegInf"
      by (auto simp: rnd_def Let_def)
    moreover have "rnd 0 = Finite 0" by (simp add: rnd_def)
    ultimately show ?thesis by (auto simp: is_binary64_def)
  next
    case F: False
    with nearest_nonneg [OF pos] have n: "0 < nearest \<bar>x\<bar>" "nearest \<bar>x\<bar> < 2 ^ 1024" by simp_all
    from nearest_idem [OF pos n(1)] have idem: "nearest (nearest \<bar>x\<bar>) = nearest \<bar>x\<bar>" .
    define y where "y = (if 0 < x then nearest \<bar>x\<bar> else - nearest \<bar>x\<bar>)"
    have rx: "rnd x = Finite y"
      using False F by (simp add: rnd_def Let_def y_def)
    have ay: "\<bar>y\<bar> = nearest \<bar>x\<bar>" and y0: "y \<noteq> 0" and sg: "0 < y \<longleftrightarrow> 0 < x"
      using n by (auto simp: y_def)
    have "rnd y = Finite y"
      using y0 n idem sg by (simp add: rnd_def Let_def ay) (simp add: y_def)
    with rx show ?thesis by (simp add: is_binary64_def)
  qed
qed

lemma binary64_nearest:
  assumes "is_binary64 (Finite x)" and "x \<noteq> 0"
  shows "nearest \<bar>x\<bar> = \<bar>x\<bar>"
  using assms by (auto simp: is_binary64_def rnd_def Let_def split: if_splits)

lemma rnd_fix:
  assumes "is_binary64 d" and "is_finite d"
  shows "rv (rnd (rv d)) = rv d"
  using assms by (cases d) (auto simp: is_binary64_def rnd_def)

lemma rnd_double:
  assumes "is_binary64 d" and "is_finite d" and "\<bar>rv d\<bar> \<le> 2 ^ 1022"
  shows "rv (rnd (2 * rv d)) = 2 * rv d"
proof (cases "rv d = 0")
  case True
  then show ?thesis by (simp add: rnd_def)
next
  case False
  with assms(2) obtain x where d: "d = Finite x" and x: "x \<noteq> 0" by (cases d) auto
  from binary64_nearest [OF assms(1) [unfolded d] x] have fx: "nearest \<bar>x\<bar> = \<bar>x\<bar>" .
  from x have pos: "0 < \<bar>x\<bar>" by simp
  from assms(3) d have b: "\<bar>x\<bar> \<le> 2 ^ 1022" by simp
  from nearest_double [OF pos fx b] have n2: "nearest \<bar>2 * x\<bar> = \<bar>2 * x\<bar>"
    by (simp add: abs_mult)
  from b have "\<bar>2 * x\<bar> < 2 ^ 1024" by (simp add: abs_mult)
  with n2 have "nearest \<bar>2 * x\<bar> < 2 ^ 1024" by simp
  from rnd_cases(2) [OF _ this] x n2 show ?thesis
    by (simp add: d abs_if split: if_splits)
qed

lemma dadd_value:
  assumes "is_binary64 a" and "is_binary64 b" and "is_finite a" and "is_finite b"
    and "\<bar>rv a + rv b\<bar> \<le> 2 ^ 1023"
  shows "is_finite (dadd a b)" and "rv (dadd a b) = rv (rnd (rv a + rv b))"
proof -
  have "is_finite (dadd a b) \<and> rv (dadd a b) = rv (rnd (rv a + rv b))"
  proof (cases a)
    case (Finite x)
    show ?thesis
    proof (cases b)
      case (Finite y)
      with \<open>a = Finite x\<close> rnd_small(1) [OF assms(5)] show ?thesis by simp
    next
      case NegZero
      with \<open>a = Finite x\<close> rnd_fix [OF assms(1,3)] show ?thesis by simp
    qed (use assms(4) in simp_all)
  next
    case NegZero
    with rnd_fix [OF assms(2,4)] assms(4) show ?thesis
      by (cases b) simp_all
  qed (use assms(3) in simp_all)
  then show "is_finite (dadd a b)" and "rv (dadd a b) = rv (rnd (rv a + rv b))" by simp_all
qed

lemma ddiv_two_value:
  assumes "is_finite s" and "\<bar>rv s\<bar> \<le> 2 ^ 1023"
  shows "is_finite (ddiv s (Finite 2))" and "is_binary64 (ddiv s (Finite 2))"
    and "rv (ddiv s (Finite 2)) = rv (rnd (rv s / 2))"
proof -
  have z: "rnd 0 = Finite 0" by (simp add: rnd_def)
  have "is_finite (ddiv s (Finite 2)) \<and> is_binary64 (ddiv s (Finite 2)) \<and>
        rv (ddiv s (Finite 2)) = rv (rnd (rv s / 2))"
  proof (cases "is_zero s")
    case True
    with assms(1) have "rv s = 0" by (cases s) simp_all
    with True assms(1) z show ?thesis
      by (cases s) (simp_all add: ddiv_def is_binary64_def)
  next
    case False
    with assms(1) have d: "ddiv s (Finite 2) = rnd (rv s / 2)"
      by (cases s) (simp_all add: ddiv_def)
    from assms(2) have "\<bar>rv s / 2\<bar> \<le> 2 ^ 1023" by simp
    from rnd_small(1) [OF this] rnd_idem [of "rv s / 2"] d show ?thesis by simp
  qed
  then show "is_finite (ddiv s (Finite 2))" and "is_binary64 (ddiv s (Finite 2))"
    and "rv (ddiv s (Finite 2)) = rv (rnd (rv s / 2))" by simp_all
qed

lemma midpoint64_between:
  assumes "is_binary64 a" and "is_binary64 b" and "is_finite a" and "is_finite b"
    and "\<bar>rv a\<bar> \<le> 2 ^ 1022" and "\<bar>rv b\<bar> \<le> 2 ^ 1022"
  shows "is_finite (ddiv (dadd a b) (Finite 2))" and "is_binary64 (ddiv (dadd a b) (Finite 2))"
    and "min (rv a) (rv b) \<le> rv (ddiv (dadd a b) (Finite 2))"
    and "rv (ddiv (dadd a b) (Finite 2)) \<le> max (rv a) (rv b)"
proof -
  define lo where "lo = (if rv a \<le> rv b then a else b)"
  define hi where "hi = (if rv a \<le> rv b then b else a)"
  have lo: "is_binary64 lo" "is_finite lo" "\<bar>rv lo\<bar> \<le> 2 ^ 1022" "rv lo = min (rv a) (rv b)"
    and hi: "is_binary64 hi" "is_finite hi" "\<bar>rv hi\<bar> \<le> 2 ^ 1022" "rv hi = max (rv a) (rv b)"
    using assms by (simp_all add: lo_def hi_def min_def max_def)
  have sum: "2 * rv lo \<le> rv a + rv b" "rv a + rv b \<le> 2 * rv hi"
    by (simp_all add: lo_def hi_def)
  have b2: "\<bar>2 * rv lo\<bar> \<le> 2 ^ 1023" "\<bar>2 * rv hi\<bar> \<le> 2 ^ 1023"
    using lo(3) hi(3) by (simp_all add: abs_mult)
  with sum have bs: "\<bar>rv a + rv b\<bar> \<le> 2 ^ 1023"
    by (simp add: abs_le_iff)
  define s where "s = dadd a b"
  from dadd_value [OF assms(1-4) bs] have s: "is_finite s" "rv s = rv (rnd (rv a + rv b))"
    by (simp_all add: s_def)
  from rnd_mono [OF b2(1) bs sum(1)] rnd_double [OF lo(1-3)] have s_lo: "2 * rv lo \<le> rv s"
    by (simp add: s)
  from rnd_mono [OF bs b2(2) sum(2)] rnd_double [OF hi(1-3)] have s_hi: "rv s \<le> 2 * rv hi"
    by (simp add: s)
  from s_lo s_hi b2 have bs2: "\<bar>rv s\<bar> \<le> 2 ^ 1023"
    by (simp add: abs_le_iff)
  note c = ddiv_two_value [OF s(1) bs2]
  have h: "\<bar>rv s / 2\<bar> \<le> 2 ^ 1023" using bs2 by simp
  have l1: "\<bar>rv lo\<bar> \<le> 2 ^ 1023" using lo(3) by (rule order_trans) simp
  have h1: "\<bar>rv hi\<bar> \<le> 2 ^ 1023" using hi(3) by (rule order_trans) simp
  from s_lo have "rv lo \<le> rv s / 2" by simp
  from rnd_mono [OF l1 h this] rnd_fix [OF lo(1,2)] have c_lo: "rv lo \<le> rv (rnd (rv s / 2))"
    by simp
  from s_hi have "rv s / 2 \<le> rv hi" by simp
  from rnd_mono [OF h h1 this] rnd_fix [OF hi(1,2)] have c_hi: "rv (rnd (rv s / 2)) \<le> rv hi"
    by simp
  from c c_lo c_hi lo(4) hi(4)
  show "is_finite (ddiv (dadd a b) (Finite 2))" and "is_binary64 (ddiv (dadd a b) (Finite 2))"
    and "min (rv a) (rv b) \<le> rv (ddiv (dadd a b) (Finite 2))"
    and "rv (ddiv (dadd a b) (Finite 2)) \<le> max (rv a) (rv b)"
    by (simp_all add: s_def)
qed

lemma rnd_zero: "rnd 0 = Finite 0"
  by (simp add: rnd_def)

lemma rnd_at:
  assumes "x \<noteq> 0" and "nform (\<bar>x\<bar> / pow2 e) e"
  shows "rnd x =
    (let y = of_int (round_half_even (\<bar>x\<bar> / pow2 e)) * pow2 e in
     if 2 ^ 1024 \<le> y then (if 0 < x then PosInf else NegInf)
     else if y = 0 then (if 0 < x then Finite 0 else NegZero)
     else Finite (if 0 < x then y else - y))"
proof -
  from assms(1) have "0 < \<bar>x\<bar> / pow2 e" by simp
  from normalise_unique [OF assms(2) this] have "normalise \<bar>x\<bar> = (\<bar>x\<bar> / pow2 e, e)"
    by simp
  with assms(1) show ?thesis
    by (simp add: rnd_def nearest_def)
qed

section \<open>Traces of the binary64 solvers\<close>

lemma dfld_rows [simp]:
  "dfld ''a'' (bisection_row64 i a b c fc e) = Some a"
  "dfld ''b'' (bisection_row64 i a b c fc e) = Some b"
  "dfld ''mid'' (bisection_row64 i a b c fc e) = Some c"
  "dfld ''error'' (bisection_row64 i a b c fc e) = Some e"
  "dfld ''a'' (regula_falsi_row64 i a b c fc e) = Some a"
  "dfld ''b'' (regula_falsi_row64 i a b c fc e) = Some b"
  "dfld ''c'' (regula_falsi_row64 i a b c fc e) = Some c"
  by (simp_all add: dfld_def)

lemma bisection_body64_Continue:
  assumes "bisection_body64 f tol i (a, b, its) = Continue s'"
  shows "\<exists>fc. s' = (a, ddiv (dadd a b) (Finite 2),
             its @ [bisection_row64 i a b (ddiv (dadd a b) (Finite 2)) fc (dabs (dsub b a))]) \<or>
           s' = (ddiv (dadd a b) (Finite 2), b,
             its @ [bisection_row64 i a b (ddiv (dadd a b) (Finite 2)) fc (dabs (dsub b a))])"
  using assms by (auto simp: Let_def split: sum.splits if_splits)

lemma bisection_body64_Return:
  assumes "bisection_body64 f tol i (a, b, its) = Return r"
  shows "\<exists>fc. r = DRoot (ddiv (dadd a b) (Finite 2))
           (its @ [bisection_row64 i a b (ddiv (dadd a b) (Finite 2)) fc (dabs (dsub b a))])"
  using assms by (auto simp: Let_def split: sum.splits if_splits)

lemma regula_falsi_body64_Continue:
  assumes "regula_falsi_body64 f tol i (a, b, c0, its) = Continue s'"
  shows "\<exists>c fc e. s' = (a, c, Some c, its @ [regula_falsi_row64 i a b c fc e]) \<or>
           s' = (c, b, Some c, its @ [regula_falsi_row64 i a b c fc e])"
  using assms by (auto simp: Let_def split: sum.splits if_splits)

lemma regula_falsi_body64_Return:
  assumes "regula_falsi_body64 f tol i (a, b, c0, its) = Return (DRoot r its')"
  shows "\<exists>fc e. its' = its @ [regula_falsi_row64 i a b r fc e]"
  using assms by (auto simp: Let_def split: sum.splits if_splits)

lemma bisection64_loop_chain:
  assumes "for_loop (bisection_body64 f tol) is (a, b, its) = Continue (a', b', its') \<or>
           for_loop (bisection_body64 f tol) is (a, b, its) = Return (DRoot r its')"
  shows "\<exists>rows ab. its' = its @ rows \<and> length rows \<le> length is \<and> chain ''mid'' (a, b) rows ab \<and>
          (\<forall>j<length rows. map_of (rows ! j) ''iter'' = Some (DInt (is ! j))) \<and>
          (\<forall>row\<in>set rows. \<exists>x y. dfld ''a'' row = Some x \<and> dfld ''b'' row = Some y \<and>
             dfld ''mid'' row = Some (ddiv (dadd x y) (Finite 2)) \<and>
             dfld ''error'' row = Some (dabs (dsub y x))) \<and>
          (for_loop (bisection_body64 f tol) is (a, b, its) = Continue (a', b', its') \<longrightarrow>
             ab = (a', b')) \<and>
          (for_loop (bisection_body64 f tol) is (a, b, its) = Return (DRoot r its') \<longrightarrow>
             r = fst ab \<or> r = snd ab)"
  using assms
proof (induction "is" arbitrary: a b its)
  case Nil
  then show ?case by simp
next
  case (Cons i "is")
  define c where "c = ddiv (dadd a b) (Finite 2)"
  define w where "w = dabs (dsub b a)"
  show ?case
  proof (cases "bisection_body64 f tol i (a, b, its)")
    case (Continue s1)
    from bisection_body64_Continue [OF this] obtain fc where
      s1: "s1 = (a, c, its @ [bisection_row64 i a b c fc w]) \<or>
           s1 = (c, b, its @ [bisection_row64 i a b c fc w])"
      unfolding c_def w_def by blast
    define row where "row = bisection_row64 i a b c fc w"
    obtain a1 b1 where s1': "s1 = (a1, b1, its @ [row])" and ab1: "(a1, b1) = (a, c) \<or> (a1, b1) = (c, b)"
      using s1 unfolding row_def by auto
    have eq: "for_loop (bisection_body64 f tol) (i # is) (a, b, its) =
              for_loop (bisection_body64 f tol) is (a1, b1, its @ [row])"
      using Continue s1' by (simp del: bisection_body64.simps)
    with Cons.prems
    have "for_loop (bisection_body64 f tol) is (a1, b1, its @ [row]) = Continue (a', b', its') \<or>
          for_loop (bisection_body64 f tol) is (a1, b1, its @ [row]) = Return (DRoot r its')"
      by simp
    from Cons.IH [OF this] obtain rows ab where
      ih: "its' = (its @ [row]) @ rows" "length rows \<le> length is" "chain ''mid'' (a1, b1) rows ab"
        "\<forall>j<length rows. map_of (rows ! j) ''iter'' = Some (DInt (is ! j))"
        "\<forall>row\<in>set rows. \<exists>x y. dfld ''a'' row = Some x \<and> dfld ''b'' row = Some y \<and>
             dfld ''mid'' row = Some (ddiv (dadd x y) (Finite 2)) \<and>
             dfld ''error'' row = Some (dabs (dsub y x))"
        "for_loop (bisection_body64 f tol) is (a1, b1, its @ [row]) = Continue (a', b', its') \<longrightarrow>
             ab = (a', b')"
        "for_loop (bisection_body64 f tol) is (a1, b1, its @ [row]) = Return (DRoot r its') \<longrightarrow>
             r = fst ab \<or> r = snd ab"
      by blast
    have ch: "chain ''mid'' (a, b) (row # rows) ab"
      using ih(3) ab1 by (auto simp: row_def)
    have it: "map_of ((row # rows) ! j) ''iter'' = Some (DInt ((i # is) ! j))"
      if "j < length (row # rows)" for j
      using that ih(4) by (cases j) (simp_all add: row_def)
    have ok: "\<exists>x y. dfld ''a'' r' = Some x \<and> dfld ''b'' r' = Some y \<and>
             dfld ''mid'' r' = Some (ddiv (dadd x y) (Finite 2)) \<and>
             dfld ''error'' r' = Some (dabs (dsub y x))" if "r' \<in> set (row # rows)" for r'
      using that ih(5) by (auto simp: row_def c_def w_def)
    show ?thesis
      apply (rule exI [of _ "row # rows"])
      apply (rule exI [of _ ab])
      using ih(1,2,6,7) ch it ok eq by simp
  next
    case (Return r0)
    with Cons.prems have r0: "r0 = DRoot r its'" by (simp del: bisection_body64.simps)
    from bisection_body64_Return [OF Return] r0 obtain fc where
      r: "r = c" "its' = its @ [bisection_row64 i a b c fc w]"
      unfolding c_def w_def by auto
    define row where "row = bisection_row64 i a b c fc w"
    have ch: "chain ''mid'' (a, b) [row] (a, c)"
      by (simp add: row_def)
    have ne: "for_loop (bisection_body64 f tol) (i # is) (a, b, its) \<noteq> Continue (a', b', its')"
      using Return by (simp del: bisection_body64.simps)
    show ?thesis
      apply (rule exI [of _ "[row]"])
      apply (rule exI [of _ "(a, c)"])
      using r ch ne by (simp add: row_def c_def w_def)
  next
    case (Raise e)
    with Cons.prems show ?thesis by (simp del: bisection_body64.simps)
  qed
qed

lemma regula_falsi64_loop_chain:
  assumes "for_loop (regula_falsi_body64 f tol) is (a, b, c0, its) = Continue (a', b', c', its') \<or>
           for_loop (regula_falsi_body64 f tol) is (a, b, c0, its) = Return (DRoot r its')"
  shows "\<exists>rows ab. its' = its @ rows \<and> chain ''c'' (a, b) rows ab \<and>
          (for_loop (regula_falsi_body64 f tol) is (a, b, c0, its) = Continue (a', b', c', its') \<longrightarrow>
             (is = [] \<and> c' = c0 \<or> c' = Some (fst ab) \<or> c' = Some (snd ab))) \<and>
          (for_loop (regula_falsi_body64 f tol) is (a, b, c0, its) = Return (DRoot r its') \<longrightarrow>
             r = fst ab \<or> r = snd ab)"
  using assms
proof (induction "is" arbitrary: a b c0 its)
  case Nil
  then show ?case by simp
next
  case (Cons i "is")
  show ?case
  proof (cases "regula_falsi_body64 f tol i (a, b, c0, its)")
    case (Continue s1)
    from regula_falsi_body64_Continue [OF this] obtain c fc e where
      s1: "s1 = (a, c, Some c, its @ [regula_falsi_row64 i a b c fc e]) \<or>
           s1 = (c, b, Some c, its @ [regula_falsi_row64 i a b c fc e])"
      by blast
    define row where "row = regula_falsi_row64 i a b c fc e"
    obtain a1 b1 where s1': "s1 = (a1, b1, Some c, its @ [row])"
      and ab1: "(a1, b1) = (a, c) \<or> (a1, b1) = (c, b)"
      using s1 unfolding row_def by auto
    have eq: "for_loop (regula_falsi_body64 f tol) (i # is) (a, b, c0, its) =
              for_loop (regula_falsi_body64 f tol) is (a1, b1, Some c, its @ [row])"
      using Continue s1' by (simp del: regula_falsi_body64.simps)
    with Cons.prems
    have "for_loop (regula_falsi_body64 f tol) is (a1, b1, Some c, its @ [row]) =
            Continue (a', b', c', its') \<or>
          for_loop (regula_falsi_body64 f tol) is (a1, b1, Some c, its @ [row]) =
            Return (DRoot r its')"
      by simp
    from Cons.IH [OF this] obtain rows ab where
      ih: "its' = (its @ [row]) @ rows" "chain ''c'' (a1, b1) rows ab"
        "for_loop (regula_falsi_body64 f tol) is (a1, b1, Some c, its @ [row]) =
            Continue (a', b', c', its') \<longrightarrow>
             (is = [] \<and> c' = Some c \<or> c' = Some (fst ab) \<or> c' = Some (snd ab))"
        "for_loop (regula_falsi_body64 f tol) is (a1, b1, Some c, its @ [row]) =
            Return (DRoot r its') \<longrightarrow> r = fst ab \<or> r = snd ab"
      by blast
    have ch: "chain ''c'' (a, b) (row # rows) ab"
      using ih(2) ab1 by (auto simp: row_def)
    have last: "c' = Some (fst ab) \<or> c' = Some (snd ab)"
      if run: "for_loop (regula_falsi_body64 f tol) is (a1, b1, Some c, its @ [row]) =
            Continue (a', b', c', its')"
    proof (cases "is = []")
      case True
      with run ih(1) have "rows = []" "c' = Some c" by simp_all
      with ih(2) ab1 show ?thesis by auto
    next
      case False
      with ih(3) run show ?thesis by simp
    qed
    show ?thesis
      apply (rule exI [of _ "row # rows"])
      apply (rule exI [of _ ab])
      using ih(1,4) ch last eq by auto
  next
    case (Return r0)
    with Cons.prems have r0: "r0 = DRoot r its'" by (simp del: regula_falsi_body64.simps)
    from regula_falsi_body64_Return [OF Return [unfolded r0]] obtain fc e where
      r: "its' = its @ [regula_falsi_row64 i a b r fc e]"
      by auto
    define row where "row = regula_falsi_row64 i a b r fc e"
    have ch: "chain ''c'' (a, b) [row] (a, r)"
      by (simp add: row_def)
    have ne: "for_loop (regula_falsi_body64 f tol) (i # is) (a, b, c0, its) \<noteq>
        Continue (a', b', c', its')"
      using Return by (simp del: regula_falsi_body64.simps)
    show ?thesis
      apply (rule exI [of _ "[row]"])
      apply (rule exI [of _ "(a, r)"])
      using r ch ne by (simp add: row_def)
  next
    case (Raise e)
    with Cons.prems show ?thesis by (simp del: regula_falsi_body64.simps)
  qed
qed

lemma chain_index:
  assumes "chain k (a, b) rows ab" and "j < length rows"
  shows "\<exists>aj bj. dfld ''a'' (rows ! j) = Some aj \<and> dfld ''b'' (rows ! j) = Some bj \<and>
          (j = 0 \<longrightarrow> aj = a \<and> bj = b) \<and>
          (0 < j \<longrightarrow> (\<exists>a' b' c'. dfld ''a'' (rows ! (j - 1)) = Some a' \<and>
             dfld ''b'' (rows ! (j - 1)) = Some b' \<and> dfld k (rows ! (j - 1)) = Some c' \<and>
             (aj = a' \<and> bj = c' \<or> aj = c' \<and> bj = b')))"
  using assms
proof (induction rows arbitrary: a b j)
  case Nil
  then show ?case by simp
next
  case (Cons r rs)
  from Cons.prems(1) obtain c where
    r: "dfld ''a'' r = Some a" "dfld ''b'' r = Some b" "dfld k r = Some c"
    and nxt: "chain k (a, c) rs ab \<or> chain k (c, b) rs ab"
    by (auto split: option.splits)
  show ?case
  proof (cases j)
    case 0
    with r show ?thesis by simp
  next
    case (Suc i)
    with Cons.prems(2) have i: "i < length rs" by simp
    from nxt obtain a1 b1 where ch: "chain k (a1, b1) rs ab"
      and ab1: "a1 = a \<and> b1 = c \<or> a1 = c \<and> b1 = b"
      by auto
    from Cons.IH [OF ch i] obtain aj bj where
      f: "dfld ''a'' (rs ! i) = Some aj" "dfld ''b'' (rs ! i) = Some bj"
      and z: "i = 0 \<longrightarrow> aj = a1 \<and> bj = b1"
      and p: "0 < i \<longrightarrow> (\<exists>a' b' c'. dfld ''a'' (rs ! (i - 1)) = Some a' \<and>
             dfld ''b'' (rs ! (i - 1)) = Some b' \<and> dfld k (rs ! (i - 1)) = Some c' \<and>
             (aj = a' \<and> bj = c' \<or> aj = c' \<and> bj = b'))"
      by blast
    show ?thesis
    proof (cases i)
      case 0
      with Suc f z r ab1 show ?thesis by auto
    next
      case (Suc i')
      with \<open>j = Suc i\<close> f p show ?thesis by auto
    qed
  qed
qed

lemma exact_rowD:
  assumes "exact_row r"
  shows "\<exists>x y. dfld ''a'' r = Some (Finite x) \<and> dfld ''b'' r = Some (Finite y) \<and>
    dfld ''mid'' r = Some (Finite ((x + y) / 2)) \<and> dfld ''error'' r = Some (Finite \<bar>y - x\<bar>)"
proof -
  obtain oa ob oc ow where
    o: "dfld ''a'' r = oa" "dfld ''b'' r = ob" "dfld ''mid'' r = oc" "dfld ''error'' r = ow"
    by simp
  from assms show ?thesis
    unfolding exact_row_def o
    by (cases oa; cases ob; cases oc; cases ow) (auto split: double.splits)
qed

lemma chain_exact:
  assumes "chain ''mid'' (a, b) rows ab" and "j < length rows"
    and "list_all exact_row (take (Suc j) rows)"
  shows "dfld ''error'' (rows ! j) = Some (Finite (\<bar>rv b - rv a\<bar> / 2 ^ j))"
  using assms
proof (induction rows arbitrary: a b j)
  case Nil
  then show ?case by simp
next
  case (Cons r rs)
  from Cons.prems(1) obtain c where
    r: "dfld ''a'' r = Some a" "dfld ''b'' r = Some b" "dfld ''mid'' r = Some c"
    and nxt: "chain ''mid'' (a, c) rs ab \<or> chain ''mid'' (c, b) rs ab"
    by (auto split: option.splits)
  from Cons.prems(3) have ex: "exact_row r" by simp
  from exact_rowD [OF ex] r obtain x y w where
    v: "a = Finite x" "b = Finite y" "c = Finite ((x + y) / 2)"
       "dfld ''error'' r = Some (Finite w)" "w = \<bar>y - x\<bar>"
    by auto
  show ?case
  proof (cases j)
    case 0
    with v show ?thesis by simp
  next
    case (Suc i)
    with Cons.prems have i: "i < length rs" "list_all exact_row (take (Suc i) rs)" by simp_all
    from nxt obtain a1 b1 where ch: "chain ''mid'' (a1, b1) rs ab"
      and ab1: "a1 = a \<and> b1 = c \<or> a1 = c \<and> b1 = b"
      by auto
    from ab1 v have "\<bar>rv b1 - rv a1\<bar> = \<bar>rv b - rv a\<bar> / 2"
      by (auto simp: abs_if field_simps)
    with Cons.IH [OF ch i] Suc show ?thesis by simp
  qed
qed

lemma chain_nested:
  assumes "chain k (a, b) rows ab" and "Q a" and "Q b" and "\<forall>r\<in>set rows. S r"
    and link: "\<And>r a b c. S r \<Longrightarrow> Q a \<Longrightarrow> Q b \<Longrightarrow> dfld ''a'' r = Some a \<Longrightarrow>
      dfld ''b'' r = Some b \<Longrightarrow> dfld k r = Some c \<Longrightarrow>
      Q c \<and> is_finite a \<and> is_finite b \<and> is_finite c \<and>
      min (rv a) (rv b) \<le> rv c \<and> rv c \<le> max (rv a) (rv b)"
  shows "Q (fst ab) \<and> Q (snd ab) \<and> list_all (inside k) rows \<and>
         (\<exists>ws. map bracket_width64 rows = map Some ws \<and> sorted_wrt (\<lambda>w w'. w' \<le> w) ws \<and>
            (\<forall>w\<in>set ws. w \<le> \<bar>rv b - rv a\<bar>))"
  using assms(1-4)
proof (induction rows arbitrary: a b)
  case Nil
  then show ?case by simp
next
  case (Cons r rs)
  from Cons.prems(1) obtain c where
    r: "dfld ''a'' r = Some a" "dfld ''b'' r = Some b" "dfld k r = Some c"
    and nxt: "chain k (a, c) rs ab \<or> chain k (c, b) rs ab"
    by (auto split: option.splits)
  from Cons.prems(4) have S: "S r" "\<forall>r\<in>set rs. S r" by simp_all
  from link [OF S(1) Cons.prems(2,3) r] have
    c: "Q c" "is_finite a" "is_finite b" "is_finite c"
       "min (rv a) (rv b) \<le> rv c" "rv c \<le> max (rv a) (rv b)"
    by simp_all
  from nxt obtain a1 b1 where ch: "chain k (a1, b1) rs ab"
    and ab1: "a1 = a \<and> b1 = c \<or> a1 = c \<and> b1 = b"
    by auto
  from ab1 c(1) Cons.prems(2,3) have q1: "Q a1" "Q b1" by auto
  from ab1 c(5,6) have w1: "\<bar>rv b1 - rv a1\<bar> \<le> \<bar>rv b - rv a\<bar>"
    by (auto simp: min_def max_def abs_if split: if_splits)
  have ins: "inside k r"
    using r c by (simp add: inside_def)
  from Cons.IH [OF ch q1 S(2)] obtain ws where
    ih: "Q (fst ab)" "Q (snd ab)" "list_all (inside k) rs" "map bracket_width64 rs = map Some ws"
      "sorted_wrt (\<lambda>w w'. w' \<le> w) ws" "\<forall>w\<in>set ws. w \<le> \<bar>rv b1 - rv a1\<bar>"
    by blast
  have wr: "bracket_width64 r = Some \<bar>rv b - rv a\<bar>"
    using r c(2,3) by (simp add: bracket_width64_def)
  have "map bracket_width64 (r # rs) = map Some (\<bar>rv b - rv a\<bar> # ws)"
    using wr ih(4) by simp
  moreover have "sorted_wrt (\<lambda>w w'. w' \<le> w) (\<bar>rv b - rv a\<bar> # ws)"
    using ih(5,6) w1 by auto
  moreover have "\<forall>w\<in>set (\<bar>rv b - rv a\<bar> # ws). w \<le> \<bar>rv b - rv a\<bar>"
    using ih(6) w1 by auto
  ultimately have "\<exists>ws. map bracket_width64 (r # rs) = map Some ws \<and>
      sorted_wrt (\<lambda>w w'. w' \<le> w) ws \<and> (\<forall>w\<in>set ws. w \<le> \<bar>rv b - rv a\<bar>)"
    by blast
  with ih(1,2,3) ins show ?case by simp
qed

lemma bisection64_success:
  assumes "bisection64 f a b tol max_iter = Inr (DRoot r its)"
  shows "(\<exists>a' b'. for_loop (bisection_body64 f tol) [1..max_iter] (a, b, []) = Continue (a', b', its) \<and>
            r = ddiv (dadd a' b') (Finite 2)) \<or>
         for_loop (bisection_body64 f tol) [1..max_iter] (a, b, []) = Return (DRoot r its)"
  using assms by (auto simp: bisection64_def split: sum.splits if_splits ctl.splits)

lemma regula_falsi64_success:
  assumes "regula_falsi64 f a b tol max_iter = Inr (DRoot r its)"
  shows "(\<exists>a' b'. for_loop (regula_falsi_body64 f tol) [1..max_iter] (a, b, None, []) =
            Continue (a', b', Some r, its)) \<or>
         for_loop (regula_falsi_body64 f tol) [1..max_iter] (a, b, None, []) = Return (DRoot r its)"
  using assms by (auto simp: regula_falsi64_def split: sum.splits if_splits ctl.splits option.splits)

section \<open>C1: running out of iterations is a success\<close>

lemma run_bisection_exhaust:
  assumes "f a = Inr fa" and "f b = Inr fb" and "fa * fb < 0"
    and "for_loop (run_bisection_body py f tol) [1..m] (a, b, []) = Continue (a', b', h)"
  shows "run_bisection py f a b tol m = Inr (Result ((a' + b') / 2) h m)"
  using assms by (simp add: run_bisection_def)

text \<open>
  Claim C1, as amended. Take \<open>max_iter \<ge> 1\<close> and a run whose loop falls through all
  \<open>max_iter\<close> iterations: no iteration returns, so the convergence test never holds and
  no failure exit (zero denominator, divergence break, exception) is taken. Then the
  method returns a success whose trace has exactly \<open>max_iter\<close> records, the last of them
  with an error not below \<open>tol\<close>. For regula falsi, secant, Newton-Raphson, fixed point
  and modified secant the root is the estimate in the last record (\<open>c\<close>, \<open>x_new\<close>,
  \<open>x_next\<close>, \<open>g_x\<close>, \<open>x_next\<close>). For bisection the root is the midpoint of the bracket
  left by the last update, one of whose endpoints is the last record's midpoint. In
  \<^verbatim>\<open>app.py\<close> the bisection branch returns the same midpoint with
  \<^verbatim>\<open>iters = max_iter\<close>.
\<close>

theorem exhaustion_returns_success:
  assumes "1 \<le> max_iter"
  shows
  "(f a = Inr fa \<and> f b = Inr fb \<and> fa * fb < 0 \<and>
      for_loop (bisection_body f tol) [1..max_iter] (a, b, []) = Continue (a', b', its) \<longrightarrow>
    bisection f a b tol max_iter = Inr (Root ((a' + b') / 2) its) \<and>
    int (length its) = max_iter \<and>
    (fld ''mid'' (last its) = Some a' \<or> fld ''mid'' (last its) = Some b') \<and>
    (\<exists>e. fld ''error'' (last its) = Some e \<and> \<not> e < tol)) \<and>
   (f a = Inr fa \<and> f b = Inr fb \<and> fa * fb < 0 \<and>
      for_loop (regula_falsi_body f tol) [1..max_iter] (a, b, None, []) =
        Continue (a', b', c, its) \<longrightarrow>
    (\<exists>r. c = Some r \<and> regula_falsi f a b tol max_iter = Inr (Root r its) \<and>
       fld ''c'' (last its) = Some r) \<and>
    int (length its) = max_iter \<and>
    (\<exists>e. fld ''error'' (last its) = Some e \<and> \<not> e < tol)) \<and>
   (for_loop (secant_body f tol) [1..max_iter] (x0, x1, []) = Continue (x0', x1', its) \<longrightarrow>
    secant f x0 x1 tol max_iter = Inr (Root x1' its) \<and>
    int (length its) = max_iter \<and> fld ''x_new'' (last its) = Some x1' \<and>
    (\<exists>e. fld ''error'' (last its) = Some e \<and> \<not> e < tol)) \<and>
   (for_loop (newton_raphson_body f df tol) [1..max_iter] (x0, []) = Continue (x', its) \<longrightarrow>
    newton_raphson f df x0 tol max_iter = Inr (Root x' its) \<and>
    int (length its) = max_iter \<and> fld ''x_next'' (last its) = Some x' \<and>
    (\<exists>e. fld ''error'' (last its) = Some e \<and> \<not> e < tol)) \<and>
   (for_loop (fixed_point_body f tol) [1..max_iter] (x0, []) = Continue (x', its) \<longrightarrow>
    fixed_point f x0 tol max_iter = Inr (Root x' its) \<and>
    int (length its) = max_iter \<and> fld ''g_x'' (last its) = Some x' \<and>
    (\<exists>e. fld ''error'' (last its) = Some e \<and> \<not> e < tol)) \<and>
   (for_loop (modified_secant_body f delta tol) [1..max_iter] (x0, []) = Continue (x', its) \<longrightarrow>
    modified_secant f x0 delta tol max_iter = Inr (Root x' its) \<and>
    int (length its) = max_iter \<and> fld ''x_next'' (last its) = Some x' \<and>
    (\<exists>e. fld ''error'' (last its) = Some e \<and> \<not> e < tol)) \<and>
   (f a = Inr fa \<and> f b = Inr fb \<and> fa * fb < 0 \<and>
      for_loop (run_bisection_body py f tol) [1..max_iter] (a, b, []) = Continue (a', b', its) \<longrightarrow>
    run_bisection py f a b tol max_iter = Inr (Result ((a' + b') / 2) its max_iter))"
proof (intro conjI impI; (elim conjE)?)
  assume "f a = Inr fa" "f b = Inr fb" "fa * fb < 0"
    "for_loop (bisection_body f tol) [1..max_iter] (a, b, []) = Continue (a', b', its)"
  from bisection_exhaust [OF this] assms
  show "bisection f a b tol max_iter = Inr (Root ((a' + b') / 2) its)"
    "int (length its) = max_iter"
    "fld ''mid'' (last its) = Some a' \<or> fld ''mid'' (last its) = Some b'"
    "\<exists>e. fld ''error'' (last its) = Some e \<and> \<not> e < tol"
    by auto
next
  assume "f a = Inr fa" "f b = Inr fb" "fa * fb < 0"
    "for_loop (regula_falsi_body f tol) [1..max_iter] (a, b, None, []) = Continue (a', b', c, its)"
  from regula_falsi_exhaust [OF this] assms
  show "\<exists>r. c = Some r \<and> regula_falsi f a b tol max_iter = Inr (Root r its) \<and>
       fld ''c'' (last its) = Some r"
    "int (length its) = max_iter"
    "\<exists>e. fld ''error'' (last its) = Some e \<and> \<not> e < tol"
    by auto
next
  assume "for_loop (secant_body f tol) [1..max_iter] (x0, x1, []) = Continue (x0', x1', its)"
  from secant_exhaust [OF this] assms
  show "secant f x0 x1 tol max_iter = Inr (Root x1' its)"
    "int (length its) = max_iter" "fld ''x_new'' (last its) = Some x1'"
    "\<exists>e. fld ''error'' (last its) = Some e \<and> \<not> e < tol"
    by auto
next
  assume "for_loop (newton_raphson_body f df tol) [1..max_iter] (x0, []) = Continue (x', its)"
  from newton_raphson_exhaust [OF this] assms
  show "newton_raphson f df x0 tol max_iter = Inr (Root x' its)"
    "int (length its) = max_iter" "fld ''x_next'' (last its) = Some x'"
    "\<exists>e. fld ''error'' (last its) = Some e \<and> \<not> e < tol"
    by auto
next
  assume "for_loop (fixed_point_body f tol) [1..max_iter] (x0, []) = Continue (x', its)"
  from fixed_point_exhaust [OF this] assms
  show "fixed_point f x0 tol max_iter = Inr (Root x' its)"
    "int (length its) = max_iter" "fld ''g_x'' (last its) = Some x'"
    "\<exists>e. fld ''error'' (last its) = Some e \<and> \<not> e < tol"
    by auto
next
  assume "for_loop (modified_secant_body f delta tol) [1..max_iter] (x0, []) = Continue (x', its)"
  from modified_secant_exhaust [OF this] assms
  show "modified_secant f x0 delta tol max_iter = Inr (Root x' its)"
    "int (length its) = max_iter" "fld ''x_next'' (last its) = Some x'"
    "\<exists>e. fld ''error'' (last its) = Some e \<and> \<not> e < tol"
    by auto
next
  assume "f a = Inr fa" "f b = Inr fb" "fa * fb < 0"
    "for_loop (run_bisection_body py f tol) [1..max_iter] (a, b, []) = Continue (a', b', its)"
  then show "run_bisection py f a b tol max_iter = Inr (Result ((a' + b') / 2) its max_iter)"
    by (rule run_bisection_exhaust)
qed

text \<open>
  The claim as stated has the root be the last computed estimate. For bisection on
  \<open>f(x) = x\<close> over \<open>[-1, 3]\<close> with \<open>tol = 1/2\<close> and \<open>max_iter = 1\<close> the only
  record has midpoint \<open>1\<close>, and the root returned is \<open>0\<close>. The claim also asks
  only that the convergence test never holds: fixed point on \<open>g(x) = x + 2 10\<^sup>1\<^sup>0\<close>
  from \<open>0\<close> with \<open>tol = 1\<close> and \<open>max_iter = 1\<close> runs its one iteration, whose
  error \<open>2 10\<^sup>1\<^sup>0\<close> is not below \<open>tol\<close>, and returns the divergence failure.
\<close>

theorem exhaustion_bisection_root_counterexample:
  "for_loop (bisection_body (\<lambda>x. Inr x) (1 / 2)) [1..1] (- 1, 3, []) =
     Continue (- 1, 1, [bisection_row 1 (- 1) 3 1 1 4]) \<and>
   bisection (\<lambda>x. Inr x) (- 1) 3 (1 / 2) 1 = Inr (Root 0 [bisection_row 1 (- 1) 3 1 1 4]) \<and>
   fld ''mid'' (last [bisection_row 1 (- 1) 3 1 1 4]) = Some 1 \<and>
   (0::real) \<noteq> 1 \<and>
   fixed_point (\<lambda>x. Inr (x + 20000000000)) 0 1 1 = Inr (Fail ''Method diverged.'') \<and>
   \<not> \<bar>(0 + 20000000000) - 0\<bar> < (1::real)"
  by (simp add: bisection_def fixed_point_def Let_def fld_def)


theorem exhaustion_returns_success_witness:
  "(1::int) \<le> 1 \<and>
   for_loop (bisection_body (\<lambda>x. Inr x) (1 / 2)) [1..1] (- 1, 3, []) =
     Continue (- 1, 1, [bisection_row 1 (- 1) 3 1 1 4]) \<and>
   bisection (\<lambda>x. Inr x) (- 1) 3 (1 / 2) 1 =
     Inr (Root ((- 1 + 1) / 2) [bisection_row 1 (- 1) 3 1 1 4]) \<and>
   for_loop (regula_falsi_body (\<lambda>x. Inr (x * x - 2)) (1 / 100)) [1..1] (1, 2, None, []) =
     Continue (4 / 3, 2, Some (4 / 3), [regula_falsi_row 1 1 2 (4 / 3) (- 2 / 9) (2 / 9)]) \<and>
   regula_falsi (\<lambda>x. Inr (x * x - 2)) 1 2 (1 / 100) 1 =
     Inr (Root (4 / 3) [regula_falsi_row 1 1 2 (4 / 3) (- 2 / 9) (2 / 9)]) \<and>
   for_loop (secant_body (\<lambda>x. Inr (x * x - 2)) (1 / 100)) [1..1] (1, 2, []) =
     Continue (2, 4 / 3, [[(''iter'', PInt 1), (''x_prev'', PFloat 1), (''x_curr'', PFloat 2),
       (''x_new'', PFloat (4 / 3)), (''error'', PFloat (2 / 3))]]) \<and>
   secant (\<lambda>x. Inr (x * x - 2)) 1 2 (1 / 100) 1 =
     Inr (Root (4 / 3) [[(''iter'', PInt 1), (''x_prev'', PFloat 1), (''x_curr'', PFloat 2),
       (''x_new'', PFloat (4 / 3)), (''error'', PFloat (2 / 3))]]) \<and>
   for_loop (newton_raphson_body (\<lambda>x. Inr (x * x - 2)) (\<lambda>x. Inr (2 * x)) (1 / 100)) [1..1]
       (1, []) =
     Continue (3 / 2, [[(''iter'', PInt 1), (''x_curr'', PFloat 1), (''f_x'', PFloat (- 1)),
       (''df_x'', PFloat 2), (''x_next'', PFloat (3 / 2)), (''error'', PFloat (1 / 2))]]) \<and>
   newton_raphson (\<lambda>x. Inr (x * x - 2)) (\<lambda>x. Inr (2 * x)) 1 (1 / 100) 1 =
     Inr (Root (3 / 2) [[(''iter'', PInt 1), (''x_curr'', PFloat 1), (''f_x'', PFloat (- 1)),
       (''df_x'', PFloat 2), (''x_next'', PFloat (3 / 2)), (''error'', PFloat (1 / 2))]]) \<and>
   for_loop (fixed_point_body (\<lambda>x. Inr (x / 2 + 1)) (1 / 100)) [1..1] (0, []) =
     Continue (1, [[(''iter'', PInt 1), (''x_curr'', PFloat 0), (''g_x'', PFloat 1),
       (''error'', PFloat 1)]]) \<and>
   fixed_point (\<lambda>x. Inr (x / 2 + 1)) 0 (1 / 100) 1 =
     Inr (Root 1 [[(''iter'', PInt 1), (''x_curr'', PFloat 0), (''g_x'', PFloat 1),
       (''error'', PFloat 1)]]) \<and>
   for_loop (modified_secant_body (\<lambda>x. Inr (x * x - 2)) 1 (1 / 100)) [1..1] (1, []) =
     Continue (4 / 3, [[(''iter'', PInt 1), (''x_curr'', PFloat 1), (''x_next'', PFloat (4 / 3)),
       (''error'', PFloat (1 / 3))]]) \<and>
   modified_secant (\<lambda>x. Inr (x * x - 2)) 1 1 (1 / 100) 1 =
     Inr (Root (4 / 3) [[(''iter'', PInt 1), (''x_curr'', PFloat 1), (''x_next'', PFloat (4 / 3)),
       (''error'', PFloat (1 / 3))]])"
proof -
  have le: "(1::int) \<le> 1" by simp
  note main = exhaustion_returns_success [OF le]
  have b: "(\<lambda>x. Inr x :: exn + real) (- 1) = Inr (- 1) \<and> (\<lambda>x. Inr x :: exn + real) 3 = Inr 3 \<and>
      (- 1 :: real) * 3 < 0 \<and>
      for_loop (bisection_body (\<lambda>x. Inr x) (1 / 2)) [1..1] (- 1, 3, []) =
        Continue (- 1, 1, [bisection_row 1 (- 1) 3 1 1 4])"
    by (simp add: Let_def)
  have r: "(\<lambda>x. Inr (x * x - 2) :: exn + real) 1 = Inr (- 1) \<and>
      (\<lambda>x. Inr (x * x - 2) :: exn + real) 2 = Inr 2 \<and> (- 1 :: real) * 2 < 0 \<and>
      for_loop (regula_falsi_body (\<lambda>x. Inr (x * x - 2)) (1 / 100)) [1..1] (1, 2, None, []) =
        Continue (4 / 3, 2, Some (4 / 3), [regula_falsi_row 1 1 2 (4 / 3) (- 2 / 9) (2 / 9)])"
    by (simp add: Let_def)
  have s: "for_loop (secant_body (\<lambda>x. Inr (x * x - 2)) (1 / 100)) [1..1] (1, 2, []) =
     Continue (2, 4 / 3, [[(''iter'', PInt 1), (''x_prev'', PFloat 1), (''x_curr'', PFloat 2),
       (''x_new'', PFloat (4 / 3)), (''error'', PFloat (2 / 3))]])"
    by (simp add: Let_def)
  have n: "for_loop (newton_raphson_body (\<lambda>x. Inr (x * x - 2)) (\<lambda>x. Inr (2 * x)) (1 / 100))
       [1..1] (1, []) =
     Continue (3 / 2, [[(''iter'', PInt 1), (''x_curr'', PFloat 1), (''f_x'', PFloat (- 1)),
       (''df_x'', PFloat 2), (''x_next'', PFloat (3 / 2)), (''error'', PFloat (1 / 2))]])"
    by (simp add: Let_def)
  have g: "for_loop (fixed_point_body (\<lambda>x. Inr (x / 2 + 1)) (1 / 100)) [1..1] (0, []) =
     Continue (1, [[(''iter'', PInt 1), (''x_curr'', PFloat 0), (''g_x'', PFloat 1),
       (''error'', PFloat 1)]])"
    by (simp add: Let_def)
  have m: "for_loop (modified_secant_body (\<lambda>x. Inr (x * x - 2)) 1 (1 / 100)) [1..1] (1, []) =
     Continue (4 / 3, [[(''iter'', PInt 1), (''x_curr'', PFloat 1), (''x_next'', PFloat (4 / 3)),
       (''error'', PFloat (1 / 3))]])"
    by (simp add: Let_def)
  from main [THEN conjunct1, rule_format, OF b]
  have b': "bisection (\<lambda>x. Inr x) (- 1) 3 (1 / 2) 1 =
     Inr (Root ((- 1 + 1) / 2) [bisection_row 1 (- 1) 3 1 1 4])"
    by simp
  from main [THEN conjunct2, THEN conjunct1, rule_format, OF r]
  have r': "regula_falsi (\<lambda>x. Inr (x * x - 2)) 1 2 (1 / 100) 1 =
     Inr (Root (4 / 3) [regula_falsi_row 1 1 2 (4 / 3) (- 2 / 9) (2 / 9)])"
    by auto
  from main [THEN conjunct2, THEN conjunct2, THEN conjunct1, rule_format, OF s]
  have s': "secant (\<lambda>x. Inr (x * x - 2)) 1 2 (1 / 100) 1 =
     Inr (Root (4 / 3) [[(''iter'', PInt 1), (''x_prev'', PFloat 1), (''x_curr'', PFloat 2),
       (''x_new'', PFloat (4 / 3)), (''error'', PFloat (2 / 3))]])"
    by simp
  from main [THEN conjunct2, THEN conjunct2, THEN conjunct2, THEN conjunct1, rule_format, OF n]
  have n': "newton_raphson (\<lambda>x. Inr (x * x - 2)) (\<lambda>x. Inr (2 * x)) 1 (1 / 100) 1 =
     Inr (Root (3 / 2) [[(''iter'', PInt 1), (''x_curr'', PFloat 1), (''f_x'', PFloat (- 1)),
       (''df_x'', PFloat 2), (''x_next'', PFloat (3 / 2)), (''error'', PFloat (1 / 2))]])"
    by simp
  from main [THEN conjunct2, THEN conjunct2, THEN conjunct2, THEN conjunct2, THEN conjunct1,
      rule_format, OF g]
  have g': "fixed_point (\<lambda>x. Inr (x / 2 + 1)) 0 (1 / 100) 1 =
     Inr (Root 1 [[(''iter'', PInt 1), (''x_curr'', PFloat 0), (''g_x'', PFloat 1),
       (''error'', PFloat 1)]])"
    by simp
  from main [THEN conjunct2, THEN conjunct2, THEN conjunct2, THEN conjunct2, THEN conjunct2,
      THEN conjunct1, rule_format, OF m]
  have m': "modified_secant (\<lambda>x. Inr (x * x - 2)) 1 1 (1 / 100) 1 =
     Inr (Root (4 / 3) [[(''iter'', PInt 1), (''x_curr'', PFloat 1), (''x_next'', PFloat (4 / 3)),
       (''error'', PFloat (1 / 3))]])"
    by simp
  from le b b' r r' s s' n n' g g' m m' show ?thesis by blast
qed

section \<open>C2: tolerance and iteration cap are not validated\<close>

lemma bisection_nonpositive_tol:
  assumes "tol \<le> 0" and res: "bisection f a b tol m = Inr (Root r its)"
  shows "length its = nat m"
proof -
  from bisection_Root_bracket [OF res] obtain fa fb where
    br: "f a = Inr fa" "f b = Inr fb" "fa * fb < 0" by blast
  have "bisection_body f tol i t \<noteq> Return (Root r its)" for i t
    using \<open>tol \<le> 0\<close>
    by (cases t) (auto dest!: bisection_body_Return simp del: bisection_body.simps)
  then have "for_loop (bisection_body f tol) [1..m] (a, b, []) \<noteq> Return (Root r its)"
    by (rule loop_never_Root)
  with res br obtain a' b' where
    "for_loop (bisection_body f tol) [1..m] (a, b, []) = Continue (a', b', its)"
    by (auto simp: bisection_def split: ctl.splits)
  from bisection_exhaust [OF br this] show ?thesis by simp
qed

lemma regula_falsi_nonpositive_tol:
  assumes "tol \<le> 0" and res: "regula_falsi f a b tol m = Inr (Root r its)"
  shows "length its = nat m"
proof -
  from regula_falsi_Root_bracket [OF res] obtain fa fb where
    br: "f a = Inr fa" "f b = Inr fb" "fa * fb < 0" by blast
  have "regula_falsi_body f tol i t \<noteq> Return (Root r its)" for i t
    using \<open>tol \<le> 0\<close>
    by (cases t) (auto dest!: regula_falsi_body_Return simp del: regula_falsi_body.simps)
  then have "for_loop (regula_falsi_body f tol) [1..m] (a, b, None, []) \<noteq> Return (Root r its)"
    by (rule loop_never_Root)
  with res br obtain a' b' c where
    "for_loop (regula_falsi_body f tol) [1..m] (a, b, None, []) = Continue (a', b', c, its)"
    by (auto simp: regula_falsi_def split: ctl.splits option.splits)
  from regula_falsi_exhaust [OF br this] show ?thesis by simp
qed

lemma secant_nonpositive_tol:
  assumes "tol \<le> 0" and res: "secant f x0 x1 tol m = Inr (Root r its)"
  shows "length its = nat m"
proof -
  have "secant_body f tol i t \<noteq> Return (Root r its)" for i t
    using \<open>tol \<le> 0\<close>
    by (cases t) (auto dest!: secant_body_Return simp del: secant_body.simps)
  then have "for_loop (secant_body f tol) [1..m] (x0, x1, []) \<noteq> Return (Root r its)"
    by (rule loop_never_Root)
  with res obtain x0' where
    "for_loop (secant_body f tol) [1..m] (x0, x1, []) = Continue (x0', r, its)"
    by (auto simp: secant_def split: ctl.splits)
  from secant_exhaust [OF this] show ?thesis by simp
qed

lemma newton_raphson_nonpositive_tol:
  assumes "tol \<le> 0" and res: "newton_raphson f df x0 tol m = Inr (Root r its)"
  shows "length its = nat m"
proof -
  have "newton_raphson_body f df tol i t \<noteq> Return (Root r its)" for i t
    using \<open>tol \<le> 0\<close>
    by (cases t) (auto dest!: newton_raphson_body_Return simp del: newton_raphson_body.simps)
  then have "for_loop (newton_raphson_body f df tol) [1..m] (x0, []) \<noteq> Return (Root r its)"
    by (rule loop_never_Root)
  with res have "for_loop (newton_raphson_body f df tol) [1..m] (x0, []) = Continue (r, its)"
    by (auto simp: newton_raphson_def split: ctl.splits)
  from newton_raphson_exhaust [OF this] show ?thesis by simp
qed

lemma fixed_point_nonpositive_tol:
  assumes "tol \<le> 0" and res: "fixed_point g x0 tol m = Inr (Root r its)"
  shows "length its = nat m"
proof -
  have "fixed_point_body g tol i t \<noteq> Return (Root r its)" for i t
    using \<open>tol \<le> 0\<close>
    by (cases t) (auto dest!: fixed_point_body_Return simp del: fixed_point_body.simps)
  then have "for_loop (fixed_point_body g tol) [1..m] (x0, []) \<noteq> Return (Root r its)"
    by (rule loop_never_Root)
  with res have "for_loop (fixed_point_body g tol) [1..m] (x0, []) = Continue (r, its)"
    by (auto simp: fixed_point_def split: ctl.splits)
  from fixed_point_exhaust [OF this] show ?thesis by simp
qed

lemma modified_secant_nonpositive_tol:
  assumes "tol \<le> 0" and res: "modified_secant f x0 delta tol m = Inr (Root r its)"
  shows "length its = nat m"
proof -
  have "modified_secant_body f delta tol i t \<noteq> Return (Root r its)" for i t
    using \<open>tol \<le> 0\<close>
    by (cases t) (auto dest!: modified_secant_body_Return simp del: modified_secant_body.simps)
  then have "for_loop (modified_secant_body f delta tol) [1..m] (x0, []) \<noteq> Return (Root r its)"
    by (rule loop_never_Root)
  with res have "for_loop (modified_secant_body f delta tol) [1..m] (x0, []) = Continue (r, its)"
    by (auto simp: modified_secant_def split: ctl.splits)
  from modified_secant_exhaust [OF this] show ?thesis by simp
qed

lemma no_iterations:
  assumes "max_iter < 1"
  shows "secant f x0 x1 tol max_iter = Inr (Root x1 [])"
    and "newton_raphson f df x0 tol max_iter = Inr (Root x0 [])"
    and "fixed_point f x0 tol max_iter = Inr (Root x0 [])"
    and "modified_secant f x0 delta tol max_iter = Inr (Root x0 [])"
    and "f a = Inr fa \<Longrightarrow> f b = Inr fb \<Longrightarrow> fa * fb < 0 \<Longrightarrow>
           bisection f a b tol max_iter = Inr (Root ((a + b) / 2) [])"
    and "run_secant py f x0 x1 tol max_iter = Inr (Result x1 [] max_iter)"
    and "run_newton py f df x0 tol max_iter = Inr (Result x0 [] max_iter)"
    and "run_fixed_point py f x0 tol max_iter = Inr (Result x0 [] max_iter)"
    and "run_modified_secant py f x0 delta tol max_iter = Inr (Result x0 [] max_iter)"
    and "f a = Inr fa \<Longrightarrow> f b = Inr fb \<Longrightarrow> fa * fb < 0 \<Longrightarrow>
           run_bisection py f a b tol max_iter = Inr (Result ((a + b) / 2) [] max_iter)"
  using assms
  by (simp_all add: secant_def newton_raphson_def fixed_point_def modified_secant_def bisection_def
      run_secant_def run_newton_def run_fixed_point_def run_modified_secant_def run_bisection_def)

text \<open>
  Claim C2, as amended. No method checks \<open>tol\<close> or \<open>max_iter\<close>, and none has an
  invalid-parameter failure. With \<open>max_iter < 1\<close> the loop body never runs and no record
  is produced: secant, Newton-Raphson, fixed point and modified secant return a success
  with the starting estimate and an empty trace, and bisection, once its sign check has
  passed, returns a success with \<open>(a + b) / 2\<close> and an empty trace; the same holds for
  the branches of \<^verbatim>\<open>run_method\<close>. With \<open>tol \<le> 0\<close> the method iterates, the tolerance
  test never holds, and every success has as many records as the loop has iterations.
\<close>

theorem tolerance_and_cap_not_validated:
  "(max_iter < 1 \<longrightarrow>
      secant f x0 x1 tol max_iter = Inr (Root x1 []) \<and>
      newton_raphson f df x0 tol max_iter = Inr (Root x0 []) \<and>
      fixed_point f x0 tol max_iter = Inr (Root x0 []) \<and>
      modified_secant f x0 delta tol max_iter = Inr (Root x0 []) \<and>
      (f a = Inr fa \<and> f b = Inr fb \<and> fa * fb < 0 \<longrightarrow>
         bisection f a b tol max_iter = Inr (Root ((a + b) / 2) [])) \<and>
      run_secant py f x0 x1 tol max_iter = Inr (Result x1 [] max_iter) \<and>
      run_newton py f df x0 tol max_iter = Inr (Result x0 [] max_iter) \<and>
      run_fixed_point py f x0 tol max_iter = Inr (Result x0 [] max_iter) \<and>
      run_modified_secant py f x0 delta tol max_iter = Inr (Result x0 [] max_iter) \<and>
      (f a = Inr fa \<and> f b = Inr fb \<and> fa * fb < 0 \<longrightarrow>
         run_bisection py f a b tol max_iter = Inr (Result ((a + b) / 2) [] max_iter))) \<and>
   (tol \<le> 0 \<longrightarrow>
      (bisection f a b tol max_iter = Inr (Root r its) \<longrightarrow> length its = nat max_iter) \<and>
      (regula_falsi f a b tol max_iter = Inr (Root r its) \<longrightarrow> length its = nat max_iter) \<and>
      (secant f x0 x1 tol max_iter = Inr (Root r its) \<longrightarrow> length its = nat max_iter) \<and>
      (newton_raphson f df x0 tol max_iter = Inr (Root r its) \<longrightarrow> length its = nat max_iter) \<and>
      (fixed_point f x0 tol max_iter = Inr (Root r its) \<longrightarrow> length its = nat max_iter) \<and>
      (modified_secant f x0 delta tol max_iter = Inr (Root r its) \<longrightarrow>
         length its = nat max_iter))"
proof (intro conjI impI)
  assume "max_iter < 1"
  note none = no_iterations [OF this]
  show "secant f x0 x1 tol max_iter = Inr (Root x1 [])"
    "newton_raphson f df x0 tol max_iter = Inr (Root x0 [])"
    "fixed_point f x0 tol max_iter = Inr (Root x0 [])"
    "modified_secant f x0 delta tol max_iter = Inr (Root x0 [])"
    "run_secant py f x0 x1 tol max_iter = Inr (Result x1 [] max_iter)"
    "run_newton py f df x0 tol max_iter = Inr (Result x0 [] max_iter)"
    "run_fixed_point py f x0 tol max_iter = Inr (Result x0 [] max_iter)"
    "run_modified_secant py f x0 delta tol max_iter = Inr (Result x0 [] max_iter)"
    by (simp_all add: none)
  show "bisection f a b tol max_iter = Inr (Root ((a + b) / 2) [])"
    if "f a = Inr fa \<and> f b = Inr fb \<and> fa * fb < 0"
    using that by (simp add: none)
  show "run_bisection py f a b tol max_iter = Inr (Result ((a + b) / 2) [] max_iter)"
    if "f a = Inr fa \<and> f b = Inr fb \<and> fa * fb < 0"
    using that by (simp add: none)
next
  assume "tol \<le> 0" "bisection f a b tol max_iter = Inr (Root r its)"
  then show "length its = nat max_iter" by (rule bisection_nonpositive_tol)
next
  assume "tol \<le> 0" "regula_falsi f a b tol max_iter = Inr (Root r its)"
  then show "length its = nat max_iter" by (rule regula_falsi_nonpositive_tol)
next
  assume "tol \<le> 0" "secant f x0 x1 tol max_iter = Inr (Root r its)"
  then show "length its = nat max_iter" by (rule secant_nonpositive_tol)
next
  assume "tol \<le> 0" "newton_raphson f df x0 tol max_iter = Inr (Root r its)"
  then show "length its = nat max_iter" by (rule newton_raphson_nonpositive_tol)
next
  assume "tol \<le> 0" "fixed_point f x0 tol max_iter = Inr (Root r its)"
  then show "length its = nat max_iter" by (rule fixed_point_nonpositive_tol)
next
  assume "tol \<le> 0" "modified_secant f x0 delta tol max_iter = Inr (Root r its)"
  then show "length its = nat max_iter" by (rule modified_secant_nonpositive_tol)
qed

text \<open>
  The claim as stated fails: Newton-Raphson with \<open>tol = -1\<close> iterates twice and succeeds,
  and secant with \<open>max_iter = 0\<close> succeeds with an empty trace.
\<close>

theorem invalid_parameters_accepted_counterexample:
  "newton_raphson (\<lambda>x. Inr (x * x - 2)) (\<lambda>x. Inr (2 * x)) 1 (- 1) 2 =
     Inr (Root (17 / 12)
       [[(''iter'', PInt 1), (''x_curr'', PFloat 1), (''f_x'', PFloat (- 1)),
         (''df_x'', PFloat 2), (''x_next'', PFloat (3 / 2)), (''error'', PFloat (1 / 2))],
        [(''iter'', PInt 2), (''x_curr'', PFloat (3 / 2)), (''f_x'', PFloat (1 / 4)),
         (''df_x'', PFloat 3), (''x_next'', PFloat (17 / 12)), (''error'', PFloat (1 / 12))]]) \<and>
   secant (\<lambda>x. Inr (x * x - 2)) 1 2 (1 / 10000) 0 = Inr (Root 2 [])"
  by (simp add: newton_raphson_def secant_def Let_def upto.simps)


theorem tolerance_and_cap_not_validated_witness:
  "(0::int) < 1 \<and>
   secant (\<lambda>x. Inr (x * x - 2)) 1 2 (1 / 10000) 0 = Inr (Root 2 []) \<and>
   newton_raphson (\<lambda>x. Inr (x * x - 2)) (\<lambda>x. Inr (2 * x)) 1 (1 / 10000) 0 = Inr (Root 1 []) \<and>
   fixed_point (\<lambda>x. Inr (x * x - 2)) 1 (1 / 10000) 0 = Inr (Root 1 []) \<and>
   modified_secant (\<lambda>x. Inr (x * x - 2)) 1 1 (1 / 10000) 0 = Inr (Root 1 []) \<and>
   (\<lambda>x. Inr (x * x - 2) :: exn + real) 1 = Inr (- 1) \<and>
   (\<lambda>x. Inr (x * x - 2) :: exn + real) 2 = Inr 2 \<and> (- 1 :: real) * 2 < 0 \<and>
   bisection (\<lambda>x. Inr (x * x - 2)) 1 2 (1 / 10000) 0 = Inr (Root ((1 + 2) / 2) []) \<and>
   (- 1 :: real) \<le> 0 \<and>
   newton_raphson (\<lambda>x. Inr (x * x - 2)) (\<lambda>x. Inr (2 * x)) 1 (- 1) 2 =
     Inr (Root (17 / 12)
       [[(''iter'', PInt 1), (''x_curr'', PFloat 1), (''f_x'', PFloat (- 1)),
         (''df_x'', PFloat 2), (''x_next'', PFloat (3 / 2)), (''error'', PFloat (1 / 2))],
        [(''iter'', PInt 2), (''x_curr'', PFloat (3 / 2)), (''f_x'', PFloat (1 / 4)),
         (''df_x'', PFloat 3), (''x_next'', PFloat (17 / 12)), (''error'', PFloat (1 / 12))]]) \<and>
   length
       [[(''iter'', PInt 1), (''x_curr'', PFloat 1), (''f_x'', PFloat (- 1)),
         (''df_x'', PFloat 2), (''x_next'', PFloat (3 / 2)), (''error'', PFloat (1 / 2))],
        [(''iter'', PInt 2), (''x_curr'', PFloat (3 / 2)), (''f_x'', PFloat (1 / 4)),
         (''df_x'', PFloat 3), (''x_next'', PFloat (17 / 12)), (''error'', PFloat (1 / 12))]] =
     nat 2"
proof -
  have lt: "(0::int) < 1" by simp
  have le: "(- 1 :: real) \<le> 0" by simp
  have br: "(\<lambda>x. Inr (x * x - 2) :: exn + real) 1 = Inr (- 1) \<and>
      (\<lambda>x. Inr (x * x - 2) :: exn + real) 2 = Inr 2 \<and> (- 1 :: real) * 2 < 0"
    by simp
  note none = tolerance_and_cap_not_validated [where max_iter = 0 and f = "\<lambda>x. Inr (x * x - 2)"
      and df = "\<lambda>x. Inr (2 * x)" and ?x0.0 = 1 and ?x1.0 = 2 and delta = 1
      and tol = "1 / 10000" and a = 1 and b = 2 and fa = "- 1" and fb = 2,
      THEN conjunct1, rule_format, OF lt]
  from none have s: "secant (\<lambda>x. Inr (x * x - 2)) 1 2 (1 / 10000) 0 = Inr (Root 2 [])"
    by (rule conjunct1)
  from none have n:
    "newton_raphson (\<lambda>x. Inr (x * x - 2)) (\<lambda>x. Inr (2 * x)) 1 (1 / 10000) 0 = Inr (Root 1 [])"
    by blast
  from none have g: "fixed_point (\<lambda>x. Inr (x * x - 2)) 1 (1 / 10000) 0 = Inr (Root 1 [])"
    by blast
  from none have m: "modified_secant (\<lambda>x. Inr (x * x - 2)) 1 1 (1 / 10000) 0 = Inr (Root 1 [])"
    by blast
  from none br have b:
    "bisection (\<lambda>x. Inr (x * x - 2)) 1 2 (1 / 10000) 0 = Inr (Root ((1 + 2) / 2) [])"
    by blast
  have run: "newton_raphson (\<lambda>x. Inr (x * x - 2)) (\<lambda>x. Inr (2 * x)) 1 (- 1) 2 =
     Inr (Root (17 / 12)
       [[(''iter'', PInt 1), (''x_curr'', PFloat 1), (''f_x'', PFloat (- 1)),
         (''df_x'', PFloat 2), (''x_next'', PFloat (3 / 2)), (''error'', PFloat (1 / 2))],
        [(''iter'', PInt 2), (''x_curr'', PFloat (3 / 2)), (''f_x'', PFloat (1 / 4)),
         (''df_x'', PFloat 3), (''x_next'', PFloat (17 / 12)), (''error'', PFloat (1 / 12))]])"
    by (simp add: newton_raphson_def Let_def upto.simps)
  from tolerance_and_cap_not_validated [THEN conjunct2, rule_format, OF le,
      THEN conjunct2, THEN conjunct2, THEN conjunct2, THEN conjunct1, rule_format, OF run]
  have len: "length
       [[(''iter'', PInt 1), (''x_curr'', PFloat 1), (''f_x'', PFloat (- 1)),
         (''df_x'', PFloat 2), (''x_next'', PFloat (3 / 2)), (''error'', PFloat (1 / 2))],
        [(''iter'', PInt 2), (''x_curr'', PFloat (3 / 2)), (''f_x'', PFloat (1 / 4)),
         (''df_x'', PFloat 3), (''x_next'', PFloat (17 / 12)), (''error'', PFloat (1 / 12))]] =
     nat 2" .
  from lt s n g m br b le run len show ?thesis by blast
qed

section \<open>C3: a success has converged or has used every iteration\<close>

text \<open>
  Claim C3, as amended. Take \<open>max_iter \<ge> 0\<close>. When regula falsi, secant, Newton-Raphson,
  fixed point or modified secant returns a success, the error of the last record is
  below \<open>tol\<close>, or the trace has exactly \<open>max_iter\<close> records. When bisection returns a
  success, the error of the last record is below \<open>tol\<close>, or the absolute value of its
  \<open>f_mid\<close> is below \<open>tol\<close>, or the trace has exactly \<open>max_iter\<close> records.
\<close>

theorem success_converged_or_exhausted:
  assumes "0 \<le> max_iter"
  shows
  "(bisection f a b tol max_iter = Inr (Root r its) \<longrightarrow>
      (its \<noteq> [] \<and> (\<exists>e fm. fld ''error'' (last its) = Some e \<and>
         fld ''f_mid'' (last its) = Some fm \<and> (e < tol \<or> \<bar>fm\<bar> < tol))) \<or>
      int (length its) = max_iter) \<and>
   (regula_falsi f a b tol max_iter = Inr (Root r its) \<longrightarrow>
      (its \<noteq> [] \<and> (\<exists>e. fld ''error'' (last its) = Some e \<and> e < tol)) \<or>
      int (length its) = max_iter) \<and>
   (secant f x0 x1 tol max_iter = Inr (Root r its) \<longrightarrow>
      (its \<noteq> [] \<and> (\<exists>e. fld ''error'' (last its) = Some e \<and> e < tol)) \<or>
      int (length its) = max_iter) \<and>
   (newton_raphson f df x0 tol max_iter = Inr (Root r its) \<longrightarrow>
      (its \<noteq> [] \<and> (\<exists>e. fld ''error'' (last its) = Some e \<and> e < tol)) \<or>
      int (length its) = max_iter) \<and>
   (fixed_point f x0 tol max_iter = Inr (Root r its) \<longrightarrow>
      (its \<noteq> [] \<and> (\<exists>e. fld ''error'' (last its) = Some e \<and> e < tol)) \<or>
      int (length its) = max_iter) \<and>
   (modified_secant f x0 delta tol max_iter = Inr (Root r its) \<longrightarrow>
      (its \<noteq> [] \<and> (\<exists>e. fld ''error'' (last its) = Some e \<and> e < tol)) \<or>
      int (length its) = max_iter)"
proof (intro conjI impI)
  assume res: "bisection f a b tol max_iter = Inr (Root r its)"
  from bisection_Root_bracket [OF res] obtain fa fb where
    br: "f a = Inr fa" "f b = Inr fb" "fa * fb < 0" by blast
  from bisection_success [OF res] bisection_exhaust [OF br] assms
  show "(its \<noteq> [] \<and> (\<exists>e fm. fld ''error'' (last its) = Some e \<and>
         fld ''f_mid'' (last its) = Some fm \<and> (e < tol \<or> \<bar>fm\<bar> < tol))) \<or>
      int (length its) = max_iter"
    by fastforce
next
  assume res: "regula_falsi f a b tol max_iter = Inr (Root r its)"
  from regula_falsi_Root_bracket [OF res] obtain fa fb where
    br: "f a = Inr fa" "f b = Inr fb" "fa * fb < 0" by blast
  from regula_falsi_success [OF res] regula_falsi_exhaust [OF br] assms
  show "(its \<noteq> [] \<and> (\<exists>e. fld ''error'' (last its) = Some e \<and> e < tol)) \<or>
      int (length its) = max_iter"
    by fastforce
next
  assume res: "secant f x0 x1 tol max_iter = Inr (Root r its)"
  from secant_success [OF res] secant_exhaust assms
  show "(its \<noteq> [] \<and> (\<exists>e. fld ''error'' (last its) = Some e \<and> e < tol)) \<or>
      int (length its) = max_iter"
    by fastforce
next
  assume res: "newton_raphson f df x0 tol max_iter = Inr (Root r its)"
  from newton_raphson_success [OF res] newton_raphson_exhaust assms
  show "(its \<noteq> [] \<and> (\<exists>e. fld ''error'' (last its) = Some e \<and> e < tol)) \<or>
      int (length its) = max_iter"
    by fastforce
next
  assume res: "fixed_point f x0 tol max_iter = Inr (Root r its)"
  from fixed_point_success [OF res] fixed_point_exhaust assms
  show "(its \<noteq> [] \<and> (\<exists>e. fld ''error'' (last its) = Some e \<and> e < tol)) \<or>
      int (length its) = max_iter"
    by fastforce
next
  assume res: "modified_secant f x0 delta tol max_iter = Inr (Root r its)"
  from modified_secant_success [OF res] modified_secant_exhaust assms
  show "(its \<noteq> [] \<and> (\<exists>e. fld ''error'' (last its) = Some e \<and> e < tol)) \<or>
      int (length its) = max_iter"
    by fastforce
qed

text \<open>
  The claim as stated fails for bisection, which also stops when \<open>|f(c)| < tol\<close>: on
  \<open>f(x) = x\<close> over \<open>[-1, 1]\<close> with \<open>tol = 1/10\<close> and \<open>max_iter = 5\<close> it succeeds after
  one iteration, whose error is \<open>2\<close>. It also fails for a negative \<open>max_iter\<close>, where
  the trace is empty.
\<close>

theorem success_without_small_error_counterexample:
  "bisection (\<lambda>x. Inr x) (- 1) 1 (1 / 10) 5 = Inr (Root 0 [bisection_row 1 (- 1) 1 0 0 2]) \<and>
   fld ''error'' (last [bisection_row 1 (- 1) 1 0 0 2]) = Some 2 \<and>
   \<not> (2::real) < 1 / 10 \<and>
   int (length [bisection_row 1 (- 1) 1 0 0 2]) \<noteq> 5 \<and>
   secant (\<lambda>x. Inr x) 0 1 (1 / 10) (- 1) = Inr (Root 1 []) \<and>
   int (length ([] :: row list)) \<noteq> - 1"
  by (simp add: bisection_def secant_def Let_def fld_def upto.simps)

theorem success_converged_or_exhausted_witness:
  "(0::int) \<le> 5 \<and> (0::int) \<le> 1 \<and>
   bisection (\<lambda>x. Inr x) (- 1) 1 (1 / 10) 5 = Inr (Root (0) ([bisection_row 1 (- 1) 1 0 0 2])) \<and>
   ((([bisection_row 1 (- 1) 1 0 0 2]) \<noteq> [] \<and> (\<exists>e fm. fld ''error'' (last ([bisection_row 1 (- 1) 1 0 0 2])) = Some e \<and>
         fld ''f_mid'' (last ([bisection_row 1 (- 1) 1 0 0 2])) = Some fm \<and> (e < 1 / 10 \<or> \<bar>fm\<bar> < 1 / 10))) \<or>
      int (length ([bisection_row 1 (- 1) 1 0 0 2])) = 5) \<and>
   regula_falsi (\<lambda>x. Inr x) (- 1) 3 (1 / 10) 5 = Inr (Root (0) ([regula_falsi_row 1 (- 1) 3 0 0 0])) \<and>
   ((([regula_falsi_row 1 (- 1) 3 0 0 0]) \<noteq> [] \<and> (\<exists>e. fld ''error'' (last ([regula_falsi_row 1 (- 1) 3 0 0 0])) = Some e \<and> e < 1 / 10)) \<or>
      int (length ([regula_falsi_row 1 (- 1) 3 0 0 0])) = 5) \<and>
   secant (\<lambda>x. Inr (x * x - 2)) 1 2 (1 / 100) 1 = Inr (Root (4 / 3) ([[(''iter'', PInt 1), (''x_prev'', PFloat 1), (''x_curr'', PFloat 2), (''x_new'', PFloat (4 / 3)), (''error'', PFloat (2 / 3))]])) \<and>
   ((([[(''iter'', PInt 1), (''x_prev'', PFloat 1), (''x_curr'', PFloat 2), (''x_new'', PFloat (4 / 3)), (''error'', PFloat (2 / 3))]]) \<noteq> [] \<and> (\<exists>e. fld ''error'' (last ([[(''iter'', PInt 1), (''x_prev'', PFloat 1), (''x_curr'', PFloat 2), (''x_new'', PFloat (4 / 3)), (''error'', PFloat (2 / 3))]])) = Some e \<and> e < 1 / 100)) \<or>
      int (length ([[(''iter'', PInt 1), (''x_prev'', PFloat 1), (''x_curr'', PFloat 2), (''x_new'', PFloat (4 / 3)), (''error'', PFloat (2 / 3))]])) = 1) \<and>
   newton_raphson (\<lambda>x. Inr x) (\<lambda>x. Inr 1) 5 (1 / 10) 5 = Inr (Root (0) ([[(''iter'', PInt 1), (''x_curr'', PFloat 5), (''f_x'', PFloat 5), (''df_x'', PFloat 1), (''x_next'', PFloat 0), (''error'', PFloat 5)], [(''iter'', PInt 2), (''x_curr'', PFloat 0), (''f_x'', PFloat 0), (''df_x'', PFloat 1), (''x_next'', PFloat 0), (''error'', PFloat 0)]])) \<and>
   ((([[(''iter'', PInt 1), (''x_curr'', PFloat 5), (''f_x'', PFloat 5), (''df_x'', PFloat 1), (''x_next'', PFloat 0), (''error'', PFloat 5)], [(''iter'', PInt 2), (''x_curr'', PFloat 0), (''f_x'', PFloat 0), (''df_x'', PFloat 1), (''x_next'', PFloat 0), (''error'', PFloat 0)]]) \<noteq> [] \<and> (\<exists>e. fld ''error'' (last ([[(''iter'', PInt 1), (''x_curr'', PFloat 5), (''f_x'', PFloat 5), (''df_x'', PFloat 1), (''x_next'', PFloat 0), (''error'', PFloat 5)], [(''iter'', PInt 2), (''x_curr'', PFloat 0), (''f_x'', PFloat 0), (''df_x'', PFloat 1), (''x_next'', PFloat 0), (''error'', PFloat 0)]])) = Some e \<and> e < 1 / 10)) \<or>
      int (length ([[(''iter'', PInt 1), (''x_curr'', PFloat 5), (''f_x'', PFloat 5), (''df_x'', PFloat 1), (''x_next'', PFloat 0), (''error'', PFloat 5)], [(''iter'', PInt 2), (''x_curr'', PFloat 0), (''f_x'', PFloat 0), (''df_x'', PFloat 1), (''x_next'', PFloat 0), (''error'', PFloat 0)]])) = 5) \<and>
   fixed_point (\<lambda>x. Inr 1) 1 (1 / 10) 5 = Inr (Root (1) ([[(''iter'', PInt 1), (''x_curr'', PFloat 1), (''g_x'', PFloat 1), (''error'', PFloat 0)]])) \<and>
   ((([[(''iter'', PInt 1), (''x_curr'', PFloat 1), (''g_x'', PFloat 1), (''error'', PFloat 0)]]) \<noteq> [] \<and> (\<exists>e. fld ''error'' (last ([[(''iter'', PInt 1), (''x_curr'', PFloat 1), (''g_x'', PFloat 1), (''error'', PFloat 0)]])) = Some e \<and> e < 1 / 10)) \<or>
      int (length ([[(''iter'', PInt 1), (''x_curr'', PFloat 1), (''g_x'', PFloat 1), (''error'', PFloat 0)]])) = 5) \<and>
   modified_secant (\<lambda>x. Inr (x * x - 2)) 1 1 (1 / 100) 1 = Inr (Root (4 / 3) ([[(''iter'', PInt 1), (''x_curr'', PFloat 1), (''x_next'', PFloat (4 / 3)), (''error'', PFloat (1 / 3))]])) \<and>
   ((([[(''iter'', PInt 1), (''x_curr'', PFloat 1), (''x_next'', PFloat (4 / 3)), (''error'', PFloat (1 / 3))]]) \<noteq> [] \<and> (\<exists>e. fld ''error'' (last ([[(''iter'', PInt 1), (''x_curr'', PFloat 1), (''x_next'', PFloat (4 / 3)), (''error'', PFloat (1 / 3))]])) = Some e \<and> e < 1 / 100)) \<or>
      int (length ([[(''iter'', PInt 1), (''x_curr'', PFloat 1), (''x_next'', PFloat (4 / 3)), (''error'', PFloat (1 / 3))]])) = 1)"
proof -
  have le5: "(0::int) \<le> 5" by simp
  have le1: "(0::int) \<le> 1" by simp
  have b: "bisection (\<lambda>x. Inr x) (- 1) 1 (1 / 10) 5 = Inr (Root (0) ([bisection_row 1 (- 1) 1 0 0 2]))"
    by (simp add: bisection_def Let_def upto.simps)
  from success_converged_or_exhausted [OF le5, THEN conjunct1, rule_format, OF b]
  have b': "((([bisection_row 1 (- 1) 1 0 0 2]) \<noteq> [] \<and> (\<exists>e fm. fld ''error'' (last ([bisection_row 1 (- 1) 1 0 0 2])) = Some e \<and>
         fld ''f_mid'' (last ([bisection_row 1 (- 1) 1 0 0 2])) = Some fm \<and> (e < 1 / 10 \<or> \<bar>fm\<bar> < 1 / 10))) \<or>
      int (length ([bisection_row 1 (- 1) 1 0 0 2])) = 5)" .
  have r: "regula_falsi (\<lambda>x. Inr x) (- 1) 3 (1 / 10) 5 = Inr (Root (0) ([regula_falsi_row 1 (- 1) 3 0 0 0]))"
    by (simp add: regula_falsi_def Let_def upto.simps)
  from success_converged_or_exhausted [OF le5, THEN conjunct2, THEN conjunct1, rule_format, OF r]
  have r': "((([regula_falsi_row 1 (- 1) 3 0 0 0]) \<noteq> [] \<and> (\<exists>e. fld ''error'' (last ([regula_falsi_row 1 (- 1) 3 0 0 0])) = Some e \<and> e < 1 / 10)) \<or>
      int (length ([regula_falsi_row 1 (- 1) 3 0 0 0])) = 5)" .
  have s: "secant (\<lambda>x. Inr (x * x - 2)) 1 2 (1 / 100) 1 = Inr (Root (4 / 3) ([[(''iter'', PInt 1), (''x_prev'', PFloat 1), (''x_curr'', PFloat 2), (''x_new'', PFloat (4 / 3)), (''error'', PFloat (2 / 3))]]))"
    by (simp add: secant_def Let_def upto.simps)
  from success_converged_or_exhausted [OF le1, THEN conjunct2, THEN conjunct2, THEN conjunct1, rule_format, OF s]
  have s': "((([[(''iter'', PInt 1), (''x_prev'', PFloat 1), (''x_curr'', PFloat 2), (''x_new'', PFloat (4 / 3)), (''error'', PFloat (2 / 3))]]) \<noteq> [] \<and> (\<exists>e. fld ''error'' (last ([[(''iter'', PInt 1), (''x_prev'', PFloat 1), (''x_curr'', PFloat 2), (''x_new'', PFloat (4 / 3)), (''error'', PFloat (2 / 3))]])) = Some e \<and> e < 1 / 100)) \<or>
      int (length ([[(''iter'', PInt 1), (''x_prev'', PFloat 1), (''x_curr'', PFloat 2), (''x_new'', PFloat (4 / 3)), (''error'', PFloat (2 / 3))]])) = 1)" .
  have n: "newton_raphson (\<lambda>x. Inr x) (\<lambda>x. Inr 1) 5 (1 / 10) 5 = Inr (Root (0) ([[(''iter'', PInt 1), (''x_curr'', PFloat 5), (''f_x'', PFloat 5), (''df_x'', PFloat 1), (''x_next'', PFloat 0), (''error'', PFloat 5)], [(''iter'', PInt 2), (''x_curr'', PFloat 0), (''f_x'', PFloat 0), (''df_x'', PFloat 1), (''x_next'', PFloat 0), (''error'', PFloat 0)]]))"
    by (simp add: newton_raphson_def Let_def upto.simps)
  from success_converged_or_exhausted [OF le5, THEN conjunct2, THEN conjunct2, THEN conjunct2, THEN conjunct1, rule_format, OF n]
  have n': "((([[(''iter'', PInt 1), (''x_curr'', PFloat 5), (''f_x'', PFloat 5), (''df_x'', PFloat 1), (''x_next'', PFloat 0), (''error'', PFloat 5)], [(''iter'', PInt 2), (''x_curr'', PFloat 0), (''f_x'', PFloat 0), (''df_x'', PFloat 1), (''x_next'', PFloat 0), (''error'', PFloat 0)]]) \<noteq> [] \<and> (\<exists>e. fld ''error'' (last ([[(''iter'', PInt 1), (''x_curr'', PFloat 5), (''f_x'', PFloat 5), (''df_x'', PFloat 1), (''x_next'', PFloat 0), (''error'', PFloat 5)], [(''iter'', PInt 2), (''x_curr'', PFloat 0), (''f_x'', PFloat 0), (''df_x'', PFloat 1), (''x_next'', PFloat 0), (''error'', PFloat 0)]])) = Some e \<and> e < 1 / 10)) \<or>
      int (length ([[(''iter'', PInt 1), (''x_curr'', PFloat 5), (''f_x'', PFloat 5), (''df_x'', PFloat 1), (''x_next'', PFloat 0), (''error'', PFloat 5)], [(''iter'', PInt 2), (''x_curr'', PFloat 0), (''f_x'', PFloat 0), (''df_x'', PFloat 1), (''x_next'', PFloat 0), (''error'', PFloat 0)]])) = 5)" .
  have g: "fixed_point (\<lambda>x. Inr 1) 1 (1 / 10) 5 = Inr (Root (1) ([[(''iter'', PInt 1), (''x_curr'', PFloat 1), (''g_x'', PFloat 1), (''error'', PFloat 0)]]))"
    by (simp add: fixed_point_def Let_def upto.simps)
  from success_converged_or_exhausted [OF le5, THEN conjunct2, THEN conjunct2, THEN conjunct2, THEN conjunct2, THEN conjunct1, rule_format, OF g]
  have g': "((([[(''iter'', PInt 1), (''x_curr'', PFloat 1), (''g_x'', PFloat 1), (''error'', PFloat 0)]]) \<noteq> [] \<and> (\<exists>e. fld ''error'' (last ([[(''iter'', PInt 1), (''x_curr'', PFloat 1), (''g_x'', PFloat 1), (''error'', PFloat 0)]])) = Some e \<and> e < 1 / 10)) \<or>
      int (length ([[(''iter'', PInt 1), (''x_curr'', PFloat 1), (''g_x'', PFloat 1), (''error'', PFloat 0)]])) = 5)" .
  have m: "modified_secant (\<lambda>x. Inr (x * x - 2)) 1 1 (1 / 100) 1 = Inr (Root (4 / 3) ([[(''iter'', PInt 1), (''x_curr'', PFloat 1), (''x_next'', PFloat (4 / 3)), (''error'', PFloat (1 / 3))]]))"
    by (simp add: modified_secant_def Let_def upto.simps)
  from success_converged_or_exhausted [OF le1, THEN conjunct2, THEN conjunct2, THEN conjunct2, THEN conjunct2, THEN conjunct2, rule_format, OF m]
  have m': "((([[(''iter'', PInt 1), (''x_curr'', PFloat 1), (''x_next'', PFloat (4 / 3)), (''error'', PFloat (1 / 3))]]) \<noteq> [] \<and> (\<exists>e. fld ''error'' (last ([[(''iter'', PInt 1), (''x_curr'', PFloat 1), (''x_next'', PFloat (4 / 3)), (''error'', PFloat (1 / 3))]])) = Some e \<and> e < 1 / 100)) \<or>
      int (length ([[(''iter'', PInt 1), (''x_curr'', PFloat 1), (''x_next'', PFloat (4 / 3)), (''error'', PFloat (1 / 3))]])) = 1)" .
  from le5 le1 b b' r r' s s' n n' g g' m m' show ?thesis by blast
qed

section \<open>C4: the brackets are nested and hold the root\<close>

text \<open>
  In exact arithmetic the point \<open>(a f(b) - b f(a)) / (f(b) - f(a))\<close> of regula falsi
  lies between \<open>a\<close> and \<open>b\<close> whenever \<open>f(a) f(b) < 0\<close>.
\<close>

lemma convex_between:
  fixes a b t :: real
  assumes "0 \<le> t" and "t \<le> 1"
  shows "min a b \<le> (1 - t) * a + t * b" and "(1 - t) * a + t * b \<le> max a b"
proof -
  have "(1 - t) * a + t * b \<le> max a b"
    using assms by (intro convex_bound_le) simp_all
  moreover have "(1 - t) * (- a) + t * (- b) \<le> max (- a) (- b)"
    using assms by (intro convex_bound_le) simp_all
  then have "min a b \<le> (1 - t) * a + t * b"
    by (simp add: algebra_simps min_def max_def split: if_splits)
  ultimately show "min a b \<le> (1 - t) * a + t * b" and "(1 - t) * a + t * b \<le> max a b"
    by simp_all
qed

lemma secant_point_between:
  fixes a b fa fb :: real
  assumes "fa * fb < 0"
  shows "min a b \<le> (a * fb - b * fa) / (fb - fa)" and "(a * fb - b * fa) / (fb - fa) \<le> max a b"
proof -
  define u where "u = fa / (fb - fa)"
  from assms have signs: "fa < 0 \<and> 0 < fb \<or> 0 < fa \<and> fb < 0"
    by (auto simp: mult_less_0_iff)
  then have d: "fb - fa \<noteq> 0" by auto
  from signs have t: "0 \<le> - u" "- u \<le> 1"
    by (auto simp: u_def field_simps)
  have "(a * fb - b * fa) / (fb - fa) = (a * (fb - fa) + fa * (a - b)) / (fb - fa)"
    by (simp add: algebra_simps)
  also have "\<dots> = a + u * (a - b)"
    using d by (simp add: add_divide_distrib u_def)
  also have "\<dots> = (1 - (- u)) * a + (- u) * b"
    by (simp add: algebra_simps)
  finally have "(a * fb - b * fa) / (fb - fa) = (1 - (- u)) * a + (- u) * b" .
  with convex_between [OF t, of a b]
  show "min a b \<le> (a * fb - b * fa) / (fb - fa)" and "(a * fb - b * fa) / (fb - fa) \<le> max a b"
    by simp_all
qed

text \<open>
  Claim C4, on binary64 numbers. Bisection: when \<open>a\<close> and \<open>b\<close> are binary64 numbers of
  magnitude at most \<open>2\<^sup>1\<^sup>0\<^sup>2\<^sup>2\<close> (so that no sum \<^verbatim>\<open>a + b\<close> of the run overflows) and
  bisection returns a success, every recorded midpoint lies in the bracket it was computed
  from, the widths \<open>|b - a|\<close> of the recorded brackets never increase, and the root is
  finite and lies in \<open>[min a b, max a b]\<close>. Regula falsi: the same conclusion for every
  successful run from finite \<open>a\<close>, \<open>b\<close> in which each recorded point \<open>c\<close> lies in the
  bracket it was computed from. Rounding can put \<open>c\<close> outside, and \<^verbatim>\<open>a + b\<close> can
  overflow for larger inputs (see the counterexample below). A success implies the sign
  condition; \<open>tol\<close> and \<open>max_iter\<close> are arbitrary.
\<close>

theorem brackets_nested_binary64:
  "(bisection64 f a b tol max_iter = Inr (DRoot r its) \<and> is_binary64 a \<and> is_binary64 b \<and>
    is_finite a \<and> is_finite b \<and> \<bar>rv a\<bar> \<le> 2 ^ 1022 \<and> \<bar>rv b\<bar> \<le> 2 ^ 1022 \<longrightarrow>
      is_finite r \<and> min (rv a) (rv b) \<le> rv r \<and> rv r \<le> max (rv a) (rv b) \<and>
      list_all (inside ''mid'') its \<and>
      (\<exists>ws. map bracket_width64 its = map Some ws \<and> sorted_wrt (\<lambda>w w'. w' \<le> w) ws)) \<and>
   (regula_falsi64 f a b tol max_iter = Inr (DRoot r its) \<and> is_finite a \<and> is_finite b \<and>
    list_all (inside ''c'') its \<longrightarrow>
      is_finite r \<and> min (rv a) (rv b) \<le> rv r \<and> rv r \<le> max (rv a) (rv b) \<and>
      (\<exists>ws. map bracket_width64 its = map Some ws \<and> sorted_wrt (\<lambda>w w'. w' \<le> w) ws))"
proof (intro conjI impI)
  define lo where "lo = min (rv a) (rv b)"
  define hi where "hi = max (rv a) (rv b)"
  assume asm: "bisection64 f a b tol max_iter = Inr (DRoot r its) \<and> is_binary64 a \<and> is_binary64 b \<and>
    is_finite a \<and> is_finite b \<and> \<bar>rv a\<bar> \<le> 2 ^ 1022 \<and> \<bar>rv b\<bar> \<le> 2 ^ 1022"
  then have run: "bisection64 f a b tol max_iter = Inr (DRoot r its)" by simp
  define Q where "Q x \<longleftrightarrow> is_finite x \<and> is_binary64 x \<and> lo \<le> rv x \<and> rv x \<le> hi" for x
  define S where "S row \<longleftrightarrow> (\<exists>x y. dfld ''a'' row = Some x \<and> dfld ''b'' row = Some y \<and>
             dfld ''mid'' row = Some (ddiv (dadd x y) (Finite 2)) \<and>
             dfld ''error'' row = Some (dabs (dsub y x)))" for row
  from asm have bnd: "- (2 ^ 1022) \<le> lo" "hi \<le> 2 ^ 1022"
    by (auto simp: lo_def hi_def min_def max_def abs_le_iff)
  have mid: "Q (ddiv (dadd x y) (Finite 2)) \<and> is_finite x \<and> is_finite y \<and>
      is_finite (ddiv (dadd x y) (Finite 2)) \<and>
      min (rv x) (rv y) \<le> rv (ddiv (dadd x y) (Finite 2)) \<and>
      rv (ddiv (dadd x y) (Finite 2)) \<le> max (rv x) (rv y)" if "Q x" "Q y" for x y
  proof -
    from that bnd have b: "\<bar>rv x\<bar> \<le> 2 ^ 1022" "\<bar>rv y\<bar> \<le> 2 ^ 1022"
      by (auto simp: Q_def abs_le_iff)
    from that have q: "is_binary64 x" "is_binary64 y" "is_finite x" "is_finite y"
      by (simp_all add: Q_def)
    from midpoint64_between [OF q b] that show ?thesis
      by (auto simp: Q_def min_def max_def split: if_splits)
  qed
  from asm have Qa: "Q a" and Qb: "Q b"
    by (simp_all add: Q_def lo_def hi_def)
  from bisection64_success [OF run] obtain a' b' where
    loop: "for_loop (bisection_body64 f tol) [1..max_iter] (a, b, []) = Continue (a', b', its) \<and>
            r = ddiv (dadd a' b') (Finite 2) \<or>
         for_loop (bisection_body64 f tol) [1..max_iter] (a, b, []) = Return (DRoot r its)"
    by blast
  then have "for_loop (bisection_body64 f tol) [1..max_iter] (a, b, []) = Continue (a', b', its) \<or>
         for_loop (bisection_body64 f tol) [1..max_iter] (a, b, []) = Return (DRoot r its)"
    by blast
  from bisection64_loop_chain [OF this] obtain ab where
    ch: "chain ''mid'' (a, b) its ab" and ok: "\<forall>row\<in>set its. S row" and
    c: "for_loop (bisection_body64 f tol) [1..max_iter] (a, b, []) = Continue (a', b', its) \<longrightarrow>
          ab = (a', b')" and
    rt: "for_loop (bisection_body64 f tol) [1..max_iter] (a, b, []) = Return (DRoot r its) \<longrightarrow>
          r = fst ab \<or> r = snd ab"
    unfolding S_def by auto
  have link: "Q c \<and> is_finite x \<and> is_finite y \<and> is_finite c \<and>
      min (rv x) (rv y) \<le> rv c \<and> rv c \<le> max (rv x) (rv y)"
    if "S row" "Q x" "Q y" "dfld ''a'' row = Some x" "dfld ''b'' row = Some y"
      "dfld ''mid'' row = Some c" for row x y c
  proof -
    from that(1,4,5,6) have "c = ddiv (dadd x y) (Finite 2)"
      by (auto simp: S_def)
    with mid [OF that(2,3)] show ?thesis by simp
  qed
  have "Q (fst ab) \<and> Q (snd ab) \<and> list_all (inside ''mid'') its \<and>
         (\<exists>ws. map bracket_width64 its = map Some ws \<and> sorted_wrt (\<lambda>w w'. w' \<le> w) ws \<and>
            (\<forall>w\<in>set ws. w \<le> \<bar>rv b - rv a\<bar>))"
  proof (rule chain_nested [where S = S and Q = Q, OF ch Qa Qb ok])
    fix row x y c
    assume "S row" "Q x" "Q y" "dfld ''a'' row = Some x" "dfld ''b'' row = Some y"
      "dfld ''mid'' row = Some c"
    then show "Q c \<and> is_finite x \<and> is_finite y \<and> is_finite c \<and>
      min (rv x) (rv y) \<le> rv c \<and> rv c \<le> max (rv x) (rv y)"
      by (rule link)
  qed
  then obtain ws where
    n: "Q (fst ab)" "Q (snd ab)" "list_all (inside ''mid'') its"
       "map bracket_width64 its = map Some ws" "sorted_wrt (\<lambda>w w'. w' \<le> w) ws"
    by blast
  have "Q r"
  proof (cases "for_loop (bisection_body64 f tol) [1..max_iter] (a, b, []) = Return (DRoot r its)")
    case True
    with rt n(1,2) show ?thesis by auto
  next
    case False
    with loop c have "ab = (a', b')" "r = ddiv (dadd a' b') (Finite 2)" by auto
    with n(1,2) mid [of a' b'] show ?thesis by simp
  qed
  with n show "is_finite r" "min (rv a) (rv b) \<le> rv r" "rv r \<le> max (rv a) (rv b)"
    "list_all (inside ''mid'') its"
    "\<exists>ws. map bracket_width64 its = map Some ws \<and> sorted_wrt (\<lambda>w w'. w' \<le> w) ws"
    by (auto simp: Q_def lo_def hi_def)
next
  define lo where "lo = min (rv a) (rv b)"
  define hi where "hi = max (rv a) (rv b)"
  assume asm: "regula_falsi64 f a b tol max_iter = Inr (DRoot r its) \<and> is_finite a \<and> is_finite b \<and>
    list_all (inside ''c'') its"
  then have run: "regula_falsi64 f a b tol max_iter = Inr (DRoot r its)" by simp
  define Q where "Q x \<longleftrightarrow> is_finite x \<and> lo \<le> rv x \<and> rv x \<le> hi" for x
  from asm have Qa: "Q a" and Qb: "Q b"
    by (simp_all add: Q_def lo_def hi_def)
  from asm have ok: "\<forall>row\<in>set its. inside ''c'' row"
    by (simp add: list_all_iff)
  from regula_falsi64_success [OF run] obtain a' b' where
    loop: "for_loop (regula_falsi_body64 f tol) [1..max_iter] (a, b, None, []) =
            Continue (a', b', Some r, its) \<or>
         for_loop (regula_falsi_body64 f tol) [1..max_iter] (a, b, None, []) = Return (DRoot r its)"
    by blast
  from regula_falsi64_loop_chain [OF this] obtain ab where
    ch: "chain ''c'' (a, b) its ab" and rt: "r = fst ab \<or> r = snd ab"
    using loop by auto
  have link: "Q c \<and> is_finite x \<and> is_finite y \<and> is_finite c \<and>
      min (rv x) (rv y) \<le> rv c \<and> rv c \<le> max (rv x) (rv y)"
    if "inside ''c'' row" "Q x" "Q y" "dfld ''a'' row = Some x" "dfld ''b'' row = Some y"
      "dfld ''c'' row = Some c" for row x y c
    using that by (auto simp: inside_def Q_def min_def max_def split: if_splits)
  have "Q (fst ab) \<and> Q (snd ab) \<and> list_all (inside ''c'') its \<and>
         (\<exists>ws. map bracket_width64 its = map Some ws \<and> sorted_wrt (\<lambda>w w'. w' \<le> w) ws \<and>
            (\<forall>w\<in>set ws. w \<le> \<bar>rv b - rv a\<bar>))"
  proof (rule chain_nested [where S = "inside ''c''" and Q = Q, OF ch Qa Qb ok])
    fix row x y c
    assume "inside ''c'' row" "Q x" "Q y" "dfld ''a'' row = Some x" "dfld ''b'' row = Some y"
      "dfld ''c'' row = Some c"
    then show "Q c \<and> is_finite x \<and> is_finite y \<and> is_finite c \<and>
      min (rv x) (rv y) \<le> rv c \<and> rv c \<le> max (rv x) (rv y)"
      by (rule link)
  qed
  then obtain ws where
    n: "Q (fst ab)" "Q (snd ab)"
       "map bracket_width64 its = map Some ws" "sorted_wrt (\<lambda>w w'. w' \<le> w) ws"
    by blast
  from rt n(1,2) have "Q r" by auto
  with n show "is_finite r" "min (rv a) (rv b) \<le> rv r" "rv r \<le> max (rv a) (rv b)"
    "\<exists>ws. map bracket_width64 its = map Some ws \<and> sorted_wrt (\<lambda>w w'. w' \<le> w) ws"
    by (auto simp: Q_def lo_def hi_def)
qed

text \<open>
  Claim C4 as stated fails. Regula falsi on \<^verbatim>\<open>f(x) = x**2 - 2\<close> with
  \<^verbatim>\<open>a = 1.414213562373095\<close>, \<^verbatim>\<open>b = 4\<close> and \<^verbatim>\<open>tol = 0.0001\<close> returns
  \<^verbatim>\<open>1.4142135623730947\<close>, which is below \<open>a\<close>: in \<^verbatim>\<open>a * fb - b * fa\<close> the small term
  \<^verbatim>\<open>b * fa\<close> is lost to rounding, and so is \<^verbatim>\<open>fa\<close> in \<^verbatim>\<open>fb - fa\<close>. Bisection on
  \<^verbatim>\<open>f(x) = x - 1.5e308\<close> over \<^verbatim>\<open>[1e308, 1.7e308]\<close> with two iterations: \<^verbatim>\<open>a + b\<close>
  overflows, the midpoint is \<^verbatim>\<open>inf\<close>, the second bracket is \<^verbatim>\<open>[1e308, inf]\<close> and the
  root returned is \<^verbatim>\<open>inf\<close>.
\<close>

theorem root_outside_bracket_counterexample:
  "regula_falsi64 (\<lambda>x. Inr (dsub (dmul x x) (Finite 2)))
     (Finite (1592262918131443 / 1125899906842624)) (Finite 4)
     (Finite (7378697629483821 / 73786976294838206464)) 50 =
   Inr (DRoot (Finite (6369051672525771 / 4503599627370496))
     [regula_falsi_row64 1 (Finite (1592262918131443 / 1125899906842624)) (Finite 4) (Finite (6369051672525771 / 4503599627370496)) (Finite (- 1 / 1125899906842624)) (Finite (1 / 1125899906842624))]) \<and>
   is_binary64 (Finite (1592262918131443 / 1125899906842624)) \<and>
   rv (Finite (6369051672525771 / 4503599627370496)) <
     min (rv (Finite (1592262918131443 / 1125899906842624))) (rv (Finite 4)) \<and>
   bisection64 (\<lambda>x. Inr (dsub x (Finite (469726959377103 * 2 ^ 975))))
     (Finite (156575653125701 * 2 ^ 976))
     (Finite (4258857765019067 * 2 ^ 972))
     (Finite (7378697629483821 / 73786976294838206464)) 2 =
   Inr (DRoot PosInf
     [bisection_row64 1 (Finite (156575653125701 * 2 ^ 976)) (Finite (4258857765019067 * 2 ^ 972)) PosInf PosInf (Finite (1753647315007851 * 2 ^ 972)),
      bisection_row64 2 (Finite (156575653125701 * 2 ^ 976)) PosInf PosInf PosInf PosInf]) \<and>
   is_binary64 (Finite (156575653125701 * 2 ^ 976)) \<and>
   is_binary64 (Finite (4258857765019067 * 2 ^ 972)) \<and>
   dlt (Finite (1753647315007851 * 2 ^ 972)) PosInf"
proof -
  have rf: "regula_falsi64 (\<lambda>x. Inr (dsub (dmul x x) (Finite 2)))
         (Finite (1592262918131443 / 1125899906842624)) (Finite 4)
         (Finite (7378697629483821 / 73786976294838206464)) 50 =
       Inr (DRoot (Finite (6369051672525771 / 4503599627370496))
         [regula_falsi_row64 1 (Finite (1592262918131443 / 1125899906842624)) (Finite 4) (Finite (6369051672525771 / 4503599627370496)) (Finite (- 1 / 1125899906842624)) (Finite (1 / 1125899906842624))])"
    by (simp add: regula_falsi64_def rnd_def nearest_def normalise_def norm_up.simps norm_down.simps
      round_half_even_def pow2_def Let_def dsub_def dmul_def ddiv_def dge_def upto.simps)
  have ba: "is_binary64 (Finite (1592262918131443 / 1125899906842624))"
    by (simp add: is_binary64_def rnd_def nearest_def normalise_def norm_up.simps norm_down.simps
      round_half_even_def pow2_def Let_def dsub_def dmul_def ddiv_def dge_def upto.simps)
  have lt: "rv (Finite (6369051672525771 / 4503599627370496)) <
     min (rv (Finite (1592262918131443 / 1125899906842624))) (rv (Finite 4))"
    by simp
  have bis: "bisection64 (\<lambda>x. Inr (dsub x (Finite (469726959377103 * 2 ^ 975))))
         (Finite (156575653125701 * 2 ^ 976))
         (Finite (4258857765019067 * 2 ^ 972))
         (Finite (7378697629483821 / 73786976294838206464)) 2 =
       Inr (DRoot PosInf
         [bisection_row64 1 (Finite (156575653125701 * 2 ^ 976)) (Finite (4258857765019067 * 2 ^ 972)) PosInf PosInf (Finite (1753647315007851 * 2 ^ 972)),
          bisection_row64 2 (Finite (156575653125701 * 2 ^ 976)) PosInf PosInf PosInf PosInf])"
    by (simp add: bisection64_def rnd_zero rnd_at [where e = 971] rnd_at [where e = 970]
        rnd_at [where e = 968] nform_def round_half_even_def pow2_def Let_def dsub_def dmul_def
        ddiv_def dge_def upto.simps)
  have bb: "is_binary64 (Finite (156575653125701 * 2 ^ 976))"
    "is_binary64 (Finite (4258857765019067 * 2 ^ 972))"
    by (simp_all add: is_binary64_def rnd_at [where e = 971] nform_def round_half_even_def
        pow2_def Let_def)
  have inf: "dlt (Finite (1753647315007851 * 2 ^ 972)) PosInf"
    by simp
  from rf ba lt bis bb inf show ?thesis
    by (intro conjI)
qed

text \<open>
  The theorem at two runs: bisection on \<^verbatim>\<open>x**2 - 2\<close> over \<open>[1, 2]\<close> with three
  iterations, and regula falsi on \<^verbatim>\<open>x - 1.5\<close> over \<open>[1, 2]\<close>, which returns \<open>1.5\<close> after
  one.
\<close>

theorem brackets_nested_binary64_witness:
  "bisection64 (\<lambda>x. Inr (dsub (dmul x x) (Finite 2))) (Finite 1) (Finite 2) (Finite (1 / 10)) 3 =
   Inr (DRoot (Finite (23 / 16))
     [bisection_row64 1 (Finite 1) (Finite 2) (Finite (3 / 2)) (Finite (1 / 4)) (Finite 1),
      bisection_row64 2 (Finite 1) (Finite (3 / 2)) (Finite (5 / 4)) (Finite (- 7 / 16)) (Finite (1 / 2)),
      bisection_row64 3 (Finite (5 / 4)) (Finite (3 / 2)) (Finite (11 / 8)) (Finite (- 7 / 64)) (Finite (1 / 4))]) \<and>
   is_binary64 (Finite 1) \<and> is_binary64 (Finite 2) \<and> is_finite (Finite 1) \<and> is_finite (Finite 2) \<and>
   \<bar>rv (Finite 1)\<bar> \<le> 2 ^ 1022 \<and> \<bar>rv (Finite 2)\<bar> \<le> 2 ^ 1022 \<and>
   is_finite (Finite (23 / 16)) \<and>
   min (rv (Finite 1)) (rv (Finite 2)) \<le> rv (Finite (23 / 16)) \<and>
   rv (Finite (23 / 16)) \<le> max (rv (Finite 1)) (rv (Finite 2)) \<and>
   list_all (inside ''mid'')
     [bisection_row64 1 (Finite 1) (Finite 2) (Finite (3 / 2)) (Finite (1 / 4)) (Finite 1),
      bisection_row64 2 (Finite 1) (Finite (3 / 2)) (Finite (5 / 4)) (Finite (- 7 / 16)) (Finite (1 / 2)),
      bisection_row64 3 (Finite (5 / 4)) (Finite (3 / 2)) (Finite (11 / 8)) (Finite (- 7 / 64)) (Finite (1 / 4))] \<and>
   (\<exists>ws. map bracket_width64
     [bisection_row64 1 (Finite 1) (Finite 2) (Finite (3 / 2)) (Finite (1 / 4)) (Finite 1),
      bisection_row64 2 (Finite 1) (Finite (3 / 2)) (Finite (5 / 4)) (Finite (- 7 / 16)) (Finite (1 / 2)),
      bisection_row64 3 (Finite (5 / 4)) (Finite (3 / 2)) (Finite (11 / 8)) (Finite (- 7 / 64)) (Finite (1 / 4))] = map Some ws \<and>
     sorted_wrt (\<lambda>w w'. w' \<le> w) ws) \<and>
   regula_falsi64 (\<lambda>x. Inr (dsub x (Finite (3 / 2)))) (Finite 1) (Finite 2) (Finite (7378697629483821 / 73786976294838206464)) 50 =
   Inr (DRoot (Finite (3 / 2))
     [regula_falsi_row64 1 (Finite 1) (Finite 2) (Finite (3 / 2)) (Finite 0) (Finite 0)]) \<and>
   is_finite (Finite 1) \<and> is_finite (Finite 2) \<and>
   list_all (inside ''c'')
     [regula_falsi_row64 1 (Finite 1) (Finite 2) (Finite (3 / 2)) (Finite 0) (Finite 0)] \<and>
   is_finite (Finite (3 / 2)) \<and>
   min (rv (Finite 1)) (rv (Finite 2)) \<le> rv (Finite (3 / 2)) \<and>
   rv (Finite (3 / 2)) \<le> max (rv (Finite 1)) (rv (Finite 2)) \<and>
   (\<exists>ws. map bracket_width64
     [regula_falsi_row64 1 (Finite 1) (Finite 2) (Finite (3 / 2)) (Finite 0) (Finite 0)] = map Some ws \<and>
     sorted_wrt (\<lambda>w w'. w' \<le> w) ws)"
proof -
  have runB: "bisection64 (\<lambda>x. Inr (dsub (dmul x x) (Finite 2))) (Finite 1) (Finite 2) (Finite (1 / 10)) 3 =
       Inr (DRoot (Finite (23 / 16))
         [bisection_row64 1 (Finite 1) (Finite 2) (Finite (3 / 2)) (Finite (1 / 4)) (Finite 1),
          bisection_row64 2 (Finite 1) (Finite (3 / 2)) (Finite (5 / 4)) (Finite (- 7 / 16)) (Finite (1 / 2)),
          bisection_row64 3 (Finite (5 / 4)) (Finite (3 / 2)) (Finite (11 / 8)) (Finite (- 7 / 64)) (Finite (1 / 4))])"
    by (simp add: bisection64_def rnd_def nearest_def normalise_def norm_up.simps norm_down.simps
      round_half_even_def pow2_def Let_def dsub_def dmul_def ddiv_def dge_def upto.simps)
  have hypB: "is_binary64 (Finite 1) \<and> is_binary64 (Finite 2) \<and> is_finite (Finite 1) \<and> is_finite (Finite 2) \<and>
       \<bar>rv (Finite 1)\<bar> \<le> 2 ^ 1022 \<and> \<bar>rv (Finite 2)\<bar> \<le> 2 ^ 1022"
    by (simp add: is_binary64_def rnd_def nearest_def normalise_def norm_up.simps norm_down.simps
      round_half_even_def pow2_def Let_def dsub_def dmul_def ddiv_def dge_def upto.simps)
  have runR: "regula_falsi64 (\<lambda>x. Inr (dsub x (Finite (3 / 2)))) (Finite 1) (Finite 2) (Finite (7378697629483821 / 73786976294838206464)) 50 =
       Inr (DRoot (Finite (3 / 2))
         [regula_falsi_row64 1 (Finite 1) (Finite 2) (Finite (3 / 2)) (Finite 0) (Finite 0)])"
    by (simp add: regula_falsi64_def rnd_def nearest_def normalise_def norm_up.simps norm_down.simps
      round_half_even_def pow2_def Let_def dsub_def dmul_def ddiv_def dge_def upto.simps)
  have hypR: "is_finite (Finite 1) \<and> is_finite (Finite 2) \<and>
       list_all (inside ''c'')
         [regula_falsi_row64 1 (Finite 1) (Finite 2) (Finite (3 / 2)) (Finite 0) (Finite 0)]"
    by (simp add: inside_def dfld_def)
  from brackets_nested_binary64 [THEN conjunct1, rule_format, OF conjI [OF runB hypB]]
  have conB: "is_finite (Finite (23 / 16)) \<and>
       min (rv (Finite 1)) (rv (Finite 2)) \<le> rv (Finite (23 / 16)) \<and>
       rv (Finite (23 / 16)) \<le> max (rv (Finite 1)) (rv (Finite 2)) \<and>
       list_all (inside ''mid'')
         [bisection_row64 1 (Finite 1) (Finite 2) (Finite (3 / 2)) (Finite (1 / 4)) (Finite 1),
          bisection_row64 2 (Finite 1) (Finite (3 / 2)) (Finite (5 / 4)) (Finite (- 7 / 16)) (Finite (1 / 2)),
          bisection_row64 3 (Finite (5 / 4)) (Finite (3 / 2)) (Finite (11 / 8)) (Finite (- 7 / 64)) (Finite (1 / 4))] \<and>
       (\<exists>ws. map bracket_width64
         [bisection_row64 1 (Finite 1) (Finite 2) (Finite (3 / 2)) (Finite (1 / 4)) (Finite 1),
          bisection_row64 2 (Finite 1) (Finite (3 / 2)) (Finite (5 / 4)) (Finite (- 7 / 16)) (Finite (1 / 2)),
          bisection_row64 3 (Finite (5 / 4)) (Finite (3 / 2)) (Finite (11 / 8)) (Finite (- 7 / 64)) (Finite (1 / 4))] = map Some ws \<and>
         sorted_wrt (\<lambda>w w'. w' \<le> w) ws)" .
  from brackets_nested_binary64 [THEN conjunct2, rule_format, OF conjI [OF runR hypR]]
  have conR: "is_finite (Finite (3 / 2)) \<and>
       min (rv (Finite 1)) (rv (Finite 2)) \<le> rv (Finite (3 / 2)) \<and>
       rv (Finite (3 / 2)) \<le> max (rv (Finite 1)) (rv (Finite 2)) \<and>
       (\<exists>ws. map bracket_width64
         [regula_falsi_row64 1 (Finite 1) (Finite 2) (Finite (3 / 2)) (Finite 0) (Finite 0)] = map Some ws \<and>
         sorted_wrt (\<lambda>w w'. w' \<le> w) ws)" .
  from runB hypB conB runR hypR conR show ?thesis
    by (intro conjI) simp_all
qed

section \<open>C5: no sign change, no iteration\<close>

text \<open>
  Claim C5. When \<open>f(a) * f(b)\<close> is not strictly negative (a product of zero, a root at
  an endpoint, included), bisection and regula falsi return the bracketing failure at
  once: the outcome is the failure message whatever \<open>tol\<close> and \<open>max_iter\<close> are, it
  depends on \<open>f\<close> only through \<open>f(a)\<close> and \<open>f(b)\<close>, and nothing is raised. \<^verbatim>\<open>main\<close>
  prints the message, and the two bracketing branches of \<^verbatim>\<open>run_method\<close> return the
  error dict likewise.
\<close>

theorem bracketing_error_immediate:
  assumes "f a = Inr fa" and "f b = Inr fb" and "\<not> fa * fb < 0"
  shows "bisection f a b tol max_iter =
           Inr (Fail ''Bisection fails: f(a) and f(b) must have opposite signs.'') \<and>
         regula_falsi f a b tol max_iter =
           Inr (Fail ''Regula Falsi fails: f(a) and f(b) must have opposite signs.'') \<and>
         main_pass py ''1'' f df' dstr tol max_iter a b =
           [CHR 0x0A # ''Error: Bisection fails: f(a) and f(b) must have opposite signs.''] \<and>
         main_pass py ''2'' f df' dstr tol max_iter a b =
           [CHR 0x0A # ''Error: Regula Falsi fails: f(a) and f(b) must have opposite signs.''] \<and>
         run_method py ''1'' \<lparr>p_function = Some f, p_tolerance = Inr tol,
             p_max_iter = Inr max_iter, param_a = Inr a, param_b = Inr b, param_x0 = x0,
             param_x1 = x1, param_delta = delta, p_derivative = df\<rparr> =
           Error ''f(a) and f(b) must have opposite signs'' \<and>
         run_method py ''2'' \<lparr>p_function = Some f, p_tolerance = Inr tol,
             p_max_iter = Inr max_iter, param_a = Inr a, param_b = Inr b, param_x0 = x0,
             param_x1 = x1, param_delta = delta, p_derivative = df\<rparr> =
           Error ''f(a) and f(b) must have opposite signs''"
  using assms
  by (simp add: bisection_def regula_falsi_def run_bisection_def run_regula_falsi_def
      run_method_def run_method_try_def main_pass_def run_choice_def unpack_def report_def
      not_less)

theorem bracketing_error_immediate_witness:
  "(\<lambda>x. Inr (x * x + 1) :: exn + real) 0 = Inr 1 \<and>
   (\<lambda>x. Inr (x * x + 1) :: exn + real) 1 = Inr 2 \<and>
   \<not> (1::real) * 2 < 0 \<and>
   bisection (\<lambda>x. Inr (x * x + 1)) 0 1 (1 / 10000) 50 =
     Inr (Fail ''Bisection fails: f(a) and f(b) must have opposite signs.'') \<and>
   regula_falsi (\<lambda>x. Inr (x * x + 1)) 0 1 (1 / 10000) 50 =
     Inr (Fail ''Regula Falsi fails: f(a) and f(b) must have opposite signs.'') \<and>
   (\<lambda>x. Inr x :: exn + real) 0 = Inr 0 \<and> (\<lambda>x. Inr x :: exn + real) 1 = Inr 1 \<and>
   \<not> (0::real) * 1 < 0 \<and>
   bisection (\<lambda>x. Inr x) 0 1 (1 / 10000) 50 =
     Inr (Fail ''Bisection fails: f(a) and f(b) must have opposite signs.'')"
proof -
  have a: "(\<lambda>x. Inr (x * x + 1) :: exn + real) 0 = Inr 1" by simp
  have b: "(\<lambda>x. Inr (x * x + 1) :: exn + real) 1 = Inr 2" by simp
  have s: "\<not> (1::real) * 2 < 0" by simp
  have a0: "(\<lambda>x. Inr x :: exn + real) 0 = Inr 0" by simp
  have b0: "(\<lambda>x. Inr x :: exn + real) 1 = Inr 1" by simp
  have s0: "\<not> (0::real) * 1 < 0" by simp
  from bracketing_error_immediate [where f = "\<lambda>x. Inr (x * x + 1)" and a = 0 and b = 1
      and fa = 1 and fb = 2 and tol = "1 / 10000" and max_iter = 50, OF a b s]
    bracketing_error_immediate [where f = "\<lambda>x. Inr x" and a = 0 and b = 1
      and fa = 0 and fb = 1 and tol = "1 / 10000" and max_iter = 50, OF a0 b0 s0]
    a b s a0 b0 s0
  show ?thesis by blast
qed

section \<open>C6: the tie-break rule of the two bracketing methods\<close>

text \<open>
  Claim C6. In an iteration of bisection or regula falsi that falls through to the next
  one, the bracket is updated by the sign of \<open>f(a) * f(c)\<close>: if it is negative, \<open>b\<close>
  becomes \<open>c\<close> and \<open>a\<close> stays; otherwise, also when the product is exactly zero,
  \<open>a\<close> becomes \<open>c\<close> and \<open>b\<close> stays. Here \<open>c\<close> is the midpoint for bisection and
  the secant point \<open>(a f(b) - b f(a)) / (f(b) - f(a))\<close> for regula falsi.
\<close>

theorem tie_break_rule:
  "(bisection_body f tol i (a, b, its) = Continue (a', b', its') \<longrightarrow>
      (\<exists>fa fc. f a = Inr fa \<and> f ((a + b) / 2) = Inr fc \<and>
         (a', b') = (if fa * fc < 0 then (a, (a + b) / 2) else ((a + b) / 2, b)))) \<and>
   (regula_falsi_body f tol i (a, b, c0, its) = Continue (a', b', c', its') \<longrightarrow>
      (\<exists>fa fb fc c. f a = Inr fa \<and> f b = Inr fb \<and> c = (a * fb - b * fa) / (fb - fa) \<and>
         f c = Inr fc \<and> c' = Some c \<and>
         (a', b') = (if fa * fc < 0 then (a, c) else (c, b))))"
proof (intro conjI impI)
  assume "bisection_body f tol i (a, b, its) = Continue (a', b', its')"
  from bisection_body_Continue [OF this]
  show "\<exists>fa fc. f a = Inr fa \<and> f ((a + b) / 2) = Inr fc \<and>
         (a', b') = (if fa * fc < 0 then (a, (a + b) / 2) else ((a + b) / 2, b))"
    by (auto split: if_splits)
next
  assume "regula_falsi_body f tol i (a, b, c0, its) = Continue (a', b', c', its')"
  from regula_falsi_body_Continue [OF this]
  show "\<exists>fa fb fc c. f a = Inr fa \<and> f b = Inr fb \<and> c = (a * fb - b * fa) / (fb - fa) \<and>
         f c = Inr fc \<and> c' = Some c \<and>
         (a', b') = (if fa * fc < 0 then (a, c) else (c, b))"
    by (auto split: if_splits)
qed

theorem tie_break_rule_witness:
  "bisection_body (\<lambda>x. Inr (x + 1)) (1 / 2) 1 (- 1, 3, []) =
     Continue (1, 3, [bisection_row 1 (- 1) 3 1 2 4]) \<and>
   (\<exists>fa fc :: real. Inr (- 1 + 1) = (Inr fa :: exn + real) \<and> Inr ((- 1 + 3) / 2 + 1) = (Inr fc :: exn + real) \<and> fa * fc = (0::real) \<and>
      (1::real, 3::real) = (if fa * fc < 0 then (- 1, (- 1 + 3) / 2) else ((- 1 + 3) / 2, 3))) \<and>
   regula_falsi_body (\<lambda>x. Inr (x * x - 2)) (1 / 10) 1 (1, 2, None, []) =
     Continue (4 / 3, 2, Some (4 / 3), [regula_falsi_row 1 1 2 (4 / 3) (- 2 / 9) (2 / 9)]) \<and>
   (\<exists>fa fb fc c :: real. Inr (1 * 1 - 2) = (Inr fa :: exn + real) \<and> Inr (2 * 2 - 2) = (Inr fb :: exn + real) \<and>
      c = (1 * fb - 2 * fa) / (fb - fa) \<and> Inr (c * c - 2) = (Inr fc :: exn + real) \<and> Some (4 / 3) = Some c \<and>
      (4 / 3, 2) = (if fa * fc < 0 then (1, c) else (c, 2::real)))"
proof -
  have b: "bisection_body (\<lambda>x. Inr (x + 1)) (1 / 2) 1 (- 1, 3, []) =
     Continue (1, 3, [bisection_row 1 (- 1) 3 1 2 4])"
    by (simp add: Let_def)
  have r: "regula_falsi_body (\<lambda>x. Inr (x * x - 2)) (1 / 10) 1 (1, 2, None, []) =
     Continue (4 / 3, 2, Some (4 / 3), [regula_falsi_row 1 1 2 (4 / 3) (- 2 / 9) (2 / 9)])"
    by (simp add: Let_def)
  from tie_break_rule [THEN conjunct1, rule_format, OF b]
  have "\<exists>fa fc :: real. Inr (- 1 + 1) = (Inr fa :: exn + real) \<and> Inr ((- 1 + 3) / 2 + 1) = (Inr fc :: exn + real) \<and>
      (1::real, 3::real) = (if fa * fc < 0 then (- 1, (- 1 + 3) / 2) else ((- 1 + 3) / 2, 3::real))"
    by simp
  then have b': "\<exists>fa fc :: real. Inr (- 1 + 1) = (Inr fa :: exn + real) \<and> Inr ((- 1 + 3) / 2 + 1) = (Inr fc :: exn + real) \<and>
      fa * fc = (0::real) \<and>
      (1::real, 3::real) = (if fa * fc < 0 then (- 1, (- 1 + 3) / 2) else ((- 1 + 3) / 2, 3))"
    by auto
  from tie_break_rule [THEN conjunct2, rule_format, OF r]
  have r': "\<exists>fa fb fc c :: real. Inr (1 * 1 - 2) = (Inr fa :: exn + real) \<and> Inr (2 * 2 - 2) = (Inr fb :: exn + real) \<and>
      c = (1 * fb - 2 * fa) / (fb - fa) \<and> Inr (c * c - 2) = (Inr fc :: exn + real) \<and> Some (4 / 3) = Some c \<and>
      (4 / 3, 2) = (if fa * fc < 0 then (1, c) else (c, 2::real))"
    by simp
  from b b' r r' show ?thesis by blast
qed

section \<open>C7: an exception raised by the function is reported\<close>

lemma for_loop_Raise_later:
  assumes "0 \<le> k" and "k < max_iter"
    and "for_loop body [1..k] s = Continue s'" and "body (k + 1) s' = Raise e"
  shows "for_loop body [1..max_iter] s = (Raise e :: ('s, 'r) ctl)"
proof -
  from assms(1,2) have "[1..max_iter] = [1..k] @ (k + 1) # [k + 2..max_iter]"
    using upto_split3 [of 1 "k + 1" max_iter] by (simp add: add.commute)
  with assms(3,4) show ?thesis
    by (simp add: for_loop_append)
qed

text \<open>
  The points a run visits: the bracketing methods evaluate \<open>f\<close> at \<open>a\<close> and \<open>b\<close>
  before the loop, and every method evaluates it in each iteration at the points its loop
  state gives. When \<open>k\<close> iterations have fallen through to the state shown and the
  function raises \<open>e\<close> at a point iteration \<open>k + 1\<close> evaluates, the method raises \<open>e\<close>.
  (In an iteration of bisection or regula falsi, \<open>f\<close> is evaluated at \<open>a\<close> and \<open>b\<close>
  too, but at these it has returned before.)
\<close>

lemma bisection_raises:
  assumes "f a = Inl e \<or> (\<exists>ya. f a = Inr ya) \<and> f b = Inl e \<or>
     (\<exists>ya yb. f a = Inr ya \<and> f b = Inr yb \<and> \<not> ya * yb \<ge> 0) \<and> 0 \<le> k \<and> k < max_iter \<and>
     for_loop (bisection_body f tol) [1..k] (a, b, []) = Continue (a', b', its) \<and>
     f ((a' + b') / 2) = Inl e"
  shows "bisection f a b tol max_iter = Inl e"
proof -
  from assms consider "f a = Inl e" | ya where "f a = Inr ya" "f b = Inl e"
    | ya yb where "f a = Inr ya" "f b = Inr yb" "\<not> ya * yb \<ge> 0" "0 \<le> k" "k < max_iter"
        "for_loop (bisection_body f tol) [1..k] (a, b, []) = Continue (a', b', its)"
        "f ((a' + b') / 2) = Inl e"
    by blast
  then show ?thesis
  proof cases
    case 1
    then show ?thesis by (simp add: bisection_def)
  next
    case 2
    then show ?thesis by (simp add: bisection_def)
  next
    case 3
    from 3(7) have "bisection_body f tol (k + 1) (a', b', its) = Raise e" by simp
    from for_loop_Raise_later [OF 3(4,5,6) this] 3(1,2,3) show ?thesis
      by (simp add: bisection_def)
  qed
qed

lemma regula_falsi_raises:
  assumes "f a = Inl e \<or> (\<exists>ya. f a = Inr ya) \<and> f b = Inl e \<or>
     (\<exists>ya yb. f a = Inr ya \<and> f b = Inr yb \<and> \<not> ya * yb \<ge> 0) \<and> 0 \<le> k \<and> k < max_iter \<and>
     for_loop (regula_falsi_body f tol) [1..k] (a, b, None, []) = Continue (a', b', c0, its) \<and>
     (\<exists>ya yb. f a' = Inr ya \<and> f b' = Inr yb \<and> yb - ya \<noteq> 0 \<and>
        f ((a' * yb - b' * ya) / (yb - ya)) = Inl e)"
  shows "regula_falsi f a b tol max_iter = Inl e"
proof -
  from assms consider "f a = Inl e" | ya where "f a = Inr ya" "f b = Inl e"
    | ya yb ya' yb' where "f a = Inr ya" "f b = Inr yb" "\<not> ya * yb \<ge> 0" "0 \<le> k" "k < max_iter"
        "for_loop (regula_falsi_body f tol) [1..k] (a, b, None, []) = Continue (a', b', c0, its)"
        "f a' = Inr ya'" "f b' = Inr yb'" "yb' - ya' \<noteq> 0"
        "f ((a' * yb' - b' * ya') / (yb' - ya')) = Inl e"
    by blast
  then show ?thesis
  proof cases
    case 1
    then show ?thesis by (simp add: regula_falsi_def)
  next
    case 2
    then show ?thesis by (simp add: regula_falsi_def)
  next
    case 3
    from 3(7-10) have "regula_falsi_body f tol (k + 1) (a', b', c0, its) = Raise e" by simp
    from for_loop_Raise_later [OF 3(4,5,6) this] 3(1,2,3) show ?thesis
      by (simp add: regula_falsi_def)
  qed
qed

lemma secant_raises:
  assumes "0 \<le> k \<and> k < max_iter \<and>
     for_loop (secant_body f tol) [1..k] (x0, x1, []) = Continue (u, v, its) \<and>
     (f u = Inl e \<or> (\<exists>y. f u = Inr y) \<and> f v = Inl e)"
  shows "secant f x0 x1 tol max_iter = Inl e"
proof -
  from assms have k: "0 \<le> k" "k < max_iter"
    and loop: "for_loop (secant_body f tol) [1..k] (x0, x1, []) = Continue (u, v, its)"
    by simp_all
  from assms have "secant_body f tol (k + 1) (u, v, its) = Raise e" by auto
  from for_loop_Raise_later [OF k loop this] show ?thesis
    by (simp add: secant_def)
qed

lemma newton_raphson_raises:
  assumes "0 \<le> k \<and> k < max_iter \<and>
     for_loop (newton_raphson_body f df tol) [1..k] (x0, []) = Continue (x, its) \<and>
     (f x = Inl e \<or> (\<exists>y. f x = Inr y) \<and> df x = Inl e)"
  shows "newton_raphson f df x0 tol max_iter = Inl e"
proof -
  from assms have k: "0 \<le> k" "k < max_iter"
    and loop: "for_loop (newton_raphson_body f df tol) [1..k] (x0, []) = Continue (x, its)"
    by simp_all
  from assms have "newton_raphson_body f df tol (k + 1) (x, its) = Raise e" by auto
  from for_loop_Raise_later [OF k loop this] show ?thesis
    by (simp add: newton_raphson_def)
qed

lemma fixed_point_raises:
  assumes "0 \<le> k \<and> k < max_iter \<and>
     for_loop (fixed_point_body g tol) [1..k] (x0, []) = Continue (x, its) \<and> g x = Inl e"
  shows "fixed_point g x0 tol max_iter = Inl e"
proof -
  from assms have k: "0 \<le> k" "k < max_iter"
    and loop: "for_loop (fixed_point_body g tol) [1..k] (x0, []) = Continue (x, its)"
    by simp_all
  from assms have "fixed_point_body g tol (k + 1) (x, its) = Raise e" by auto
  from for_loop_Raise_later [OF k loop this] show ?thesis
    by (simp add: fixed_point_def)
qed

lemma modified_secant_raises:
  assumes "0 \<le> k \<and> k < max_iter \<and>
     for_loop (modified_secant_body f delta tol) [1..k] (x0, []) = Continue (x, its) \<and>
     (f x = Inl e \<or> (\<exists>y. f x = Inr y) \<and> f (x + delta) = Inl e)"
  shows "modified_secant f x0 delta tol max_iter = Inl e"
proof -
  from assms have k: "0 \<le> k" "k < max_iter"
    and loop: "for_loop (modified_secant_body f delta tol) [1..k] (x0, []) = Continue (x, its)"
    by simp_all
  from assms have "modified_secant_body f delta tol (k + 1) (x, its) = Raise e" by auto
  from for_loop_Raise_later [OF k loop this] show ?thesis
    by (simp add: modified_secant_def)
qed

lemma run_bisection_raises:
  assumes "f a = Inl e \<or> (\<exists>ya. f a = Inr ya) \<and> f b = Inl e \<or>
     (\<exists>ya yb. f a = Inr ya \<and> f b = Inr yb \<and> \<not> ya * yb \<ge> 0) \<and> 0 \<le> k \<and> k < max_iter \<and>
     for_loop (run_bisection_body py f tol) [1..k] (a, b, []) = Continue (a', b', its) \<and>
     f ((a' + b') / 2) = Inl e"
  shows "run_bisection py f a b tol max_iter = Inl e"
proof -
  from assms consider "f a = Inl e" | ya where "f a = Inr ya" "f b = Inl e"
    | ya yb where "f a = Inr ya" "f b = Inr yb" "\<not> ya * yb \<ge> 0" "0 \<le> k" "k < max_iter"
        "for_loop (run_bisection_body py f tol) [1..k] (a, b, []) = Continue (a', b', its)"
        "f ((a' + b') / 2) = Inl e"
    by blast
  then show ?thesis
  proof cases
    case 1
    then show ?thesis by (simp add: run_bisection_def)
  next
    case 2
    then show ?thesis by (simp add: run_bisection_def)
  next
    case 3
    from 3(7) have "run_bisection_body py f tol (k + 1) (a', b', its) = Raise e" by simp
    from for_loop_Raise_later [OF 3(4,5,6) this] 3(1,2,3) show ?thesis
      by (simp add: run_bisection_def)
  qed
qed

lemma run_regula_falsi_raises:
  assumes "f a = Inl e \<or> (\<exists>ya. f a = Inr ya) \<and> f b = Inl e \<or>
     (\<exists>ya yb. f a = Inr ya \<and> f b = Inr yb \<and> \<not> ya * yb \<ge> 0) \<and> 0 \<le> k \<and> k < max_iter \<and>
     for_loop (run_regula_falsi_body py f tol) [1..k] (a, b, None, []) = Continue (a', b', c0, its) \<and>
     (\<exists>ya yb. f a' = Inr ya \<and> f b' = Inr yb \<and> yb - ya \<noteq> 0 \<and>
        f ((a' * yb - b' * ya) / (yb - ya)) = Inl e)"
  shows "run_regula_falsi py f a b tol max_iter = Inl e"
proof -
  from assms consider "f a = Inl e" | ya where "f a = Inr ya" "f b = Inl e"
    | ya yb ya' yb' where "f a = Inr ya" "f b = Inr yb" "\<not> ya * yb \<ge> 0" "0 \<le> k" "k < max_iter"
        "for_loop (run_regula_falsi_body py f tol) [1..k] (a, b, None, []) = Continue (a', b', c0, its)"
        "f a' = Inr ya'" "f b' = Inr yb'" "yb' - ya' \<noteq> 0"
        "f ((a' * yb' - b' * ya') / (yb' - ya')) = Inl e"
    by blast
  then show ?thesis
  proof cases
    case 1
    then show ?thesis by (simp add: run_regula_falsi_def)
  next
    case 2
    then show ?thesis by (simp add: run_regula_falsi_def)
  next
    case 3
    from 3(7-10) have "run_regula_falsi_body py f tol (k + 1) (a', b', c0, its) = Raise e" by simp
    from for_loop_Raise_later [OF 3(4,5,6) this] 3(1,2,3) show ?thesis
      by (simp add: run_regula_falsi_def)
  qed
qed

lemma run_secant_raises:
  assumes "0 \<le> k \<and> k < max_iter \<and>
     for_loop (run_secant_body py f tol) [1..k] (x0, x1, []) = Continue (u, v, its) \<and>
     (f u = Inl e \<or> (\<exists>y. f u = Inr y) \<and> f v = Inl e)"
  shows "run_secant py f x0 x1 tol max_iter = Inl e"
proof -
  from assms have k: "0 \<le> k" "k < max_iter"
    and loop: "for_loop (run_secant_body py f tol) [1..k] (x0, x1, []) = Continue (u, v, its)"
    by simp_all
  from assms have "run_secant_body py f tol (k + 1) (u, v, its) = Raise e" by auto
  from for_loop_Raise_later [OF k loop this] show ?thesis
    by (simp add: run_secant_def)
qed

lemma run_newton_raises:
  assumes "0 \<le> k \<and> k < max_iter \<and>
     for_loop (run_newton_body py f df tol) [1..k] (x0, []) = Continue (x, its) \<and>
     (f x = Inl e \<or> (\<exists>y. f x = Inr y) \<and> df x = Inl e)"
  shows "run_newton py f df x0 tol max_iter = Inl e"
proof -
  from assms have k: "0 \<le> k" "k < max_iter"
    and loop: "for_loop (run_newton_body py f df tol) [1..k] (x0, []) = Continue (x, its)"
    by simp_all
  from assms have "run_newton_body py f df tol (k + 1) (x, its) = Raise e" by auto
  from for_loop_Raise_later [OF k loop this] show ?thesis
    by (simp add: run_newton_def)
qed

lemma run_fixed_point_raises:
  assumes "0 \<le> k \<and> k < max_iter \<and>
     for_loop (run_fixed_point_body py g tol) [1..k] (x0, []) = Continue (x, its) \<and> g x = Inl e"
  shows "run_fixed_point py g x0 tol max_iter = Inl e"
proof -
  from assms have k: "0 \<le> k" "k < max_iter"
    and loop: "for_loop (run_fixed_point_body py g tol) [1..k] (x0, []) = Continue (x, its)"
    by simp_all
  from assms have "run_fixed_point_body py g tol (k + 1) (x, its) = Raise e" by auto
  from for_loop_Raise_later [OF k loop this] show ?thesis
    by (simp add: run_fixed_point_def)
qed

lemma run_modified_secant_raises:
  assumes "0 \<le> k \<and> k < max_iter \<and>
     for_loop (run_modified_secant_body py f delta tol) [1..k] (x0, []) = Continue (x, its) \<and>
     (f x = Inl e \<or> (\<exists>y. f x = Inr y) \<and> f (x + delta) = Inl e)"
  shows "run_modified_secant py f x0 delta tol max_iter = Inl e"
proof -
  from assms have k: "0 \<le> k" "k < max_iter"
    and loop: "for_loop (run_modified_secant_body py f delta tol) [1..k] (x0, []) = Continue (x, its)"
    by simp_all
  from assms have "run_modified_secant_body py f delta tol (k + 1) (x, its) = Raise e" by auto
  from for_loop_Raise_later [OF k loop this] show ?thesis
    by (simp add: run_modified_secant_def)
qed

text \<open>
  Claim C7, for evaluations that raise. If the function, or the derivative, raises an
  exception at a point the run visits, then in \<^verbatim>\<open>ZOF_CLI.py\<close> the method raises it and
  the pass of \<^verbatim>\<open>main\<close> prints \<^verbatim>\<open>An error occurred\<close> with its text (after the derivative
  line for Newton-Raphson), and in \<^verbatim>\<open>app.py\<close> \<^verbatim>\<open>run_method\<close> returns the dict
  \<^verbatim>\<open>{"error": str(e)}\<close>; this for each of the six methods. An evaluation that overflows
  to \<^verbatim>\<open>inf\<close> or gives \<^verbatim>\<open>nan\<close> raises nothing and is not reported (see the
  counterexample below).
\<close>

theorem raised_exception_is_reported:
  "((f a = Inl e \<or> (\<exists>ya. f a = Inr ya) \<and> f b = Inl e \<or>
     (\<exists>ya yb. f a = Inr ya \<and> f b = Inr yb \<and> \<not> ya * yb \<ge> 0) \<and> 0 \<le> k \<and> k < max_iter \<and>
     for_loop (bisection_body f tol) [1..k] (a, b, []) = Continue (a', b', its) \<and>
     f ((a' + b') / 2) = Inl e) \<longrightarrow>
    bisection f a b tol max_iter = Inl e \<and>
    main_pass py ''1'' f df dstr tol max_iter a b = [''An error occurred: '' @ py_str_exn py e]) \<and>
   ((f a = Inl e \<or> (\<exists>ya. f a = Inr ya) \<and> f b = Inl e \<or>
     (\<exists>ya yb. f a = Inr ya \<and> f b = Inr yb \<and> \<not> ya * yb \<ge> 0) \<and> 0 \<le> k \<and> k < max_iter \<and>
     for_loop (regula_falsi_body f tol) [1..k] (a, b, None, []) = Continue (a', b', c0, its) \<and>
     (\<exists>ya yb. f a' = Inr ya \<and> f b' = Inr yb \<and> yb - ya \<noteq> 0 \<and>
        f ((a' * yb - b' * ya) / (yb - ya)) = Inl e)) \<longrightarrow>
    regula_falsi f a b tol max_iter = Inl e \<and>
    main_pass py ''2'' f df dstr tol max_iter a b = [''An error occurred: '' @ py_str_exn py e]) \<and>
   (0 \<le> k \<and> k < max_iter \<and>
     for_loop (secant_body f tol) [1..k] (x0, x1, []) = Continue (u, v, its) \<and>
     (f u = Inl e \<or> (\<exists>y. f u = Inr y) \<and> f v = Inl e) \<longrightarrow>
    secant f x0 x1 tol max_iter = Inl e \<and>
    main_pass py ''3'' f df dstr tol max_iter x0 x1 = [''An error occurred: '' @ py_str_exn py e]) \<and>
   (0 \<le> k \<and> k < max_iter \<and>
     for_loop (newton_raphson_body f f' tol) [1..k] (x0, []) = Continue (x, its) \<and>
     (f x = Inl e \<or> (\<exists>y. f x = Inr y) \<and> f' x = Inl e) \<longrightarrow>
    newton_raphson f f' x0 tol max_iter = Inl e \<and>
    main_pass py ''4'' f (Inr f') dstr tol max_iter x0 x1 =
      [''Calculated Derivative: '' @ dstr, ''An error occurred: '' @ py_str_exn py e]) \<and>
   (0 \<le> k \<and> k < max_iter \<and>
     for_loop (fixed_point_body f tol) [1..k] (x0, []) = Continue (x, its) \<and> f x = Inl e \<longrightarrow>
    fixed_point f x0 tol max_iter = Inl e \<and>
    main_pass py ''5'' f df dstr tol max_iter x0 x1 = [''An error occurred: '' @ py_str_exn py e]) \<and>
   (0 \<le> k \<and> k < max_iter \<and>
     for_loop (modified_secant_body f delta tol) [1..k] (x0, []) = Continue (x, its) \<and>
     (f x = Inl e \<or> (\<exists>y. f x = Inr y) \<and> f (x + delta) = Inl e) \<longrightarrow>
    modified_secant f x0 delta tol max_iter = Inl e \<and>
    main_pass py ''6'' f df dstr tol max_iter x0 delta =
      [''An error occurred: '' @ py_str_exn py e]) \<and>
   (p_function ps = Some f \<and> p_tolerance ps = Inr tol \<and> p_max_iter ps = Inr max_iter \<and>
    param_a ps = Inr a \<and> param_b ps = Inr b \<and>
    (f a = Inl e \<or> (\<exists>ya. f a = Inr ya) \<and> f b = Inl e \<or>
     (\<exists>ya yb. f a = Inr ya \<and> f b = Inr yb \<and> \<not> ya * yb \<ge> 0) \<and> 0 \<le> k \<and> k < max_iter \<and>
     for_loop (run_bisection_body py f tol) [1..k] (a, b, []) = Continue (a', b', its) \<and>
     f ((a' + b') / 2) = Inl e) \<longrightarrow>
    run_method py ''1'' ps = Error_str e) \<and>
   (p_function ps = Some f \<and> p_tolerance ps = Inr tol \<and> p_max_iter ps = Inr max_iter \<and>
    param_a ps = Inr a \<and> param_b ps = Inr b \<and>
    (f a = Inl e \<or> (\<exists>ya. f a = Inr ya) \<and> f b = Inl e \<or>
     (\<exists>ya yb. f a = Inr ya \<and> f b = Inr yb \<and> \<not> ya * yb \<ge> 0) \<and> 0 \<le> k \<and> k < max_iter \<and>
     for_loop (run_regula_falsi_body py f tol) [1..k] (a, b, None, []) =
       Continue (a', b', c0, its) \<and>
     (\<exists>ya yb. f a' = Inr ya \<and> f b' = Inr yb \<and> yb - ya \<noteq> 0 \<and>
        f ((a' * yb - b' * ya) / (yb - ya)) = Inl e)) \<longrightarrow>
    run_method py ''2'' ps = Error_str e) \<and>
   (p_function ps = Some f \<and> p_tolerance ps = Inr tol \<and> p_max_iter ps = Inr max_iter \<and>
    param_x0 ps = Inr x0 \<and> param_x1 ps = Inr x1 \<and> 0 \<le> k \<and> k < max_iter \<and>
     for_loop (run_secant_body py f tol) [1..k] (x0, x1, []) = Continue (u, v, its) \<and>
     (f u = Inl e \<or> (\<exists>y. f u = Inr y) \<and> f v = Inl e) \<longrightarrow>
    run_method py ''3'' ps = Error_str e) \<and>
   (p_function ps = Some f \<and> p_tolerance ps = Inr tol \<and> p_max_iter ps = Inr max_iter \<and>
    param_x0 ps = Inr x0 \<and> p_derivative ps = Inr f' \<and> 0 \<le> k \<and> k < max_iter \<and>
     for_loop (run_newton_body py f f' tol) [1..k] (x0, []) = Continue (x, its) \<and>
     (f x = Inl e \<or> (\<exists>y. f x = Inr y) \<and> f' x = Inl e) \<longrightarrow>
    run_method py ''4'' ps = Error_str e) \<and>
   (p_function ps = Some f \<and> p_tolerance ps = Inr tol \<and> p_max_iter ps = Inr max_iter \<and>
    param_x0 ps = Inr x0 \<and> 0 \<le> k \<and> k < max_iter \<and>
     for_loop (run_fixed_point_body py f tol) [1..k] (x0, []) = Continue (x, its) \<and>
     f x = Inl e \<longrightarrow>
    run_method py ''5'' ps = Error_str e) \<and>
   (p_function ps = Some f \<and> p_tolerance ps = Inr tol \<and> p_max_iter ps = Inr max_iter \<and>
    param_x0 ps = Inr x0 \<and> param_delta ps = Inr delta \<and> 0 \<le> k \<and> k < max_iter \<and>
     for_loop (run_modified_secant_body py f delta tol) [1..k] (x0, []) = Continue (x, its) \<and>
     (f x = Inl e \<or> (\<exists>y. f x = Inr y) \<and> f (x + delta) = Inl e) \<longrightarrow>
    run_method py ''6'' ps = Error_str e)"
proof -
  have c1: "bisection f a b tol max_iter = Inl e \<and>
    main_pass py ''1'' f df dstr tol max_iter a b = [''An error occurred: '' @ py_str_exn py e]"
    if "f a = Inl e \<or> (\<exists>ya. f a = Inr ya) \<and> f b = Inl e \<or>
     (\<exists>ya yb. f a = Inr ya \<and> f b = Inr yb \<and> \<not> ya * yb \<ge> 0) \<and> 0 \<le> k \<and> k < max_iter \<and>
     for_loop (bisection_body f tol) [1..k] (a, b, []) = Continue (a', b', its) \<and>
     f ((a' + b') / 2) = Inl e"
    using bisection_raises [OF that] by (simp add: main_pass_def run_choice_def)
  have c2: "regula_falsi f a b tol max_iter = Inl e \<and>
    main_pass py ''2'' f df dstr tol max_iter a b = [''An error occurred: '' @ py_str_exn py e]"
    if "f a = Inl e \<or> (\<exists>ya. f a = Inr ya) \<and> f b = Inl e \<or>
     (\<exists>ya yb. f a = Inr ya \<and> f b = Inr yb \<and> \<not> ya * yb \<ge> 0) \<and> 0 \<le> k \<and> k < max_iter \<and>
     for_loop (regula_falsi_body f tol) [1..k] (a, b, None, []) = Continue (a', b', c0, its) \<and>
     (\<exists>ya yb. f a' = Inr ya \<and> f b' = Inr yb \<and> yb - ya \<noteq> 0 \<and>
        f ((a' * yb - b' * ya) / (yb - ya)) = Inl e)"
    using regula_falsi_raises [OF that] by (simp add: main_pass_def run_choice_def)
  have c3: "secant f x0 x1 tol max_iter = Inl e \<and>
    main_pass py ''3'' f df dstr tol max_iter x0 x1 = [''An error occurred: '' @ py_str_exn py e]"
    if "0 \<le> k \<and> k < max_iter \<and>
     for_loop (secant_body f tol) [1..k] (x0, x1, []) = Continue (u, v, its) \<and>
     (f u = Inl e \<or> (\<exists>y. f u = Inr y) \<and> f v = Inl e)"
    using secant_raises [OF that] by (simp add: main_pass_def run_choice_def)
  have c4: "newton_raphson f f' x0 tol max_iter = Inl e \<and>
    main_pass py ''4'' f (Inr f') dstr tol max_iter x0 x1 =
      [''Calculated Derivative: '' @ dstr, ''An error occurred: '' @ py_str_exn py e]"
    if "0 \<le> k \<and> k < max_iter \<and>
     for_loop (newton_raphson_body f f' tol) [1..k] (x0, []) = Continue (x, its) \<and>
     (f x = Inl e \<or> (\<exists>y. f x = Inr y) \<and> f' x = Inl e)"
    using newton_raphson_raises [OF that] by (simp add: main_pass_def run_choice_def)
  have c5: "fixed_point f x0 tol max_iter = Inl e \<and>
    main_pass py ''5'' f df dstr tol max_iter x0 x1 = [''An error occurred: '' @ py_str_exn py e]"
    if "0 \<le> k \<and> k < max_iter \<and>
     for_loop (fixed_point_body f tol) [1..k] (x0, []) = Continue (x, its) \<and> f x = Inl e"
    using fixed_point_raises [OF that] by (simp add: main_pass_def run_choice_def)
  have c6: "modified_secant f x0 delta tol max_iter = Inl e \<and>
    main_pass py ''6'' f df dstr tol max_iter x0 delta =
      [''An error occurred: '' @ py_str_exn py e]"
    if "0 \<le> k \<and> k < max_iter \<and>
     for_loop (modified_secant_body f delta tol) [1..k] (x0, []) = Continue (x, its) \<and>
     (f x = Inl e \<or> (\<exists>y. f x = Inr y) \<and> f (x + delta) = Inl e)"
    using modified_secant_raises [OF that] by (simp add: main_pass_def run_choice_def)
  have w1: "run_method py ''1'' ps = Error_str e"
    if "p_function ps = Some f \<and> p_tolerance ps = Inr tol \<and> p_max_iter ps = Inr max_iter \<and>
      param_a ps = Inr a \<and> param_b ps = Inr b \<and>
      (f a = Inl e \<or> (\<exists>ya. f a = Inr ya) \<and> f b = Inl e \<or>
       (\<exists>ya yb. f a = Inr ya \<and> f b = Inr yb \<and> \<not> ya * yb \<ge> 0) \<and> 0 \<le> k \<and> k < max_iter \<and>
       for_loop (run_bisection_body py f tol) [1..k] (a, b, []) = Continue (a', b', its) \<and>
       f ((a' + b') / 2) = Inl e)"
  proof -
    from that have "f a = Inl e \<or> (\<exists>ya. f a = Inr ya) \<and> f b = Inl e \<or>
       (\<exists>ya yb. f a = Inr ya \<and> f b = Inr yb \<and> \<not> ya * yb \<ge> 0) \<and> 0 \<le> k \<and> k < max_iter \<and>
       for_loop (run_bisection_body py f tol) [1..k] (a, b, []) = Continue (a', b', its) \<and>
       f ((a' + b') / 2) = Inl e"
      by blast
    from run_bisection_raises [OF this] that show ?thesis
      by (simp add: run_method_def run_method_try_def)
  qed
  have w2: "run_method py ''2'' ps = Error_str e"
    if "p_function ps = Some f \<and> p_tolerance ps = Inr tol \<and> p_max_iter ps = Inr max_iter \<and>
      param_a ps = Inr a \<and> param_b ps = Inr b \<and>
      (f a = Inl e \<or> (\<exists>ya. f a = Inr ya) \<and> f b = Inl e \<or>
       (\<exists>ya yb. f a = Inr ya \<and> f b = Inr yb \<and> \<not> ya * yb \<ge> 0) \<and> 0 \<le> k \<and> k < max_iter \<and>
       for_loop (run_regula_falsi_body py f tol) [1..k] (a, b, None, []) =
         Continue (a', b', c0, its) \<and>
       (\<exists>ya yb. f a' = Inr ya \<and> f b' = Inr yb \<and> yb - ya \<noteq> 0 \<and>
          f ((a' * yb - b' * ya) / (yb - ya)) = Inl e))"
  proof -
    from that have "f a = Inl e \<or> (\<exists>ya. f a = Inr ya) \<and> f b = Inl e \<or>
       (\<exists>ya yb. f a = Inr ya \<and> f b = Inr yb \<and> \<not> ya * yb \<ge> 0) \<and> 0 \<le> k \<and> k < max_iter \<and>
       for_loop (run_regula_falsi_body py f tol) [1..k] (a, b, None, []) =
         Continue (a', b', c0, its) \<and>
       (\<exists>ya yb. f a' = Inr ya \<and> f b' = Inr yb \<and> yb - ya \<noteq> 0 \<and>
          f ((a' * yb - b' * ya) / (yb - ya)) = Inl e)"
      by blast
    from run_regula_falsi_raises [OF this] that show ?thesis
      by (simp add: run_method_def run_method_try_def)
  qed
  have w3: "run_method py ''3'' ps = Error_str e"
    if "p_function ps = Some f \<and> p_tolerance ps = Inr tol \<and> p_max_iter ps = Inr max_iter \<and>
      param_x0 ps = Inr x0 \<and> param_x1 ps = Inr x1 \<and> 0 \<le> k \<and> k < max_iter \<and>
      for_loop (run_secant_body py f tol) [1..k] (x0, x1, []) = Continue (u, v, its) \<and>
      (f u = Inl e \<or> (\<exists>y. f u = Inr y) \<and> f v = Inl e)"
  proof -
    from that have "0 \<le> k \<and> k < max_iter \<and>
      for_loop (run_secant_body py f tol) [1..k] (x0, x1, []) = Continue (u, v, its) \<and>
      (f u = Inl e \<or> (\<exists>y. f u = Inr y) \<and> f v = Inl e)"
      by blast
    from run_secant_raises [OF this] that show ?thesis
      by (simp add: run_method_def run_method_try_def)
  qed
  have w4: "run_method py ''4'' ps = Error_str e"
    if "p_function ps = Some f \<and> p_tolerance ps = Inr tol \<and> p_max_iter ps = Inr max_iter \<and>
      param_x0 ps = Inr x0 \<and> p_derivative ps = Inr f' \<and> 0 \<le> k \<and> k < max_iter \<and>
      for_loop (run_newton_body py f f' tol) [1..k] (x0, []) = Continue (x, its) \<and>
      (f x = Inl e \<or> (\<exists>y. f x = Inr y) \<and> f' x = Inl e)"
  proof -
    from that have "0 \<le> k \<and> k < max_iter \<and>
      for_loop (run_newton_body py f f' tol) [1..k] (x0, []) = Continue (x, its) \<and>
      (f x = Inl e \<or> (\<exists>y. f x = Inr y) \<and> f' x = Inl e)"
      by blast
    from run_newton_raises [OF this] that show ?thesis
      by (simp add: run_method_def run_method_try_def)
  qed
  have w5: "run_method py ''5'' ps = Error_str e"
    if "p_function ps = Some f \<and> p_tolerance ps = Inr tol \<and> p_max_iter ps = Inr max_iter \<and>
      param_x0 ps = Inr x0 \<and> 0 \<le> k \<and> k < max_iter \<and>
      for_loop (run_fixed_point_body py f tol) [1..k] (x0, []) = Continue (x, its) \<and>
      f x = Inl e"
  proof -
    from that have "0 \<le> k \<and> k < max_iter \<and>
      for_loop (run_fixed_point_body py f tol) [1..k] (x0, []) = Continue (x, its) \<and>
      f x = Inl e"
      by blast
    from run_fixed_point_raises [OF this] that show ?thesis
      by (simp add: run_method_def run_method_try_def)
  qed
  have w6: "run_method py ''6'' ps = Error_str e"
    if "p_function ps = Some f \<and> p_tolerance ps = Inr tol \<and> p_max_iter ps = Inr max_iter \<and>
      param_x0 ps = Inr x0 \<and> param_delta ps = Inr delta \<and> 0 \<le> k \<and> k < max_iter \<and>
      for_loop (run_modified_secant_body py f delta tol) [1..k] (x0, []) = Continue (x, its) \<and>
      (f x = Inl e \<or> (\<exists>y. f x = Inr y) \<and> f (x + delta) = Inl e)"
  proof -
    from that have "0 \<le> k \<and> k < max_iter \<and>
      for_loop (run_modified_secant_body py f delta tol) [1..k] (x0, []) = Continue (x, its) \<and>
      (f x = Inl e \<or> (\<exists>y. f x = Inr y) \<and> f (x + delta) = Inl e)"
      by blast
    from run_modified_secant_raises [OF this] that show ?thesis
      by (simp add: run_method_def run_method_try_def)
  qed
  show ?thesis
    by (intro conjI; rule impI)
      (erule c1 c2 c3 c4 c5 c6 w1 w2 w3 w4 w5 w6)+
qed

text \<open>
  Claim C7 as stated fails for an evaluation that fails without raising. On binary64
  numbers, \<^verbatim>\<open>f(x) = 1e308*x - 1e308\<close> overflows at both ends of \<open>[-2, 4]\<close>
  (\<^verbatim>\<open>f(4) = inf\<close>), and \<^verbatim>\<open>1e308*x - 1e308*x**2\<close> is \<^verbatim>\<open>inf - inf = nan\<close> at \<open>4\<close>; in
  both cases bisection passes its sign test, since neither \<^verbatim>\<open>-inf >= 0\<close> nor
  \<^verbatim>\<open>nan >= 0\<close> holds, and returns the success \<open>(1.0, [record])\<close>.
\<close>

theorem unraised_failure_counterexample:
  "dsub (dmul (Finite (156575653125701 * 2 ^ 976)) (Finite 4)) (Finite (156575653125701 * 2 ^ 976)) = PosInf \<and>
   bisection64 (\<lambda>x. Inr (dsub (dmul (Finite (156575653125701 * 2 ^ 976)) x) (Finite (156575653125701 * 2 ^ 976))))
     (Finite (- 2)) (Finite 4) (Finite (7378697629483821 / 73786976294838206464)) 50 =
   Inr (DRoot (Finite 1) [bisection_row64 1 (Finite (- 2)) (Finite 4) (Finite 1) (Finite 0) (Finite 6)]) \<and>
   dadd (dmul (Finite (- (156575653125701 * 2 ^ 976))) (dmul (Finite 4) (Finite 4))) (dmul (Finite (156575653125701 * 2 ^ 976)) (Finite 4)) = NaN \<and>
   bisection64 (\<lambda>x. Inr (dadd (dmul (Finite (- (156575653125701 * 2 ^ 976))) (dmul x x)) (dmul (Finite (156575653125701 * 2 ^ 976)) x)))
     (Finite (- 2)) (Finite 4) (Finite (7378697629483821 / 73786976294838206464)) 50 =
   Inr (DRoot (Finite 1) [bisection_row64 1 (Finite (- 2)) (Finite 4) (Finite 1) (Finite 0) (Finite 6)])"
proof -
  have v1: "dsub (dmul (Finite (156575653125701 * 2 ^ 976)) (Finite 4)) (Finite (156575653125701 * 2 ^ 976)) = PosInf"
    by (simp add: rnd_zero rnd_at [where e = 971] rnd_at [where e = "- 50"]
        rnd_at [where e = "- 51"] rnd_at [where e = "- 52"] rnd_at [where e = "- 48"] nform_def round_half_even_def pow2_def
        Let_def dsub_def dmul_def ddiv_def dge_def upto.simps)
  have r1: "bisection64 (\<lambda>x. Inr (dsub (dmul (Finite (156575653125701 * 2 ^ 976)) x) (Finite (156575653125701 * 2 ^ 976))))
         (Finite (- 2)) (Finite 4) (Finite (7378697629483821 / 73786976294838206464)) 50 =
       Inr (DRoot (Finite 1) [bisection_row64 1 (Finite (- 2)) (Finite 4) (Finite 1) (Finite 0) (Finite 6)])"
    by (simp add: bisection64_def rnd_zero rnd_at [where e = 971] rnd_at [where e = "- 50"]
        rnd_at [where e = "- 51"] rnd_at [where e = "- 52"] rnd_at [where e = "- 48"] nform_def round_half_even_def pow2_def
        Let_def dsub_def dmul_def ddiv_def dge_def upto.simps)
  have v2: "dadd (dmul (Finite (- (156575653125701 * 2 ^ 976))) (dmul (Finite 4) (Finite 4))) (dmul (Finite (156575653125701 * 2 ^ 976)) (Finite 4)) = NaN"
    by (simp add: rnd_zero rnd_at [where e = 971] rnd_at [where e = "- 50"]
        rnd_at [where e = "- 51"] rnd_at [where e = "- 52"] rnd_at [where e = "- 48"] nform_def round_half_even_def pow2_def
        Let_def dsub_def dmul_def ddiv_def dge_def upto.simps)
  have r2: "bisection64 (\<lambda>x. Inr (dadd (dmul (Finite (- (156575653125701 * 2 ^ 976))) (dmul x x)) (dmul (Finite (156575653125701 * 2 ^ 976)) x)))
         (Finite (- 2)) (Finite 4) (Finite (7378697629483821 / 73786976294838206464)) 50 =
       Inr (DRoot (Finite 1) [bisection_row64 1 (Finite (- 2)) (Finite 4) (Finite 1) (Finite 0) (Finite 6)])"
    by (simp add: bisection64_def rnd_zero rnd_at [where e = 971] rnd_at [where e = "- 50"]
        rnd_at [where e = "- 51"] rnd_at [where e = "- 52"] rnd_at [where e = "- 48"] nform_def round_half_even_def pow2_def
        Let_def dsub_def dmul_def ddiv_def dge_def upto.simps)
  from v1 r1 v2 r2 show ?thesis
    by (intro conjI)
qed

text \<open>
  The theorem at bisection on \<^verbatim>\<open>1/x\<close> over \<open>[-3, 1]\<close>: the first iteration falls
  through with the bracket \<open>[-1, 1]\<close>, and the second evaluates \<open>f\<close> at \<open>0\<close>, where it
  raises ZeroDivisionError.
\<close>

theorem raised_exception_is_reported_witness:
  "(\<exists>ya yb. (\<lambda>x::real. if x = 0 then Inl ZeroDivisionError else (Inr (1 / x) :: exn + real)) (- 3) = Inr ya \<and> (\<lambda>x::real. if x = 0 then Inl ZeroDivisionError else (Inr (1 / x) :: exn + real)) 1 = Inr yb \<and> \<not> ya * yb \<ge> 0) \<and>
   (0::int) \<le> 1 \<and> (1::int) < 50 \<and>
   for_loop (bisection_body (\<lambda>x::real. if x = 0 then Inl ZeroDivisionError else (Inr (1 / x) :: exn + real)) (1 / 10000)) [1..1] (- 3, 1, []) =
     Continue (- 1, 1, [bisection_row 1 (- 3) 1 (- 1) (- 1) 4]) \<and>
   (\<lambda>x::real. if x = 0 then Inl ZeroDivisionError else (Inr (1 / x) :: exn + real)) ((- 1 + 1) / 2) = Inl ZeroDivisionError \<and>
   bisection (\<lambda>x::real. if x = 0 then Inl ZeroDivisionError else (Inr (1 / x) :: exn + real)) (- 3) 1 (1 / 10000) 50 = Inl ZeroDivisionError \<and>
   main_pass \<lparr>py_format = \<lambda>s v. s, py_str = \<lambda>v. ''?'', py_str_exn = \<lambda>e. ''division by zero''\<rparr>
     ''1'' (\<lambda>x::real. if x = 0 then Inl ZeroDivisionError else (Inr (1 / x) :: exn + real)) (Inl TypeError) [] (1 / 10000) 50 (- 3) 1 =
     [''An error occurred: division by zero''] \<and>
   for_loop (run_bisection_body \<lparr>py_format = \<lambda>s v. s, py_str = \<lambda>v. ''?'', py_str_exn = \<lambda>e. ''division by zero''\<rparr>
       (\<lambda>x::real. if x = 0 then Inl ZeroDivisionError else (Inr (1 / x) :: exn + real)) (1 / 10000)) [1..1] (- 3, 1, []) =
     Continue (- 1, 1, [[(''iter'', PInt 1), (''a'', PStr ''.4f''), (''b'', PStr ''.4f''), (''root'', PStr ''.6f''),
        (''f_root'', PStr ''.6f''), (''error'', PStr ''.6e'')]]) \<and>
   run_method \<lparr>py_format = \<lambda>s v. s, py_str = \<lambda>v. ''?'', py_str_exn = \<lambda>e. ''division by zero''\<rparr>
     ''1''
     \<lparr>p_function = Some (\<lambda>x::real. if x = 0 then Inl ZeroDivisionError else (Inr (1 / x) :: exn + real)),
      p_tolerance = Inr (1 / 10000), p_max_iter = Inr 50, param_a = Inr (- 3), param_b = Inr 1,
      param_x0 = Inl TypeError, param_x1 = Inl TypeError, param_delta = Inl TypeError,
      p_derivative = Inl TypeError\<rparr> = Error_str ZeroDivisionError"
proof -
  have hyp: "(\<exists>ya yb. (\<lambda>x::real. if x = 0 then Inl ZeroDivisionError else (Inr (1 / x) :: exn + real)) (- 3) = Inr ya \<and> (\<lambda>x::real. if x = 0 then Inl ZeroDivisionError else (Inr (1 / x) :: exn + real)) 1 = Inr yb \<and> \<not> ya * yb \<ge> 0) \<and>
       (0::int) \<le> 1 \<and> (1::int) < 50 \<and>
       for_loop (bisection_body (\<lambda>x::real. if x = 0 then Inl ZeroDivisionError else (Inr (1 / x) :: exn + real)) (1 / 10000)) [1..1] (- 3, 1, []) =
         Continue (- 1, 1, [bisection_row 1 (- 3) 1 (- 1) (- 1) 4]) \<and>
       (\<lambda>x::real. if x = 0 then Inl ZeroDivisionError else (Inr (1 / x) :: exn + real)) ((- 1 + 1) / 2) = Inl ZeroDivisionError"
    by (simp add: Let_def)
  have web: "for_loop (run_bisection_body \<lparr>py_format = \<lambda>s v. s, py_str = \<lambda>v. ''?'', py_str_exn = \<lambda>e. ''division by zero''\<rparr>
           (\<lambda>x::real. if x = 0 then Inl ZeroDivisionError else (Inr (1 / x) :: exn + real)) (1 / 10000)) [1..1] (- 3, 1, []) =
         Continue (- 1, 1, [[(''iter'', PInt 1), (''a'', PStr ''.4f''), (''b'', PStr ''.4f''), (''root'', PStr ''.6f''),
            (''f_root'', PStr ''.6f''), (''error'', PStr ''.6e'')]])"
    by (simp add: Let_def fmt_def)
  from hyp have h1: "(\<lambda>x::real. if x = 0 then Inl ZeroDivisionError else (Inr (1 / x) :: exn + real)) (- 3) = Inl ZeroDivisionError \<or>
    (\<exists>ya. (\<lambda>x::real. if x = 0 then Inl ZeroDivisionError else (Inr (1 / x) :: exn + real)) (- 3) = Inr ya) \<and>
      (\<lambda>x::real. if x = 0 then Inl ZeroDivisionError else (Inr (1 / x) :: exn + real)) 1 = Inl ZeroDivisionError \<or>
    (\<exists>ya yb. (\<lambda>x::real. if x = 0 then Inl ZeroDivisionError else (Inr (1 / x) :: exn + real)) (- 3) = Inr ya \<and> (\<lambda>x::real. if x = 0 then Inl ZeroDivisionError else (Inr (1 / x) :: exn + real)) 1 = Inr yb \<and> \<not> ya * yb \<ge> 0) \<and>
       (0::int) \<le> 1 \<and> (1::int) < 50 \<and>
       for_loop (bisection_body (\<lambda>x::real. if x = 0 then Inl ZeroDivisionError else (Inr (1 / x) :: exn + real)) (1 / 10000)) [1..1] (- 3, 1, []) =
         Continue (- 1, 1, [bisection_row 1 (- 3) 1 (- 1) (- 1) 4]) \<and>
       (\<lambda>x::real. if x = 0 then Inl ZeroDivisionError else (Inr (1 / x) :: exn + real)) ((- 1 + 1) / 2) = Inl ZeroDivisionError"
    by blast
  from raised_exception_is_reported [THEN conjunct1, rule_format, OF h1,
      where py = "\<lparr>py_format = \<lambda>s v. s, py_str = \<lambda>v. ''?'', py_str_exn = \<lambda>e. ''division by zero''\<rparr>"
      and df = "Inl TypeError" and dstr = "[]"]
  have cli: "bisection (\<lambda>x::real. if x = 0 then Inl ZeroDivisionError else (Inr (1 / x) :: exn + real)) (- 3) 1 (1 / 10000) 50 = Inl ZeroDivisionError \<and>
       main_pass \<lparr>py_format = \<lambda>s v. s, py_str = \<lambda>v. ''?'', py_str_exn = \<lambda>e. ''division by zero''\<rparr>
         ''1'' (\<lambda>x::real. if x = 0 then Inl ZeroDivisionError else (Inr (1 / x) :: exn + real)) (Inl TypeError) [] (1 / 10000) 50 (- 3) 1 =
         [''An error occurred: division by zero'']"
    by simp
  from hyp web have h2: "p_function \<lparr>p_function = Some (\<lambda>x::real. if x = 0 then Inl ZeroDivisionError else (Inr (1 / x) :: exn + real)),
          p_tolerance = Inr (1 / 10000), p_max_iter = Inr 50, param_a = Inr (- 3), param_b = Inr 1,
          param_x0 = Inl TypeError, param_x1 = Inl TypeError, param_delta = Inl TypeError,
          p_derivative = Inl TypeError\<rparr> = Some (\<lambda>x::real. if x = 0 then Inl ZeroDivisionError else (Inr (1 / x) :: exn + real)) \<and>
    p_tolerance \<lparr>p_function = Some (\<lambda>x::real. if x = 0 then Inl ZeroDivisionError else (Inr (1 / x) :: exn + real)),
          p_tolerance = Inr (1 / 10000), p_max_iter = Inr 50, param_a = Inr (- 3), param_b = Inr 1,
          param_x0 = Inl TypeError, param_x1 = Inl TypeError, param_delta = Inl TypeError,
          p_derivative = Inl TypeError\<rparr> = Inr (1 / 10000) \<and>
    p_max_iter \<lparr>p_function = Some (\<lambda>x::real. if x = 0 then Inl ZeroDivisionError else (Inr (1 / x) :: exn + real)),
          p_tolerance = Inr (1 / 10000), p_max_iter = Inr 50, param_a = Inr (- 3), param_b = Inr 1,
          param_x0 = Inl TypeError, param_x1 = Inl TypeError, param_delta = Inl TypeError,
          p_derivative = Inl TypeError\<rparr> = Inr 50 \<and>
    param_a \<lparr>p_function = Some (\<lambda>x::real. if x = 0 then Inl ZeroDivisionError else (Inr (1 / x) :: exn + real)),
          p_tolerance = Inr (1 / 10000), p_max_iter = Inr 50, param_a = Inr (- 3), param_b = Inr 1,
          param_x0 = Inl TypeError, param_x1 = Inl TypeError, param_delta = Inl TypeError,
          p_derivative = Inl TypeError\<rparr> = Inr (- 3) \<and>
    param_b \<lparr>p_function = Some (\<lambda>x::real. if x = 0 then Inl ZeroDivisionError else (Inr (1 / x) :: exn + real)),
          p_tolerance = Inr (1 / 10000), p_max_iter = Inr 50, param_a = Inr (- 3), param_b = Inr 1,
          param_x0 = Inl TypeError, param_x1 = Inl TypeError, param_delta = Inl TypeError,
          p_derivative = Inl TypeError\<rparr> = Inr 1 \<and>
    ((\<lambda>x::real. if x = 0 then Inl ZeroDivisionError else (Inr (1 / x) :: exn + real)) (- 3) = Inl ZeroDivisionError \<or>
     (\<exists>ya. (\<lambda>x::real. if x = 0 then Inl ZeroDivisionError else (Inr (1 / x) :: exn + real)) (- 3) = Inr ya) \<and>
       (\<lambda>x::real. if x = 0 then Inl ZeroDivisionError else (Inr (1 / x) :: exn + real)) 1 = Inl ZeroDivisionError \<or>
     (\<exists>ya yb. (\<lambda>x::real. if x = 0 then Inl ZeroDivisionError else (Inr (1 / x) :: exn + real)) (- 3) = Inr ya \<and> (\<lambda>x::real. if x = 0 then Inl ZeroDivisionError else (Inr (1 / x) :: exn + real)) 1 = Inr yb \<and> \<not> ya * yb \<ge> 0) \<and>
     (0::int) \<le> 1 \<and> (1::int) < 50 \<and>
     for_loop (run_bisection_body \<lparr>py_format = \<lambda>s v. s, py_str = \<lambda>v. ''?'', py_str_exn = \<lambda>e. ''division by zero''\<rparr>
            (\<lambda>x::real. if x = 0 then Inl ZeroDivisionError else (Inr (1 / x) :: exn + real)) (1 / 10000)) [1..1] (- 3, 1, []) =
          Continue (- 1, 1, [[(''iter'', PInt 1), (''a'', PStr ''.4f''), (''b'', PStr ''.4f''), (''root'', PStr ''.6f''),
             (''f_root'', PStr ''.6f''), (''error'', PStr ''.6e'')]]) \<and>
     (\<lambda>x::real. if x = 0 then Inl ZeroDivisionError else (Inr (1 / x) :: exn + real)) ((- 1 + 1) / 2) = Inl ZeroDivisionError)"
    by simp
  from raised_exception_is_reported [THEN conjunct2, THEN conjunct2, THEN conjunct2,
      THEN conjunct2, THEN conjunct2, THEN conjunct2, THEN conjunct1, rule_format, OF h2]
  have wb: "run_method \<lparr>py_format = \<lambda>s v. s, py_str = \<lambda>v. ''?'', py_str_exn = \<lambda>e. ''division by zero''\<rparr>
         ''1''
         \<lparr>p_function = Some (\<lambda>x::real. if x = 0 then Inl ZeroDivisionError else (Inr (1 / x) :: exn + real)),
          p_tolerance = Inr (1 / 10000), p_max_iter = Inr 50, param_a = Inr (- 3), param_b = Inr 1,
          param_x0 = Inl TypeError, param_x1 = Inl TypeError, param_delta = Inl TypeError,
          p_derivative = Inl TypeError\<rparr> = Error_str ZeroDivisionError" .
  from hyp cli web wb show ?thesis
    by (intro conjI) simp_all
qed

section \<open>C8: Newton-Raphson on the square root of two\<close>

text \<open>
  Claim C8. Newton-Raphson on \<open>f(x) = x\<^sup>2 - 2\<close> from \<open>x0 = 1\<close> with
  \<open>tol = 10\<^sup>-\<^sup>6\<close> and \<open>max_iter = 50\<close>, given the derivative \<open>2 x\<close>, returns a success
  with at most ten records and a root within \<open>10\<^sup>-\<^sup>5\<close> of \<open>1.414214\<close>; and \<open>2 x\<close> is
  the derivative of \<open>x\<^sup>2 - 2\<close>. (The run takes five iterations and returns
  \<open>886731088897 / 627013566048\<close>.)
\<close>

theorem newton_sqrt2:
  "\<exists>r its. newton_raphson (\<lambda>x. Inr (x * x - 2)) (\<lambda>x. Inr (2 * x)) 1 (1 / 1000000) 50 =
       Inr (Root r its) \<and>
     length its \<le> 10 \<and> \<bar>r - 1414214 / 1000000\<bar> < 1 / 100000 \<and>
     (\<forall>x::real. ((\<lambda>x. x * x - 2) has_real_derivative 2 * x) (at x))"
proof -
  have d: "\<forall>x::real. ((\<lambda>x. x * x - 2) has_real_derivative 2 * x) (at x)"
    by (auto intro!: derivative_eq_intros)
  have run: "\<exists>its. newton_raphson (\<lambda>x. Inr (x * x - 2)) (\<lambda>x. Inr (2 * x)) 1 (1 / 1000000) 50 =
       Inr (Root (886731088897 / 627013566048) its) \<and> length its = 5"
    by (simp add: newton_raphson_def Let_def upto.simps)
  have near: "\<bar>886731088897 / 627013566048 - 1414214 / 1000000\<bar> < (1 / 100000 :: real)"
    by simp
  from run obtain its where
    "newton_raphson (\<lambda>x. Inr (x * x - 2)) (\<lambda>x. Inr (2 * x)) 1 (1 / 1000000) 50 =
       Inr (Root (886731088897 / 627013566048) its)" "length its = 5"
    by blast
  with near d show ?thesis
    by (intro exI [of _ "886731088897 / 627013566048"] exI [of _ its]) simp
qed

text \<open>The same run through \<^verbatim>\<open>run_method\<close>, which reports \<^verbatim>\<open>iters\<close>.\<close>

lemma run_method_newton_example:
  "\<exists>r h n. run_method py ''4''
       \<lparr>p_function = Some (\<lambda>x. Inr (x * x - 2)), p_tolerance = Inr (1 / 1000000),
        p_max_iter = Inr 50, param_a = a, param_b = b, param_x0 = Inr 1, param_x1 = x1,
        param_delta = delta, p_derivative = Inr (\<lambda>x. Inr (2 * x))\<rparr> = Result r h n \<and>
     n \<le> 10 \<and> \<bar>r - 1414214 / 1000000\<bar> < 1 / 100000"
proof -
  have "\<exists>h. run_method py ''4''
       \<lparr>p_function = Some (\<lambda>x. Inr (x * x - 2)), p_tolerance = Inr (1 / 1000000),
        p_max_iter = Inr 50, param_a = a, param_b = b, param_x0 = Inr 1, param_x1 = x1,
        param_delta = delta, p_derivative = Inr (\<lambda>x. Inr (2 * x))\<rparr> =
       Result (886731088897 / 627013566048) h 5"
    by (simp add: run_method_def run_method_try_def run_newton_def Let_def upto.simps)
  moreover have "\<bar>886731088897 / 627013566048 - 1414214 / 1000000\<bar> < (1 / 100000 :: real)"
    by simp
  ultimately show ?thesis by fastforce
qed

section \<open>C9: the output block on an empty trace\<close>

text \<open>
  Claim C9 asks that formatting an empty trace does not fail. The output block of
  \<^verbatim>\<open>main\<close> does fail on it: after printing the root and the iteration count it reads
  \<^verbatim>\<open>history[-1]\<close>, which raises IndexError on an empty list. An empty trace with a
  root reaches it when \<open>max_iter < 1\<close>: here secant with \<open>max_iter = 0\<close>.
\<close>

theorem empty_trace_breaks_report:
  "secant (\<lambda>x. Inr (x * x - 2)) 1 2 (1 / 10000) 0 = Inr (Root 2 []) \<and>
   report py (Some 2) [] None =
     ([CHR 0x0A # ''Root found: '' @ py_format py ''.6f'' (PFloat 2),
       ''Iterations: '' @ py_str py (PInt 0)], Some IndexError) \<and>
   main_pass py ''3'' (\<lambda>x. Inr (x * x - 2)) df dstr (1 / 10000) 0 1 2 =
     [CHR 0x0A # ''Root found: '' @ py_format py ''.6f'' (PFloat 2),
      ''Iterations: '' @ py_str py (PInt 0),
      ''An error occurred: '' @ py_str_exn py IndexError]"
  by (simp add: secant_def report_def main_pass_def run_choice_def unpack_def)

section \<open>C10: the error bisection records\<close>

text \<open>
  Claim C10, on binary64 numbers. Whenever bisection returns a success, the record at
  position \<open>j\<close> of its trace (the record of iteration \<open>j + 1\<close>, which its \<open>iter\<close> field
  holds) stores the bracket \<open>a\<^sub>j\<close>, \<open>b\<^sub>j\<close> entering that iteration, and its error is
  \<^verbatim>\<open>abs(b - a)\<close> as computed on that bracket. The first bracket is the one given; every
  later one is the bracket before it with \<open>a\<close> or \<open>b\<close> replaced by the computed midpoint
  \<^verbatim>\<open>(a + b) / 2\<close>. The error equals the initial width divided by \<open>2\<^sup>j\<close> when the
  midpoints and errors of the records up to \<open>j\<close> were computed without rounding; the
  claim's equality for every run does not hold (see the counterexample below).
\<close>

theorem bisection64_error_is_bracket_width:
  assumes "bisection64 f a b tol max_iter = Inr (DRoot r its)" and "j < length its"
  shows "\<exists>aj bj. dfld ''a'' (its ! j) = Some aj \<and> dfld ''b'' (its ! j) = Some bj \<and>
           dfld ''error'' (its ! j) = Some (dabs (dsub bj aj)) \<and>
           map_of (its ! j) ''iter'' = Some (DInt (int j + 1)) \<and>
           (j = 0 \<longrightarrow> aj = a \<and> bj = b) \<and>
           (0 < j \<longrightarrow> (\<exists>a' b'. dfld ''a'' (its ! (j - 1)) = Some a' \<and>
               dfld ''b'' (its ! (j - 1)) = Some b' \<and>
               (aj = a' \<and> bj = ddiv (dadd a' b') (Finite 2) \<or>
                aj = ddiv (dadd a' b') (Finite 2) \<and> bj = b'))) \<and>
           (list_all exact_row (take (Suc j) its) \<longrightarrow>
              dabs (dsub bj aj) = Finite (\<bar>rv b - rv a\<bar> / 2 ^ j))"
proof -
  from bisection64_success [OF assms(1)] obtain a' b' where
    "for_loop (bisection_body64 f tol) [1..max_iter] (a, b, []) = Continue (a', b', its) \<or>
     for_loop (bisection_body64 f tol) [1..max_iter] (a, b, []) = Return (DRoot r its)"
    by blast
  from bisection64_loop_chain [OF this] obtain ab where
    len: "length its \<le> length [1..max_iter]" and ch: "chain ''mid'' (a, b) its ab" and
    it: "\<forall>j<length its. map_of (its ! j) ''iter'' = Some (DInt ([1..max_iter] ! j))" and
    ok: "\<forall>row\<in>set its. \<exists>x y. dfld ''a'' row = Some x \<and> dfld ''b'' row = Some y \<and>
             dfld ''mid'' row = Some (ddiv (dadd x y) (Finite 2)) \<and>
             dfld ''error'' row = Some (dabs (dsub y x))"
    by auto
  from len assms(2) have "1 + int j \<le> max_iter" by simp
  then have "[1..max_iter] ! j = int j + 1" by simp
  with it assms(2) have iter: "map_of (its ! j) ''iter'' = Some (DInt (int j + 1))" by simp
  from chain_index [OF ch assms(2)] obtain aj bj where
    f: "dfld ''a'' (its ! j) = Some aj" "dfld ''b'' (its ! j) = Some bj" and
    z: "j = 0 \<longrightarrow> aj = a \<and> bj = b" and
    p: "0 < j \<longrightarrow> (\<exists>a' b' c'. dfld ''a'' (its ! (j - 1)) = Some a' \<and>
             dfld ''b'' (its ! (j - 1)) = Some b' \<and> dfld ''mid'' (its ! (j - 1)) = Some c' \<and>
             (aj = a' \<and> bj = c' \<or> aj = c' \<and> bj = b'))"
    by blast
  from ok assms(2) f have e: "dfld ''error'' (its ! j) = Some (dabs (dsub bj aj))"
    by (metis nth_mem option.inject)
  have p': "\<exists>a' b'. dfld ''a'' (its ! (j - 1)) = Some a' \<and>
               dfld ''b'' (its ! (j - 1)) = Some b' \<and>
               (aj = a' \<and> bj = ddiv (dadd a' b') (Finite 2) \<or>
                aj = ddiv (dadd a' b') (Finite 2) \<and> bj = b')" if "0 < j"
  proof -
    from p that obtain a' b' c' where
      q: "dfld ''a'' (its ! (j - 1)) = Some a'" "dfld ''b'' (its ! (j - 1)) = Some b'"
         "dfld ''mid'' (its ! (j - 1)) = Some c'" "aj = a' \<and> bj = c' \<or> aj = c' \<and> bj = b'"
      by blast
    from assms(2) have "its ! (j - 1) \<in> set its" by simp
    with ok q(1,2,3) have "c' = ddiv (dadd a' b') (Finite 2)"
      by (metis option.inject)
    with q show ?thesis by blast
  qed
  have x: "dabs (dsub bj aj) = Finite (\<bar>rv b - rv a\<bar> / 2 ^ j)"
    if "list_all exact_row (take (Suc j) its)"
    using chain_exact [OF ch assms(2) that] e by simp
  from f e iter z p' x show ?thesis by blast
qed

text \<open>
  Claim C10 as stated fails on \<^verbatim>\<open>f(x) = x - 0.12\<close> over \<open>[0.1, 0.2]\<close>: the first midpoint
  is rounded to \<^verbatim>\<open>0.15000000000000002\<close>, so the second record's error is
  \<^verbatim>\<open>0.05000000000000002\<close> and not half of the first one, \<^verbatim>\<open>0.1 / 2\<close>. The numbers are
  the binary64 values of the decimal inputs.
\<close>

theorem bisection_error_not_halved_counterexample:
  "bisection64 (\<lambda>x. Inr (dsub x (Finite (1080863910568919 / 9007199254740992))))
     (Finite (3602879701896397 / 36028797018963968)) (Finite (3602879701896397 / 18014398509481984))
     (Finite (7378697629483821 / 73786976294838206464)) 2 =
   Inr (DRoot (Finite (8106479329266893 / 72057594037927936))
     [bisection_row64 1 (Finite (3602879701896397 / 36028797018963968)) (Finite (3602879701896397 / 18014398509481984)) (Finite (1351079888211149 / 9007199254740992)) (Finite (135107988821115 / 4503599627370496)) (Finite (3602879701896397 / 36028797018963968)),
      bisection_row64 2 (Finite (3602879701896397 / 36028797018963968)) (Finite (1351079888211149 / 9007199254740992)) (Finite (1 / 8)) (Finite (45035996273705 / 9007199254740992)) (Finite (1801439850948199 / 36028797018963968))]) \<and>
   is_binary64 (Finite (3602879701896397 / 36028797018963968)) \<and>
   is_binary64 (Finite (3602879701896397 / 18014398509481984)) \<and>
   is_binary64 (Finite (1080863910568919 / 9007199254740992)) \<and>
   (Finite (1801439850948199 / 36028797018963968)) \<noteq>
     Finite (\<bar>rv (Finite (3602879701896397 / 18014398509481984)) - rv (Finite (3602879701896397 / 36028797018963968))\<bar> / 2 ^ 1)"
  by (simp add: bisection64_def is_binary64_def rnd_def nearest_def normalise_def norm_up.simps
      norm_down.simps round_half_even_def pow2_def Let_def dsub_def dmul_def ddiv_def dge_def
      upto.simps)

text \<open>
  The theorem at a run without rounding: \<^verbatim>\<open>f(x) = x - 1.375\<close> over \<open>[1, 2]\<close> with
  tolerance \<open>1/16\<close>, three records with errors \<open>1\<close>, \<open>1/2\<close> and \<open>1/4\<close>.
\<close>

theorem bisection64_error_is_bracket_width_witness:
  "bisection64 (\<lambda>x. Inr (dsub x (Finite (11 / 8)))) (Finite 1) (Finite 2) (Finite (1 / 16)) 3 =
     Inr (DRoot (Finite (11 / 8))
       [bisection_row64 1 (Finite 1) (Finite 2) (Finite (3 / 2)) (Finite (1 / 8)) (Finite 1),
        bisection_row64 2 (Finite 1) (Finite (3 / 2)) (Finite (5 / 4)) (Finite (- 1 / 8)) (Finite (1 / 2)),
        bisection_row64 3 (Finite (5 / 4)) (Finite (3 / 2)) (Finite (11 / 8)) (Finite 0) (Finite (1 / 4))]) \<and>
   (2::nat) < length
       [bisection_row64 1 (Finite 1) (Finite 2) (Finite (3 / 2)) (Finite (1 / 8)) (Finite 1),
        bisection_row64 2 (Finite 1) (Finite (3 / 2)) (Finite (5 / 4)) (Finite (- 1 / 8)) (Finite (1 / 2)),
        bisection_row64 3 (Finite (5 / 4)) (Finite (3 / 2)) (Finite (11 / 8)) (Finite 0) (Finite (1 / 4))] \<and>
   list_all exact_row (take (Suc 2)
       [bisection_row64 1 (Finite 1) (Finite 2) (Finite (3 / 2)) (Finite (1 / 8)) (Finite 1),
        bisection_row64 2 (Finite 1) (Finite (3 / 2)) (Finite (5 / 4)) (Finite (- 1 / 8)) (Finite (1 / 2)),
        bisection_row64 3 (Finite (5 / 4)) (Finite (3 / 2)) (Finite (11 / 8)) (Finite 0) (Finite (1 / 4))]) \<and>
   dfld ''error''
      ([bisection_row64 1 (Finite 1) (Finite 2) (Finite (3 / 2)) (Finite (1 / 8)) (Finite 1),
        bisection_row64 2 (Finite 1) (Finite (3 / 2)) (Finite (5 / 4)) (Finite (- 1 / 8)) (Finite (1 / 2)),
        bisection_row64 3 (Finite (5 / 4)) (Finite (3 / 2)) (Finite (11 / 8)) (Finite 0) (Finite (1 / 4))] ! 2) =
     Some (Finite (\<bar>rv (Finite 2) - rv (Finite 1)\<bar> / 2 ^ 2))"
proof -
  have run: "bisection64 (\<lambda>x. Inr (dsub x (Finite (11 / 8)))) (Finite 1) (Finite 2) (Finite (1 / 16)) 3 =
     Inr (DRoot (Finite (11 / 8))
       [bisection_row64 1 (Finite 1) (Finite 2) (Finite (3 / 2)) (Finite (1 / 8)) (Finite 1),
        bisection_row64 2 (Finite 1) (Finite (3 / 2)) (Finite (5 / 4)) (Finite (- 1 / 8)) (Finite (1 / 2)),
        bisection_row64 3 (Finite (5 / 4)) (Finite (3 / 2)) (Finite (11 / 8)) (Finite 0) (Finite (1 / 4))])"
    by (simp add: bisection64_def rnd_def nearest_def normalise_def norm_up.simps
        norm_down.simps round_half_even_def pow2_def Let_def dsub_def dmul_def ddiv_def dge_def
        upto.simps)
  have len: "(2::nat) < length
       [bisection_row64 1 (Finite 1) (Finite 2) (Finite (3 / 2)) (Finite (1 / 8)) (Finite 1),
        bisection_row64 2 (Finite 1) (Finite (3 / 2)) (Finite (5 / 4)) (Finite (- 1 / 8)) (Finite (1 / 2)),
        bisection_row64 3 (Finite (5 / 4)) (Finite (3 / 2)) (Finite (11 / 8)) (Finite 0) (Finite (1 / 4))]"
    by simp
  have ex: "list_all exact_row (take (Suc 2)
       [bisection_row64 1 (Finite 1) (Finite 2) (Finite (3 / 2)) (Finite (1 / 8)) (Finite 1),
        bisection_row64 2 (Finite 1) (Finite (3 / 2)) (Finite (5 / 4)) (Finite (- 1 / 8)) (Finite (1 / 2)),
        bisection_row64 3 (Finite (5 / 4)) (Finite (3 / 2)) (Finite (11 / 8)) (Finite 0) (Finite (1 / 4))])"
    by (simp add: exact_row_def dfld_def)
  from bisection64_error_is_bracket_width [OF run len] obtain aj bj where
    "dfld ''error''
      ([bisection_row64 1 (Finite 1) (Finite 2) (Finite (3 / 2)) (Finite (1 / 8)) (Finite 1),
        bisection_row64 2 (Finite 1) (Finite (3 / 2)) (Finite (5 / 4)) (Finite (- 1 / 8)) (Finite (1 / 2)),
        bisection_row64 3 (Finite (5 / 4)) (Finite (3 / 2)) (Finite (11 / 8)) (Finite 0) (Finite (1 / 4))] ! 2) = Some (dabs (dsub bj aj))"
    "list_all exact_row (take (Suc 2)
       [bisection_row64 1 (Finite 1) (Finite 2) (Finite (3 / 2)) (Finite (1 / 8)) (Finite 1),
        bisection_row64 2 (Finite 1) (Finite (3 / 2)) (Finite (5 / 4)) (Finite (- 1 / 8)) (Finite (1 / 2)),
        bisection_row64 3 (Finite (5 / 4)) (Finite (3 / 2)) (Finite (11 / 8)) (Finite 0) (Finite (1 / 4))]) \<longrightarrow>
     dabs (dsub bj aj) = Finite (\<bar>rv (Finite 2) - rv (Finite 1)\<bar> / 2 ^ 2)"
    by blast
  with ex have "dfld ''error''
      ([bisection_row64 1 (Finite 1) (Finite 2) (Finite (3 / 2)) (Finite (1 / 8)) (Finite 1),
        bisection_row64 2 (Finite 1) (Finite (3 / 2)) (Finite (5 / 4)) (Finite (- 1 / 8)) (Finite (1 / 2)),
        bisection_row64 3 (Finite (5 / 4)) (Finite (3 / 2)) (Finite (11 / 8)) (Finite 0) (Finite (1 / 4))] ! 2) =
     Some (Finite (\<bar>rv (Finite 2) - rv (Finite 1)\<bar> / 2 ^ 2))"
    by simp
  with run len ex show ?thesis by blast
qed

end
